(* ===== verification/Prelude.thy ===== *)
theory Prelude
  imports Complex_Main "HOL-Library.Word" "HOL-Library.While_Combinator"
begin

text \<open>
  Shared vocabulary of the development. The notebooks run on a Python kernel
  and call PyTorch and TensorFlow; every exception such a call can raise is a
  constructor of \<open>error\<close>, and every operation that can raise returns
  \<open>'a res = error + 'a\<close> with the exception as \<open>Inl\<close>. \<open>res_bind\<close> sequences
  two such operations the way consecutive Python statements do: the first
  exception ends the computation. The theory also holds the list helpers
  the components share: \<open>chunks\<close> (a list cut into consecutive pieces of a
  fixed size, used by the data loader and by row-major tensor storage) and
  the decimal rendering and parsing of natural numbers (used by device
  strings).
\<close>

named_theorems res_simps "evaluation rules for computations in the result type"
named_theorems shape_simps "shape and length facts about tensors and layers"

section \<open>Exceptions and results\<close>

datatype error =
    NoCuda                  \<comment> \<open>CUDA requested on a host without a CUDA device\<close>
  | InvalidDeviceOrdinal    \<comment> \<open>cuda:i with i not below the device count\<close>
  | InvalidDeviceString     \<comment> \<open>torch.device of a malformed string\<close>
  | LegacyConstructorDevice \<comment> \<open>torch.cuda.IntTensor asked for a non-cuda device\<close>
  | DeviceMismatch          \<comment> \<open>operands of one operation on different devices\<close>
  | ShapeError              \<comment> \<open>view, matmul or broadcasting with incompatible shapes\<close>
  | TargetOutOfBounds       \<comment> \<open>nll_loss target outside the class range\<close>
  | BatchSizeMismatch       \<comment> \<open>nll_loss input and target batch sizes differ\<close>
  | OverflowError           \<comment> \<open>a Python int that does not fit the tensor's dtype\<close>
  | IndexError              \<comment> \<open>indexing out of range\<close>
  | KeyError                \<comment> \<open>dictionary lookup of a missing key\<close>
  | MissingKeys             \<comment> \<open>load_state_dict: a parameter of the model is not in the dict\<close>
  | UnexpectedKeys          \<comment> \<open>load_state_dict: the dict has a key the model lacks\<close>
  | SizeMismatch            \<comment> \<open>load_state_dict: a tensor of the wrong shape\<close>
  | FileNotFound            \<comment> \<open>torch.load of a file that was never written\<close>
  | StopIteration           \<comment> \<open>next() on an exhausted iterator\<close>
  | ZeroDivisionError       \<comment> \<open>Python division by zero\<close>
  | NameError               \<comment> \<open>a global name read before any cell defined it\<close>
  | ModuleNotFoundError     \<comment> \<open>import of a package that is not installed\<close>

type_synonym 'a res = "error + 'a"

definition res_bind :: "'a res \<Rightarrow> ('a \<Rightarrow> 'b res) \<Rightarrow> 'b res" where
  "res_bind r f = (case r of Inl e \<Rightarrow> Inl e | Inr a \<Rightarrow> f a)"

lemma res_bind_Inl [simp, res_simps]: "res_bind (Inl e) f = Inl e"
  by (simp add: res_bind_def)

lemma res_bind_Inr [simp, res_simps]: "res_bind (Inr a) f = f a"
  by (simp add: res_bind_def)

lemma res_bind_eq_Inr [res_simps]:
  "res_bind r f = Inr b \<longleftrightarrow> (\<exists>a. r = Inr a \<and> f a = Inr b)"
  by (cases r) auto

lemma res_bind_eq_Inl [res_simps]:
  "res_bind r f = Inl e \<longleftrightarrow> r = Inl e \<or> (\<exists>a. r = Inr a \<and> f a = Inl e)"
  by (cases r) auto

lemma res_bind_assoc [simp]:
  "res_bind (res_bind r f) g = res_bind r (\<lambda>a. res_bind (f a) g)"
  by (cases r) auto

text \<open>A Python \<open>for\<close> loop whose body can raise, over a list of items.\<close>

fun res_fold :: "('s \<Rightarrow> 'a \<Rightarrow> 's res) \<Rightarrow> 'a list \<Rightarrow> 's \<Rightarrow> 's res" where
  "res_fold f [] s = Inr s"
| "res_fold f (x # xs) s = res_bind (f s x) (res_fold f xs)"

lemma res_fold_append:
  "res_fold f (xs @ ys) s = res_bind (res_fold f xs s) (res_fold f ys)"
  by (induction xs arbitrary: s) (auto simp: res_bind_def split: sum.splits)

lemma res_fold_invariant:
  assumes "P s"
    and "\<And>s x s'. P s \<Longrightarrow> x \<in> set xs \<Longrightarrow> f s x = Inr s' \<Longrightarrow> P s'"
    and "res_fold f xs s = Inr s'"
  shows "P s'"
  using assms
proof (induction xs arbitrary: s)
  case Nil
  then show ?case by simp
next
  case (Cons x xs)
  from Cons.prems(3) obtain t where t: "f s x = Inr t" and rest: "res_fold f xs t = Inr s'"
    by (auto simp: res_bind_eq_Inr)
  have "P t" using Cons.prems(2) [of s x t] Cons.prems(1) t by simp
  moreover have "\<And>s y s'. P s \<Longrightarrow> y \<in> set xs \<Longrightarrow> f s y = Inr s' \<Longrightarrow> P s'"
  proof -
    fix s y s'
    assume "P s" "y \<in> set xs" "f s y = Inr s'"
    then show "P s'" using Cons.prems(2) [of s y s'] by simp
  qed
  ultimately show ?case using rest by (rule Cons.IH)
qed

lemma res_fold_total:
  assumes "\<And>s x. x \<in> set xs \<Longrightarrow> \<exists>t. f s x = Inr t"
  shows "\<exists>t. res_fold f xs s = Inr t"
  using assms
proof (induction xs arbitrary: s)
  case Nil
  then show ?case by simp
next
  case (Cons x xs)
  from Cons.prems [of x s] obtain t where "f s x = Inr t" by auto
  with Cons show ?case by auto
qed

lemma res_fold_fails:
  assumes "P s"
    and "\<And>s y s'. P s \<Longrightarrow> y \<in> set xs \<Longrightarrow> f s y = Inr s' \<Longrightarrow> P s'"
    and "x \<in> set xs" and "\<And>s. P s \<Longrightarrow> \<exists>e. f s x = Inl e"
  shows "\<exists>e. res_fold f xs s = Inl e"
  using assms(1,2,3)
proof (induction xs arbitrary: s)
  case Nil
  then show ?case by simp
next
  case (Cons y ys)
  show ?case
  proof (cases "f s y")
    case (Inl e)
    then show ?thesis by simp
  next
    case (Inr s1)
    show ?thesis
    proof (cases "y = x")
      case True
      then show ?thesis using assms(4) [OF Cons.prems(1)] Inr by simp
    next
      case False
      have p1: "P s1" using Cons.prems(2) [of s y s1] Cons.prems(1) Inr by simp
      have "\<And>s z s'. P s \<Longrightarrow> z \<in> set ys \<Longrightarrow> f s z = Inr s' \<Longrightarrow> P s'"
      proof -
        fix s z s'
        assume "P s" "z \<in> set ys" "f s z = Inr s'"
        then show "P s'" using Cons.prems(2) [of s z s'] by simp
      qed
      moreover have "x \<in> set ys" using Cons.prems(3) False by simp
      ultimately show ?thesis using Cons.IH [OF p1] Inr by simp
    qed
  qed
qed

text \<open>
  The \<open>for\<close> statement over an iterable, as Python runs it: \<open>iter()\<close>, then
  \<open>next()\<close> until \<open>StopIteration\<close>, the body run on each item, the first
  exception ending the loop. The loop state is the remaining iterator and the
  result so far; the loop is kept as a loop with \<open>while\<close>.
\<close>

definition for_guard :: "'a list \<times> 's res \<Rightarrow> bool" where
  "for_guard st = (fst st \<noteq> [] \<and> (case snd st of Inl _ \<Rightarrow> False | Inr _ \<Rightarrow> True))"

definition for_step :: "('s \<Rightarrow> 'a \<Rightarrow> 's res) \<Rightarrow> 'a list \<times> 's res \<Rightarrow> 'a list \<times> 's res" where
  "for_step f st = (tl (fst st), res_bind (snd st) (\<lambda>s. f s (hd (fst st))))"

definition py_for :: "('s \<Rightarrow> 'a \<Rightarrow> 's res) \<Rightarrow> 'a list \<Rightarrow> 's \<Rightarrow> 's res" where
  "py_for f xs s = snd (while for_guard (for_step f) (xs, Inr s))"

lemma res_bind_Inr_right [simp]: "res_bind r Inr = r"
  by (cases r) simp_all

lemma py_for_while_Some: "\<exists>st. while_option for_guard (for_step f) (xs, Inr s) = Some st"
  by (rule measure_while_option_Some [where P = "\<lambda>_. True" and f = "\<lambda>st. length (fst st)"])
     (auto simp: for_guard_def for_step_def)

lemma py_for_fold: "py_for f xs s = res_fold f xs s"
proof -
  obtain st where st: "while_option for_guard (for_step f) (xs, Inr s) = Some st"
    using py_for_while_Some [of f xs s] by blast
  let ?I = "\<lambda>st. res_bind (snd st) (res_fold f (fst st)) = res_fold f xs s"
  have "?I st"
  proof (rule while_option_rule [OF _ st])
    fix st' assume i: "?I st'" and g: "for_guard st'"
    then obtain x it s' where "st' = (x # it, Inr s')"
      by (cases st') (auto simp: for_guard_def neq_Nil_conv split: sum.splits)
    with i show "?I (for_step f st')" by (simp add: for_step_def)
  qed simp
  moreover have "\<not> for_guard st" using while_option_stop [OF st] .
  ultimately have "snd st = res_fold f xs s"
    by (cases st) (auto simp: for_guard_def split: sum.splits)
  then show ?thesis using st by (simp add: py_for_def while_def)
qed

text \<open>A list comprehension whose element function can raise: the first error wins.\<close>

fun res_map :: "('a \<Rightarrow> 'b res) \<Rightarrow> 'a list \<Rightarrow> 'b list res" where
  "res_map f [] = Inr []"
| "res_map f (x # xs) = res_bind (f x) (\<lambda>y. res_bind (res_map f xs) (\<lambda>ys. Inr (y # ys)))"

lemma res_map_Inr:
  "(\<And>x. x \<in> set xs \<Longrightarrow> f x = Inr (g x)) \<Longrightarrow> res_map f xs = Inr (map g xs)"
  by (induction xs) simp_all

lemma res_map_Inl:
  "x \<in> set xs \<Longrightarrow> f x = Inl e \<Longrightarrow> \<exists>e'. res_map f xs = Inl e'"
  by (induction xs) (auto simp: res_bind_def split: sum.splits)

section \<open>Exceptions that keep the state reached\<close>

text \<open>
  In a running kernel an exception does not undo what the cell did before it:
  objects mutated and names bound before the raising statement stay so. A
  computation of this kind returns the state it reached and the exception it
  raised, if any. \<open>raise_or r s k\<close> runs a call \<open>r\<close> that either raises,
  leaving the state \<open>s\<close>, or returns a value that \<open>k\<close> continues with;
  \<open>exc_for\<close> is a \<open>for\<close> statement whose body mutates the state, the
  first exception ending it in the state the body reached.
\<close>

type_synonym 's exc = "'s \<times> error option"

definition raise_or :: "'a res \<Rightarrow> 's \<Rightarrow> ('a \<Rightarrow> 's exc) \<Rightarrow> 's exc" where
  "raise_or r s k = (case r of Inl e \<Rightarrow> (s, Some e) | Inr a \<Rightarrow> k a)"

fun exc_for :: "('s \<Rightarrow> 'a \<Rightarrow> 's exc) \<Rightarrow> 'a list \<Rightarrow> 's \<Rightarrow> 's exc" where
  "exc_for f [] s = (s, None)"
| "exc_for f (x # xs) s = (case f s x of (s', None) \<Rightarrow> exc_for f xs s' | (s', Some e) \<Rightarrow> (s', Some e))"

text \<open>The outcome seen from outside: the value, or the exception alone.\<close>

definition exc_res :: "'s exc \<Rightarrow> 's res" where
  "exc_res r = (case snd r of None \<Rightarrow> Inr (fst r) | Some e \<Rightarrow> Inl e)"

lemma raise_or_Inl [simp]: "raise_or (Inl e) s k = (s, Some e)"
  by (simp add: raise_or_def)

lemma raise_or_Inr [simp]: "raise_or (Inr a) s k = k a"
  by (simp add: raise_or_def)

lemma exc_res_simps [simp]: "exc_res (s, None) = Inr s" "exc_res (s, Some e) = Inl e"
  by (simp_all add: exc_res_def)

text \<open>
  A state-keeping loop refines the fold of a function on an abstraction of its
  state when each step does, on states satisfying a property every step keeps.
\<close>

lemma exc_for_sim:
  assumes step: "\<And>s x. P s \<Longrightarrow> exc_res (apfst \<pi> (f s x)) = g (\<pi> s) x"
    and keep: "\<And>s x. P s \<Longrightarrow> P (fst (f s x))" and "P s"
  shows "exc_res (apfst \<pi> (exc_for f xs s)) = res_fold g xs (\<pi> s) \<and> P (fst (exc_for f xs s))"
  using \<open>P s\<close>
proof (induction xs arbitrary: s)
  case Nil
  then show ?case by simp
next
  case (Cons x xs)
  obtain s' eo where fx: "f s x = (s', eo)" by (cases "f s x")
  have "P s'" using keep [OF Cons.prems, of x] fx by simp
  moreover have "g (\<pi> s) x = exc_res (\<pi> s', eo)" using step [OF Cons.prems, of x] fx by simp
  ultimately show ?case using Cons.IH fx by (cases eo) simp_all
qed

lemma exc_for_invariant:
  assumes "\<And>s x. x \<in> set xs \<Longrightarrow> P s \<Longrightarrow> P (fst (f s x))" and "P s"
  shows "P (fst (exc_for f xs s))"
  using assms
proof (induction xs arbitrary: s)
  case (Cons x xs)
  obtain s' eo where fx: "f s x = (s', eo)" by (cases "f s x")
  have "P s'" using Cons.prems(1) [of x s] Cons.prems(2) fx by simp
  then have "P (fst (exc_for f xs s'))" using Cons.IH Cons.prems(1) by simp
  with \<open>P s'\<close> fx show ?case by (cases eo) simp_all
qed simp

lemma exc_for_append:
  "exc_for f (xs @ ys) s = (case exc_for f xs s of (s', None) \<Rightarrow> exc_for f ys s' | (s', Some e) \<Rightarrow> (s', Some e))"
  by (induction xs arbitrary: s) (auto split: prod.splits option.splits)

section \<open>Consecutive pieces of a list\<close>

text \<open>
  \<open>chunks n xs\<close> cuts \<open>xs\<close> into consecutive pieces of length \<open>n\<close>, the last
  one possibly shorter: the batches of a DataLoader with \<open>shuffle=False\<close>, and
  the rows of a row-major matrix. A size of 0 gives no pieces.
\<close>

fun chunks :: "nat \<Rightarrow> 'a list \<Rightarrow> 'a list list" where
  "chunks 0 xs = []"
| "chunks (Suc n) [] = []"
| "chunks (Suc n) (x # xs) = take (Suc n) (x # xs) # chunks (Suc n) (drop (Suc n) (x # xs))"

lemma concat_chunks [simp]: "0 < n \<Longrightarrow> concat (chunks n xs) = xs"
  by (induction n xs rule: chunks.induct) auto

lemma chunks_nonempty: "ys \<in> set (chunks n xs) \<Longrightarrow> ys \<noteq> []"
  by (induction n xs rule: chunks.induct) auto

lemma chunks_subset: "ys \<in> set (chunks n xs) \<Longrightarrow> set ys \<subseteq> set xs"
  by (induction n xs rule: chunks.induct) (auto dest: in_set_takeD in_set_dropD)

lemma chunks_length_le: "ys \<in> set (chunks n xs) \<Longrightarrow> length ys \<le> n"
  by (induction n xs rule: chunks.induct) auto

lemma div_round_up_multiple: "0 < (n::nat) \<Longrightarrow> (m * n + n - 1) div n = m"
proof -
  assume h: "0 < n"
  then obtain k where n: "n = Suc k" by (cases n) auto
  then have "m * n + n - 1 = k + m * n" by simp
  also have "(k + m * n) div n = m + k div n"
    using h by (simp only: div_mult_self1 neq0_conv)
  finally show ?thesis using n by simp
qed

lemma length_chunks: "length (chunks n xs) = (if n = 0 then 0 else (length xs + n - 1) div n)"
proof (induction n xs rule: chunks.induct)
  case (3 n x xs)
  have step: "Suc (length xs + n) div Suc n = length xs div Suc n + 1"
  proof -
    have "Suc (length xs + n) = length xs + 1 * Suc n" by simp
    then show ?thesis by (simp only: div_mult_self1 nat.distinct(1))
  qed
  show ?case
  proof (cases "n \<le> length xs")
    case True
    then have "length xs - n + n = length xs" by simp
    with "3" step show ?thesis by simp
  next
    case False
    then have "length xs div Suc n = 0" and "(length xs - n + n) div Suc n = 0" by simp_all
    with "3" step show ?thesis by simp
  qed
qed simp_all

lemma chunks_dvd_length:
  assumes "n dvd length xs" and "ys \<in> set (chunks n xs)"
  shows "length ys = n"
  using assms
proof (induction n xs rule: chunks.induct)
  case (3 n x xs)
  show ?case
  proof (cases "ys = take (Suc n) (x # xs)")
    case True
    from "3.prems"(1) have "Suc n \<le> length (x # xs)"
      by (auto dest: dvd_imp_le)
    with True show ?thesis by simp
  next
    case False
    with "3.prems"(2) have "ys \<in> set (chunks (Suc n) (drop (Suc n) (x # xs)))" by simp
    moreover have "Suc n dvd length (drop (Suc n) (x # xs))"
    proof -
      have "length (drop (Suc n) (x # xs)) = length (x # xs) - Suc n" by simp
      with "3.prems"(1) show ?thesis by (simp only: dvd_diff_nat dvd_refl)
    qed
    ultimately show ?thesis using "3.IH" by simp
  qed
qed simp_all

lemma chunks_of_multiple:
  assumes "length xs = m * n" and "0 < n"
  shows "length (chunks n xs) = m \<and> (\<forall>ys \<in> set (chunks n xs). length ys = n)"
proof
  have "(m * n + n - 1) div n = m"
    using assms(2) by (rule div_round_up_multiple)
  then show "length (chunks n xs) = m"
    using assms by (simp add: length_chunks)
  have "n dvd length xs" using assms(1) by simp
  then show "\<forall>ys \<in> set (chunks n xs). length ys = n"
    by (blast intro: chunks_dvd_length)
qed

lemma length_concat_const:
  "\<forall>ys \<in> set yss. length ys = n \<Longrightarrow> length (concat yss) = length yss * n"
  by (induction yss) auto

lemma concat_map_concat_map:
  "concat (map (\<lambda>b. concat (map f b)) xss) = concat (map f (concat xss))"
  by (induction xss) auto

lemma chunks_concat:
  assumes "0 < n" and "\<forall>ys \<in> set yss. length ys = n"
  shows "chunks n (concat yss) = yss"
  using assms(2)
proof (induction yss)
  case Nil
  then show ?case using assms(1) by (cases n) simp_all
next
  case (Cons ys yss)
  then have ys: "length ys = n" and rest: "chunks n (concat yss) = yss" by simp_all
  from ys assms(1) obtain y ys' m where "ys = y # ys'" and n: "n = Suc m"
    by (cases ys; cases n) auto
  then show ?case using ys rest by simp
qed

lemma chunks_partial:
  assumes "0 < n" and "\<not> n dvd length xs"
  shows "\<exists>c \<in> set (chunks n xs). length c \<noteq> n"
proof (rule ccontr)
  assume "\<not> (\<exists>c \<in> set (chunks n xs). length c \<noteq> n)"
  then have "\<forall>c \<in> set (chunks n xs). length c = n" by simp
  then have "length (concat (chunks n xs)) = length (chunks n xs) * n" by (rule length_concat_const)
  then have "length xs = length (chunks n xs) * n" using assms(1) by simp
  then show False using assms(2) by simp
qed

section \<open>Sums of real lists\<close>

lemma sum_list_map_divide: "sum_list (map (\<lambda>x. f x / c) xs) = sum_list (map f xs) / (c :: real)"
  by (induction xs) (simp_all add: add_divide_distrib)

lemma sum_list_map_pos:
  "xs \<noteq> [] \<Longrightarrow> (\<And>x. 0 < f x) \<Longrightarrow> 0 < sum_list (map f xs :: real list)"
proof (induction xs)
  case Nil
  then show ?case by simp
next
  case (Cons x xs)
  have "0 \<le> sum_list (map f xs)"
    using Cons.prems(2) by (induction xs) (simp_all add: less_imp_le add_nonneg_nonneg)
  with Cons.prems(2) [of x] show ?case by simp
qed

lemma elem_le_sum_list_map:
  "x \<in> set xs \<Longrightarrow> (\<And>x. 0 \<le> f x) \<Longrightarrow> f x \<le> sum_list (map f xs :: real list)"
proof (induction xs)
  case Nil
  then show ?case by simp
next
  case (Cons y xs)
  have nn: "0 \<le> sum_list (map f xs)"
    using Cons.prems(2) by (induction xs) (simp_all add: add_nonneg_nonneg)
  show ?case
  proof (cases "x = y")
    case True
    with nn show ?thesis by simp
  next
    case False
    with Cons have "f x \<le> sum_list (map f xs)" by simp
    with Cons.prems(2) [of y] show ?thesis by simp
  qed
qed

section \<open>Decimal strings of natural numbers\<close>

text \<open>
  Python's \<open>str\<close> of a non-negative int, and the digit-string parser of the
  device-string grammar, which rejects leading zeros.
\<close>

definition digit_char :: "nat \<Rightarrow> char" where
  "digit_char d = char_of (48 + d)"

definition char_digit :: "char \<Rightarrow> nat option" where
  "char_digit c = (let k = of_char c :: nat in if 48 \<le> k \<and> k \<le> 57 then Some (k - 48) else None)"

lemma digit_char_0 [simp]: "digit_char 0 = CHR ''0''"
  unfolding digit_char_def by code_simp

lemma char_digit_digit_char [simp]: "d < 10 \<Longrightarrow> char_digit (digit_char d) = Some d"
  by (simp add: char_digit_def digit_char_def Let_def of_char_of)

fun string_of_nat :: "nat \<Rightarrow> string" where
  "string_of_nat n = (if n < 10 then [digit_char n] else string_of_nat (n div 10) @ [digit_char (n mod 10)])"

declare string_of_nat.simps [simp del]

fun digits_value :: "nat \<Rightarrow> string \<Rightarrow> nat option" where
  "digits_value acc [] = Some acc"
| "digits_value acc (c # cs) =
     (case char_digit c of None \<Rightarrow> None | Some d \<Rightarrow> digits_value (10 * acc + d) cs)"

definition nat_of_string :: "string \<Rightarrow> nat option" where
  "nat_of_string s =
     (case s of [] \<Rightarrow> None
      | c # cs \<Rightarrow> if c = CHR ''0'' \<and> cs \<noteq> [] then None else digits_value 0 s)"

lemma digits_value_append:
  "digits_value acc (xs @ ys) = (case digits_value acc xs of None \<Rightarrow> None | Some a \<Rightarrow> digits_value a ys)"
  by (induction acc xs rule: digits_value.induct) (auto split: option.splits)

lemma digits_value_string_of_nat: "digits_value acc (string_of_nat n) = Some (acc * 10 ^ length (string_of_nat n) + n)"
proof (induction n arbitrary: acc rule: string_of_nat.induct)
  case (1 n)
  show ?case
  proof (cases "n < 10")
    case True
    then show ?thesis by (simp add: string_of_nat.simps [of n])
  next
    case False
    have "n = 10 * (n div 10) + n mod 10" by simp
    with False "1" show ?thesis
      by (simp add: string_of_nat.simps [of n] digits_value_append algebra_simps)
  qed
qed

lemma string_of_nat_0 [simp]: "string_of_nat 0 = ''0''"
  by (simp add: string_of_nat.simps [of 0])

lemma string_of_nat_nonempty [simp]: "string_of_nat n \<noteq> []"
  by (simp add: string_of_nat.simps [of n])

lemma string_of_nat_head:
  "hd (string_of_nat n) = CHR ''0'' \<Longrightarrow> n = 0"
proof (induction n rule: string_of_nat.induct)
  case (1 n)
  show ?case
  proof (cases "n < 10")
    case True
    with "1.prems" have "char_of (48 + n) = CHR ''0''"
      by (simp add: string_of_nat.simps [of n] digit_char_def)
    then have "(of_char (char_of (48 + n)) :: nat) = of_char (CHR ''0'')" by simp
    with True show ?thesis by (simp add: of_char_of)
  next
    case False
    with "1.prems" have "hd (string_of_nat (n div 10)) = CHR ''0''"
      by (simp add: string_of_nat.simps [of n])
    with False "1.IH" show ?thesis by simp
  qed
qed

lemma nat_of_string_of_nat [simp]: "nat_of_string (string_of_nat n) = Some n"
proof (cases "string_of_nat n")
  case Nil
  then show ?thesis by simp
next
  case (Cons c cs)
  have val: "digits_value 0 (string_of_nat n) = Some n"
    by (simp add: digits_value_string_of_nat)
  have "\<not> (c = CHR ''0'' \<and> cs \<noteq> [])"
  proof
    assume "c = CHR ''0'' \<and> cs \<noteq> []"
    then have "n = 0" using Cons string_of_nat_head by fastforce
    then have "string_of_nat n = [CHR ''0'']"
      by (simp add: string_of_nat.simps [of n])
    with Cons \<open>c = CHR ''0'' \<and> cs \<noteq> []\<close> show False by simp
  qed
  with Cons val show ?thesis by (simp add: nat_of_string_def)
qed

section \<open>Properties\<close>

text \<open>
  The \<open>for\<close> statement over a loader (\<open>iter\<close>, then \<open>next\<close> until
  \<open>StopIteration\<close> or an exception) terminates on every finite iterable:
  the loop reaches a final state, and its result is the fold of the body over
  the items in order, stopped at the first exception.
\<close>

theorem py_for_terminates:
  "\<exists>st. while_option for_guard (for_step f) (xs, Inr s) = Some st \<and> py_for f xs s = res_fold f xs s"
  using py_for_while_Some [of f xs s] py_for_fold [of f xs s] by blast

end
