(* ===== verification/Device.thy ===== *)
theory Device
  imports Prelude
begin

text \<open>
  Devices and the host. A \<open>torch.device\<close> is a device type and an optional
  index; the notebooks build one from a string (\<open>torch.device("cuda:0")\<close>,
  \<open>torch.device("cpu")\<close>) and print it (\<open>print(device)\<close>). The host is the
  list of CUDA devices its driver exposes: \<open>torch.cuda.is_available()\<close>,
  \<open>torch.cuda.device_count()\<close> and \<open>torch.cuda.get_device_name(i)\<close> read it.
  \<open>resolve_device\<close> is what \<open>.to(d)\<close> and \<open>.cuda()\<close> make of a requested
  device: the concrete device the data lands on, or the exception raised.
\<close>

section \<open>Device values\<close>

datatype device_type = CPU | CUDA

record device =
  dev_type :: device_type
  dev_index :: "nat option"

definition cpu_device :: device where
  "cpu_device = \<lparr>dev_type = CPU, dev_index = None\<rparr>"

definition cuda_device :: "nat \<Rightarrow> device" where
  "cuda_device i = \<lparr>dev_type = CUDA, dev_index = Some i\<rparr>"

definition device_type_str :: "device_type \<Rightarrow> string" where
  "device_type_str t = (case t of CPU \<Rightarrow> ''cpu'' | CUDA \<Rightarrow> ''cuda'')"

definition device_type_of_string :: "string \<Rightarrow> device_type option" where
  "device_type_of_string s =
     (if s = ''cpu'' then Some CPU else if s = ''cuda'' then Some CUDA else None)"

text \<open>\<open>str(device)\<close>: the type, then \<open>:index\<close> when an index is set.\<close>

definition device_str :: "device \<Rightarrow> string" where
  "device_str d = device_type_str (dev_type d) @
     (case dev_index d of None \<Rightarrow> [] | Some i \<Rightarrow> CHR '':'' # string_of_nat i)"

text \<open>
  \<open>torch.device(s)\<close>: the text before the first colon names the type, the
  text after it is the index, a decimal number without leading zeros.
  Anything else raises.
\<close>

definition parse_device :: "string \<Rightarrow> device res" where
  "parse_device s =
     (let name = takeWhile (\<lambda>c. c \<noteq> CHR '':'') s;
          rest = dropWhile (\<lambda>c. c \<noteq> CHR '':'') s
      in case device_type_of_string name of
           None \<Rightarrow> Inl InvalidDeviceString
         | Some t \<Rightarrow>
             (case rest of
                [] \<Rightarrow> Inr \<lparr>dev_type = t, dev_index = None\<rparr>
              | _ # idx \<Rightarrow>
                  (case nat_of_string idx of
                     None \<Rightarrow> Inl InvalidDeviceString
                   | Some i \<Rightarrow> Inr \<lparr>dev_type = t, dev_index = Some i\<rparr>)))"

section \<open>The host and torch.cuda\<close>

record host =
  gpu_names :: "string list"

definition cuda_is_available :: "host \<Rightarrow> bool" where
  "cuda_is_available h = (gpu_names h \<noteq> [])"

definition cuda_device_count :: "host \<Rightarrow> nat" where
  "cuda_device_count h = length (gpu_names h)"

definition get_device_name :: "host \<Rightarrow> nat \<Rightarrow> string res" where
  "get_device_name h i =
     (if \<not> cuda_is_available h then Inl NoCuda
      else if i < cuda_device_count h then Inr (gpu_names h ! i)
      else Inl InvalidDeviceOrdinal)"

text \<open>
  The device-selection cell of both PyTorch notebooks:
  \<open>device = torch.device("cuda:0" if torch.cuda.is_available() else "cpu")\<close>.
\<close>

definition select_device :: "host \<Rightarrow> device res" where
  "select_device h = parse_device (if cuda_is_available h then ''cuda:0'' else ''cpu'')"

text \<open>
  Where data moved with \<open>.to(d)\<close> lands: a CPU request gives the CPU device
  (CPU tensors carry no index); a CUDA request without an index goes to the
  current device, 0; a CUDA request raises when the host has no CUDA device or
  the index is not below the device count.
\<close>

definition resolve_device :: "host \<Rightarrow> device \<Rightarrow> device res" where
  "resolve_device h d =
     (case dev_type d of
        CPU \<Rightarrow> Inr cpu_device
      | CUDA \<Rightarrow>
          (if \<not> cuda_is_available h then Inl NoCuda
           else case dev_index d of
                  None \<Rightarrow> Inr (cuda_device 0)
                | Some i \<Rightarrow> if i < cuda_device_count h then Inr (cuda_device i)
                            else Inl InvalidDeviceOrdinal))"

text \<open>A device data can live on: the CPU, or a CUDA device the host has.\<close>

definition valid_device :: "host \<Rightarrow> device \<Rightarrow> bool" where
  "valid_device h d =
     (d = cpu_device \<or> (\<exists>i. d = cuda_device i \<and> i < cuda_device_count h))"

section \<open>Lemmas\<close>

lemma device_type_str_no_colon [simp]: "CHR '':'' \<notin> set (device_type_str t)"
  by (cases t) (simp_all add: device_type_str_def)

lemma device_type_of_string_str [simp]: "device_type_of_string (device_type_str t) = Some t"
  by (cases t) (simp_all add: device_type_str_def device_type_of_string_def)

lemma digit_char_not_colon [simp]: "d < 10 \<Longrightarrow> CHR '':'' \<noteq> digit_char d"
proof
  assume "d < 10" and eq: "CHR '':'' = digit_char d"
  have "(of_char (digit_char d) :: nat) = of_char (CHR '':'')" using eq by simp
  then have "(48 + d) mod 256 = (58::nat)" by (simp add: digit_char_def of_char_of)
  moreover have "(48 + d) mod 256 = 48 + d" using \<open>d < 10\<close> by simp
  ultimately show False using \<open>d < 10\<close> by simp
qed

lemma string_of_nat_no_colon [simp]: "CHR '':'' \<notin> set (string_of_nat n)"
proof (induction n rule: string_of_nat.induct)
  case (1 n)
  have "n mod 10 < 10" by simp
  with "1" show ?case by (simp add: string_of_nat.simps [of n])
qed

lemma takeWhile_not_colon:
  "CHR '':'' \<notin> set xs \<Longrightarrow> takeWhile (\<lambda>c. c \<noteq> CHR '':'') (xs @ ys) = xs @ takeWhile (\<lambda>c. c \<noteq> CHR '':'') ys"
  by (induction xs) auto

lemma takeWhile_no_colon [simp]:
  "CHR '':'' \<notin> set xs \<Longrightarrow> takeWhile (\<lambda>c. c \<noteq> CHR '':'') xs = xs"
  by (induction xs) auto

lemma dropWhile_no_colon [simp]:
  "CHR '':'' \<notin> set xs \<Longrightarrow> dropWhile (\<lambda>c. c \<noteq> CHR '':'') xs = []"
  by (induction xs) auto

lemma dropWhile_not_colon:
  "CHR '':'' \<notin> set xs \<Longrightarrow> dropWhile (\<lambda>c. c \<noteq> CHR '':'') (xs @ ys) = dropWhile (\<lambda>c. c \<noteq> CHR '':'') ys"
  by (induction xs) auto

lemma cuda_is_available_count: "cuda_is_available h \<longleftrightarrow> 0 < cuda_device_count h"
  by (simp add: cuda_is_available_def cuda_device_count_def)

lemma valid_cpu [simp]: "valid_device h cpu_device"
  by (simp add: valid_device_def)

lemma valid_cuda [simp]: "valid_device h (cuda_device i) \<longleftrightarrow> i < cuda_device_count h"
  by (auto simp: valid_device_def cuda_device_def cpu_device_def)

lemma dev_type_cpu [simp]: "dev_type cpu_device = CPU"
  and dev_type_cuda [simp]: "dev_type (cuda_device i) = CUDA"
  and dev_index_cuda [simp]: "dev_index (cuda_device i) = Some i"
  by (simp_all add: cpu_device_def cuda_device_def)

lemma resolve_device_cpu [simp]: "dev_type d = CPU \<Longrightarrow> resolve_device h d = Inr cpu_device"
  by (simp add: resolve_device_def)

lemma resolve_device_cuda_index [simp]:
  "resolve_device h (cuda_device i) =
     (if \<not> cuda_is_available h then Inl NoCuda
      else if i < cuda_device_count h then Inr (cuda_device i) else Inl InvalidDeviceOrdinal)"
  by (simp add: resolve_device_def)

lemma select_device_value:
  "select_device h = Inr (if cuda_is_available h then cuda_device 0 else cpu_device)"
  by (simp add: select_device_def parse_device_def device_type_of_string_def
      nat_of_string_def char_digit_def cuda_device_def cpu_device_def)

lemma resolve_device_lands:
  assumes "resolve_device h d = Inr d'"
  shows "valid_device h d' \<and> resolve_device h d' = Inr d'"
  using assms cuda_is_available_count [of h]
  by (auto simp: resolve_device_def split: device_type.splits option.splits if_splits)

section \<open>Properties\<close>

text \<open>
  Printing a device and parsing the printed string gives the device back:
  \<open>torch.device(str(d)) == d\<close> for every CPU or CUDA device value.
\<close>

theorem parse_device_str: "parse_device (device_str d) = Inr d"
proof (cases "dev_index d")
  case None
  then show ?thesis
    by (simp add: parse_device_def device_str_def)
next
  case (Some i)
  let ?suf = "CHR '':'' # string_of_nat i"
  have tw: "takeWhile (\<lambda>c. c \<noteq> CHR '':'') (device_type_str (dev_type d) @ ?suf) = device_type_str (dev_type d)"
    by (simp add: takeWhile_not_colon)
  have dw: "dropWhile (\<lambda>c. c \<noteq> CHR '':'') (device_type_str (dev_type d) @ ?suf) = ?suf"
    by (simp add: dropWhile_not_colon)
  show ?thesis
    using Some tw dw by (simp add: parse_device_def device_str_def)
qed

text \<open>
  Wherever \<open>.to(d)\<close> puts data, the device is one the host has, and moving
  the data there again leaves it in place (\<open>.to\<close> of the resolved device is
  the identity on devices).
\<close>

theorem resolve_device_valid:
  assumes "resolve_device h d = Inr d'"
  shows "valid_device h d' \<and> resolve_device h d' = Inr d'"
  using assms by (rule resolve_device_lands)

theorem resolve_device_valid_witness:
  "resolve_device \<lparr>gpu_names = [''Tesla T4'']\<rparr> (cuda_device 0) = Inr (cuda_device 0) \<and>
   valid_device \<lparr>gpu_names = [''Tesla T4'']\<rparr> (cuda_device 0) \<and>
   resolve_device \<lparr>gpu_names = [''Tesla T4'']\<rparr> (cuda_device 0) = Inr (cuda_device 0)"
proof -
  have r: "resolve_device \<lparr>gpu_names = [''Tesla T4'']\<rparr> (cuda_device 0) = Inr (cuda_device 0)"
    by (simp add: cuda_is_available_def cuda_device_count_def)
  show ?thesis using r resolve_device_valid [OF r] by simp
qed

text \<open>
  C18: the device chosen by the selection cell is usable as it is: moving data
  to it never raises, on any host, and the data lands on exactly that device.
\<close>

theorem selected_device_usable:
  assumes "select_device h = Inr d"
  shows "resolve_device h d = Inr d"
  using assms cuda_is_available_count [of h]
  by (auto simp: select_device_value split: if_splits)

theorem selected_device_usable_witness:
  "select_device \<lparr>gpu_names = []\<rparr> = Inr cpu_device \<and> resolve_device \<lparr>gpu_names = []\<rparr> cpu_device = Inr cpu_device"
proof -
  have s: "select_device \<lparr>gpu_names = []\<rparr> = Inr cpu_device"
    by (simp add: select_device_value cuda_is_available_def)
  show ?thesis using s selected_device_usable [OF s] by simp
qed

end
