(* ===== verification/Tensor.thy ===== *)
theory Tensor
  imports Device
begin

text \<open>
  Tensors as the notebooks use them: a contiguous row-major buffer, a shape and
  the device the buffer lives on. \<open>torch.IntTensor\<close> elements are 32-bit
  two's-complement words; the model layers use reals (the idealised float32).
  The operations are the ones the cells call: construction from a Python list,
  \<open>.to(device)\<close>, \<open>.cuda()\<close>, \<open>.is_cuda\<close>, \<open>.view(b, -1)\<close>, \<open>.squeeze()\<close>,
  \<open>.squeeze(0)\<close>, and \<open>argmax\<close> over a whole tensor or along dimension 1.
\<close>

unbundle bit_operations_syntax

type_synonym i32 = "32 word"

record 'a tensor =
  tdata :: "'a list"
  tshape :: "nat list"
  tdevice :: device

definition numel :: "'a tensor \<Rightarrow> nat" where
  "numel t = length (tdata t)"

text \<open>A tensor is well formed when its buffer holds exactly as many elements as its shape says.\<close>

definition wf_tensor :: "'a tensor \<Rightarrow> bool" where
  "wf_tensor t = (length (tdata t) = prod_list (tshape t))"

definition is_cuda :: "'a tensor \<Rightarrow> bool" where
  "is_cuda t = (dev_type (tdevice t) = CUDA)"

section \<open>Placement\<close>

text \<open>\<open>t.to(d)\<close>: the same contents on the device \<open>d\<close> resolves to.\<close>

definition tensor_to :: "host \<Rightarrow> 'a tensor \<Rightarrow> device \<Rightarrow> 'a tensor res" where
  "tensor_to h t d = res_bind (resolve_device h d) (\<lambda>d'. Inr (t\<lparr>tdevice := d'\<rparr>))"

text \<open>\<open>t.cuda()\<close>: \<open>.to\<close> the current CUDA device, whatever \<open>device\<close> the notebook selected.\<close>

definition tensor_cuda :: "host \<Rightarrow> 'a tensor \<Rightarrow> 'a tensor res" where
  "tensor_cuda h t = tensor_to h t \<lparr>dev_type = CUDA, dev_index = None\<rparr>"

section \<open>Integer tensors\<close>

definition int32_range :: "int \<Rightarrow> bool" where
  "int32_range v = (- (2 ^ 31) \<le> v \<and> v < 2 ^ 31)"

text \<open>
  Conversion of Python ints to int32 elements: a value outside the int32 range
  raises instead of wrapping around.
\<close>

definition int32_list :: "int list \<Rightarrow> i32 list res" where
  "int32_list vs = (if list_all int32_range vs then Inr (map word_of_int vs) else Inl OverflowError)"

text \<open>\<open>torch.IntTensor([v0, ..., vn])\<close>: a one-dimensional int32 tensor on the CPU.\<close>

definition int_tensor :: "int list \<Rightarrow> i32 tensor res" where
  "int_tensor vs =
     res_bind (int32_list vs)
       (\<lambda>ws. Inr \<lparr>tdata = ws, tshape = [length ws], tdevice = cpu_device\<rparr>)"

text \<open>
  \<open>torch.cuda.IntTensor(data, device=d)\<close>, the legacy CUDA constructor: a
  device of another type raises, then the data is converted, then placed on
  the device \<open>d\<close> resolves to.
\<close>

definition cuda_int_tensor :: "host \<Rightarrow> int list \<Rightarrow> device \<Rightarrow> i32 tensor res" where
  "cuda_int_tensor h vs d =
     (if dev_type d \<noteq> CUDA then Inl LegacyConstructorDevice
      else res_bind (int_tensor vs) (\<lambda>t. tensor_to h t d))"

section \<open>Shape operations\<close>

text \<open>
  \<open>t.view(b, -1)\<close>: the same buffer seen as \<open>b\<close> rows; the inferred dimension
  must divide the element count exactly, and \<open>b = 0\<close> leaves it undetermined.
\<close>

definition tensor_view2 :: "'a tensor \<Rightarrow> nat \<Rightarrow> 'a tensor res" where
  "tensor_view2 t b =
     (if b = 0 then Inl ShapeError
      else if numel t mod b \<noteq> 0 then Inl ShapeError
      else Inr (t\<lparr>tshape := [b, numel t div b]\<rparr>))"

text \<open>\<open>t.squeeze()\<close> drops every dimension of size 1; \<open>t.squeeze(0)\<close> only the first, if it has size 1.\<close>

definition tensor_squeeze :: "'a tensor \<Rightarrow> 'a tensor" where
  "tensor_squeeze t = t\<lparr>tshape := filter (\<lambda>k. k \<noteq> 1) (tshape t)\<rparr>"

definition tensor_squeeze0 :: "'a tensor \<Rightarrow> 'a tensor" where
  "tensor_squeeze0 t = (case tshape t of Suc 0 # s \<Rightarrow> t\<lparr>tshape := s\<rparr> | _ \<Rightarrow> t)"

text \<open>
  The rows of a two-dimensional tensor of shape \<open>[r, c]\<close>, in order: \<open>r\<close>
  empty rows when \<open>c = 0\<close>.
\<close>

definition tensor_rows :: "'a tensor \<Rightarrow> 'a list list" where
  "tensor_rows t =
     (let r = hd (tshape t); c = last (tshape t)
      in if c = 0 then replicate r [] else chunks c (tdata t))"

section \<open>argmax\<close>

text \<open>
  The index of the first maximal element, as \<open>torch.argmax\<close> returns it;
  \<open>argmax_from xs i b m\<close> scans \<open>xs\<close> from index \<open>i\<close> with the best index
  \<open>b\<close> and value \<open>m\<close> so far, replacing them only on a strictly larger element.
\<close>

fun argmax_from :: "'a::linorder list \<Rightarrow> nat \<Rightarrow> nat \<Rightarrow> 'a \<Rightarrow> nat" where
  "argmax_from [] i b m = b"
| "argmax_from (x # xs) i b m = (if m < x then argmax_from xs (Suc i) i x else argmax_from xs (Suc i) b m)"

definition list_argmax :: "'a::linorder list \<Rightarrow> nat" where
  "list_argmax xs = (case xs of [] \<Rightarrow> 0 | x # xs' \<Rightarrow> argmax_from xs' 1 0 x)"

text \<open>\<open>torch.argmax(t)\<close> over the flattened tensor; an empty tensor raises.\<close>

definition tensor_argmax :: "'a::linorder tensor \<Rightarrow> nat res" where
  "tensor_argmax t = (if tdata t = [] then Inl ShapeError else Inr (list_argmax (tdata t)))"

text \<open>\<open>t.argmax(dim=1, keepdim=True)\<close> of a two-dimensional tensor: one index per row.\<close>

definition tensor_argmax_dim1 :: "'a::linorder tensor \<Rightarrow> nat list res" where
  "tensor_argmax_dim1 t =
     (case tshape t of
        [r, c] \<Rightarrow> if c = 0 then Inl ShapeError else Inr (map list_argmax (tensor_rows t))
      | _ \<Rightarrow> Inl ShapeError)"

section \<open>Lemmas\<close>

lemma argmax_from_spec:
  assumes "length pre = i" and "b < i" and "pre ! b = m"
    and "\<forall>j<i. pre ! j \<le> m" and "\<forall>j<b. pre ! j < m"
  shows "argmax_from xs i b m < length (pre @ xs) \<and>
         (\<forall>j<length (pre @ xs). (pre @ xs) ! j \<le> (pre @ xs) ! argmax_from xs i b m) \<and>
         (\<forall>j<argmax_from xs i b m. (pre @ xs) ! j < (pre @ xs) ! argmax_from xs i b m)"
  using assms
proof (induction xs arbitrary: pre i b m)
  case Nil
  then show ?case by simp
next
  case (Cons x xs)
  show ?case
  proof (cases "m < x")
    case True
    have "length (pre @ [x]) = Suc i" and "i < Suc i" and "(pre @ [x]) ! i = x"
      using Cons.prems by (simp_all add: nth_append)
    moreover have "\<forall>j<Suc i. (pre @ [x]) ! j \<le> x" and "\<forall>j<i. (pre @ [x]) ! j < x"
      using Cons.prems True by (auto simp: nth_append less_Suc_eq)
    ultimately have "argmax_from xs (Suc i) i x < length ((pre @ [x]) @ xs) \<and>
         (\<forall>j<length ((pre @ [x]) @ xs). ((pre @ [x]) @ xs) ! j \<le> ((pre @ [x]) @ xs) ! argmax_from xs (Suc i) i x) \<and>
         (\<forall>j<argmax_from xs (Suc i) i x. ((pre @ [x]) @ xs) ! j < ((pre @ [x]) @ xs) ! argmax_from xs (Suc i) i x)"
      by (rule Cons.IH)
    with True show ?thesis by simp
  next
    case False
    have "length (pre @ [x]) = Suc i" and "b < Suc i" and "(pre @ [x]) ! b = m"
      using Cons.prems by (simp_all add: nth_append)
    moreover have "\<forall>j<Suc i. (pre @ [x]) ! j \<le> m" and "\<forall>j<b. (pre @ [x]) ! j < m"
      using Cons.prems False by (auto simp: nth_append less_Suc_eq)
    ultimately have "argmax_from xs (Suc i) b m < length ((pre @ [x]) @ xs) \<and>
         (\<forall>j<length ((pre @ [x]) @ xs). ((pre @ [x]) @ xs) ! j \<le> ((pre @ [x]) @ xs) ! argmax_from xs (Suc i) b m) \<and>
         (\<forall>j<argmax_from xs (Suc i) b m. ((pre @ [x]) @ xs) ! j < ((pre @ [x]) @ xs) ! argmax_from xs (Suc i) b m)"
      by (rule Cons.IH)
    with False show ?thesis by simp
  qed
qed

lemma int32_range_sint: "int32_range v \<Longrightarrow> sint (word_of_int v :: i32) = v"
  by (simp add: int32_range_def sint_sbintrunc' signed_take_bit_int_eq_self)

lemma tensor_to_eq_Inr:
  "tensor_to h t d = Inr t' \<longleftrightarrow> (\<exists>d'. resolve_device h d = Inr d' \<and> t' = t\<lparr>tdevice := d'\<rparr>)"
  by (auto simp: tensor_to_def res_bind_eq_Inr)

lemma wf_tensor_device [simp]: "wf_tensor (t\<lparr>tdevice := d\<rparr>) = wf_tensor t"
  by (simp add: wf_tensor_def)

lemma numel_device [simp]: "numel (t\<lparr>tdevice := d\<rparr>) = numel t"
  by (simp add: numel_def)

lemma tensor_rows_shape [shape_simps]:
  assumes "wf_tensor t" and "tshape t = [r, c]"
  shows "length (tensor_rows t) = r \<and> (\<forall>row \<in> set (tensor_rows t). length row = c)"
proof (cases "c = 0")
  case True
  then show ?thesis using assms by (simp add: tensor_rows_def)
next
  case False
  have "length (tdata t) = r * c" using assms by (simp add: wf_tensor_def)
  with False have "length (chunks c (tdata t)) = r \<and> (\<forall>ys \<in> set (chunks c (tdata t)). length ys = c)"
    by (intro chunks_of_multiple) simp_all
  with False assms(2) show ?thesis by (simp add: tensor_rows_def)
qed

lemma concat_tensor_rows:
  assumes "wf_tensor t" and "tshape t = [r, c]"
  shows "concat (tensor_rows t) = tdata t"
proof (cases "c = 0")
  case True
  then have "tdata t = []" using assms by (simp add: wf_tensor_def)
  with True show ?thesis using assms(2) by (simp add: tensor_rows_def)
next
  case False
  then show ?thesis using assms(2) by (simp add: tensor_rows_def)
qed

lemma argmax_from_map_mono:
  assumes "\<And>a b. f a < f b \<longleftrightarrow> a < b"
  shows "argmax_from (map f xs) i b (f m) = argmax_from xs i b m"
  by (induction xs arbitrary: i b m) (simp_all add: assms)

lemma list_argmax_map_mono:
  assumes "\<And>a b. f a < f b \<longleftrightarrow> a < b"
  shows "list_argmax (map f xs) = list_argmax xs"
  by (cases xs) (simp_all add: list_argmax_def argmax_from_map_mono assms)

lemma list_argmax_max:
  assumes "xs \<noteq> []"
  shows "list_argmax xs < length xs \<and>
         (\<forall>j<length xs. xs ! j \<le> xs ! list_argmax xs) \<and>
         (\<forall>j<list_argmax xs. xs ! j < xs ! list_argmax xs)"
proof -
  obtain x xs' where xs: "xs = x # xs'" using assms by (cases xs) auto
  have "argmax_from xs' 1 0 x < length ([x] @ xs') \<and>
        (\<forall>j<length ([x] @ xs'). ([x] @ xs') ! j \<le> ([x] @ xs') ! argmax_from xs' 1 0 x) \<and>
        (\<forall>j<argmax_from xs' 1 0 x. ([x] @ xs') ! j < ([x] @ xs') ! argmax_from xs' 1 0 x)"
    by (rule argmax_from_spec) simp_all
  then show ?thesis by (simp add: xs list_argmax_def)
qed

section \<open>Properties\<close>

text \<open>
  \<open>argmax\<close> of a non-empty list is an index of the list holding a maximal
  element, and no earlier element is as large: it is the first maximum.
\<close>

theorem list_argmax_spec:
  assumes "xs \<noteq> []"
  shows "list_argmax xs < length xs \<and>
         (\<forall>j<length xs. xs ! j \<le> xs ! list_argmax xs) \<and>
         (\<forall>j<list_argmax xs. xs ! j < xs ! list_argmax xs)"
  using assms by (rule list_argmax_max)

theorem list_argmax_spec_witness:
  "[3, 7, 7, 1 :: int] \<noteq> [] \<and> list_argmax [3, 7, 7, 1 :: int] = 1 \<and>
   [3, 7, 7, 1 :: int] ! 0 < [3, 7, 7, 1 :: int] ! list_argmax [3, 7, 7, 1 :: int]"
proof -
  have ne: "[3, 7, 7, 1 :: int] \<noteq> []" by simp
  have v: "list_argmax [3, 7, 7, 1 :: int] = 1" by (simp add: list_argmax_def)
  show ?thesis using list_argmax_spec [OF ne] ne v by simp
qed

text \<open>
  \<open>torch.IntTensor(vs)\<close> succeeds only when every value fits in int32, and
  then its elements, read back as signed 32-bit integers, are exactly the
  Python ints given: no value is wrapped around.
\<close>

theorem int_tensor_sint:
  assumes "int_tensor vs = Inr t"
  shows "list_all int32_range vs \<and> map sint (tdata t) = vs \<and> tshape t = [length vs] \<and>
         wf_tensor t \<and> tdevice t = cpu_device"
proof -
  from assms have ok: "list_all int32_range vs"
    and t: "t = \<lparr>tdata = map word_of_int vs, tshape = [length vs], tdevice = cpu_device\<rparr>"
    by (auto simp: int_tensor_def int32_list_def split: if_splits)
  from ok have "map sint (map word_of_int vs :: i32 list) = vs"
    by (induction vs) (simp_all add: int32_range_sint)
  with ok t show ?thesis by (simp add: wf_tensor_def)
qed

theorem int_tensor_sint_witness:
  "int_tensor [0, 30, 50, 75, 70] =
     Inr \<lparr>tdata = [0, 30, 50, 75, 70], tshape = [5], tdevice = cpu_device\<rparr> \<and>
   map sint [0, 30, 50, 75, 70 :: i32] = [0, 30, 50, 75, 70]"
proof -
  have e: "int_tensor [0, 30, 50, 75, 70] =
     Inr \<lparr>tdata = [0, 30, 50, 75, 70], tshape = [5], tdevice = cpu_device\<rparr>"
    by (simp add: int_tensor_def int32_list_def int32_range_def)
  show ?thesis using int_tensor_sint [OF e] e by simp
qed

text \<open>
  \<open>view(b, -1)\<close>, when it succeeds, keeps the buffer and gives a
  well-formed \<open>b\<close>-row tensor whose rows hold all the elements, whatever the
  shape it started from.
\<close>

theorem tensor_view2_wf:
  assumes "tensor_view2 t b = Inr t'"
  shows "0 < b \<and> b dvd numel t \<and> tdata t' = tdata t \<and> tshape t' = [b, numel t div b] \<and>
         wf_tensor t' \<and> length (tensor_rows t') = b"
proof -
  from assms have b: "0 < b" and d: "b dvd numel t"
    and t': "t' = t\<lparr>tshape := [b, numel t div b]\<rparr>"
    by (auto simp: tensor_view2_def split: if_splits)
  have len: "length (tdata t) = b * (numel t div b)"
    using d by (simp add: numel_def)
  have rows: "length (tensor_rows t') = b"
  proof (cases "numel t div b = 0")
    case True
    with t' show ?thesis by (simp add: tensor_rows_def)
  next
    case False
    then show ?thesis
      using chunks_of_multiple [of "tdata t" b "numel t div b"] len t'
      by (simp add: tensor_rows_def mult.commute)
  qed
  show ?thesis using b d t' len rows by (simp add: wf_tensor_def)
qed

theorem tensor_view2_wf_witness:
  "tensor_view2 \<lparr>tdata = [1, 2, 3, 4, 5, 6 :: int], tshape = [6], tdevice = cpu_device\<rparr> 2 =
     Inr \<lparr>tdata = [1, 2, 3, 4, 5, 6], tshape = [2, 3], tdevice = cpu_device\<rparr> \<and>
   wf_tensor \<lparr>tdata = [1, 2, 3, 4, 5, 6 :: int], tshape = [2, 3], tdevice = cpu_device\<rparr>"
proof -
  have e: "tensor_view2 \<lparr>tdata = [1, 2, 3, 4, 5, 6 :: int], tshape = [6], tdevice = cpu_device\<rparr> 2 =
     Inr \<lparr>tdata = [1, 2, 3, 4, 5, 6], tshape = [2, 3], tdevice = cpu_device\<rparr>"
    by (simp add: tensor_view2_def numel_def)
  show ?thesis using e tensor_view2_wf [OF e] by simp
qed

text \<open>
  On a host without a CUDA device, \<open>X_train.cuda()\<close> raises for every
  tensor: \<open>.cuda()\<close> ignores the CPU fallback the selection cell made.
\<close>

theorem tensor_cuda_no_gpu:
  assumes "\<not> cuda_is_available h"
  shows "tensor_cuda h t = Inl NoCuda"
  using assms by (simp add: tensor_cuda_def tensor_to_def resolve_device_def)

theorem tensor_cuda_no_gpu_witness:
  "\<not> cuda_is_available \<lparr>gpu_names = []\<rparr> \<and>
   tensor_cuda \<lparr>gpu_names = []\<rparr> \<lparr>tdata = [0 :: i32], tshape = [1], tdevice = cpu_device\<rparr> = Inl NoCuda"
proof -
  have h: "\<not> cuda_is_available \<lparr>gpu_names = []\<rparr>" by (simp add: cuda_is_available_def)
  show ?thesis using h tensor_cuda_no_gpu [OF h] by simp
qed

text \<open>
  \<open>t.to(d)\<close> keeps the contents and the shape, puts the tensor on a
  device the host has, and moving the result to its own device is the identity.
\<close>

theorem tensor_to_moves:
  assumes "tensor_to h t d = Inr t'"
  shows "tdata t' = tdata t \<and> tshape t' = tshape t \<and> valid_device h (tdevice t') \<and>
         tensor_to h t' (tdevice t') = Inr t'"
proof -
  from assms obtain d' where r: "resolve_device h d = Inr d'" and t': "t' = t\<lparr>tdevice := d'\<rparr>"
    by (auto simp: tensor_to_eq_Inr)
  from resolve_device_lands [OF r] have "valid_device h d'" and "resolve_device h d' = Inr d'"
    by simp_all
  with t' show ?thesis by (simp add: tensor_to_def)
qed

theorem tensor_to_moves_witness:
  "tensor_to \<lparr>gpu_names = [''Tesla T4'']\<rparr> \<lparr>tdata = [30 :: i32], tshape = [1], tdevice = cpu_device\<rparr> (cuda_device 0)
     = Inr \<lparr>tdata = [30 :: i32], tshape = [1], tdevice = cuda_device 0\<rparr> \<and>
   valid_device \<lparr>gpu_names = [''Tesla T4'']\<rparr> (cuda_device 0)"
proof -
  have e: "tensor_to \<lparr>gpu_names = [''Tesla T4'']\<rparr> \<lparr>tdata = [30 :: i32], tshape = [1], tdevice = cpu_device\<rparr> (cuda_device 0)
     = Inr \<lparr>tdata = [30 :: i32], tshape = [1], tdevice = cuda_device 0\<rparr>"
    by (simp add: tensor_to_def cuda_is_available_def cuda_device_count_def)
  show ?thesis using e tensor_to_moves [OF e] by simp
qed

end
