(* ===== verification/Net.thy ===== *)
theory Net
  imports Tensor
begin

text \<open>
  The \<open>SimpleNet\<close> class, defined identically in both PyTorch notebooks: two
  \<open>nn.Linear\<close> layers (784 to 784, 784 to 10) with a ReLU between them and a
  softmax over dimension 1 at the end, applied to its input after
  \<open>x.view(batch_size, -1)\<close>, where \<open>batch_size\<close> is the notebook's global
  (100 in the training notebook, 1 in the inference notebook), passed here as
  the argument \<open>bs\<close>. Values are reals: the model is exact arithmetic, where
  the program computes in float32. The section ends with \<open>F.nll_loss\<close>, the
  loss the training and evaluation loops apply to the network's output.
\<close>

type_synonym rtensor = "real tensor"

section \<open>Layers\<close>

text \<open>An \<open>nn.Linear(n_in, n_out)\<close>: a weight of shape \<open>[n_out, n_in]\<close> and a bias of shape \<open>[n_out]\<close>.\<close>

record linear =
  weight :: rtensor
  bias :: rtensor

definition wf_linear :: "nat \<Rightarrow> nat \<Rightarrow> linear \<Rightarrow> bool" where
  "wf_linear n_in n_out l =
     (wf_tensor (weight l) \<and> tshape (weight l) = [n_out, n_in] \<and>
      wf_tensor (bias l) \<and> tshape (bias l) = [n_out] \<and> tdevice (bias l) = tdevice (weight l))"

text \<open>
  Construction draws the initial parameters (PyTorch's uniform initialiser);
  \<open>draw\<close> stands for the values drawn, weight first, then bias. New modules
  live on the CPU.
\<close>

definition nn_linear :: "nat \<Rightarrow> nat \<Rightarrow> (nat \<Rightarrow> real) \<Rightarrow> linear" where
  "nn_linear n_in n_out draw =
     \<lparr>weight = \<lparr>tdata = map draw [0..<n_out * n_in], tshape = [n_out, n_in], tdevice = cpu_device\<rparr>,
      bias = \<lparr>tdata = map (\<lambda>k. draw (n_out * n_in + k)) [0..<n_out], tshape = [n_out], tdevice = cpu_device\<rparr>\<rparr>"

definition linear_to :: "host \<Rightarrow> linear \<Rightarrow> device \<Rightarrow> linear res" where
  "linear_to h l d =
     res_bind (tensor_to h (weight l) d) (\<lambda>w.
     res_bind (tensor_to h (bias l) d) (\<lambda>b. Inr \<lparr>weight = w, bias = b\<rparr>))"

definition dot :: "real list \<Rightarrow> real list \<Rightarrow> real" where
  "dot xs ys = sum_list (map2 (*) xs ys)"

text \<open>
  \<open>F.linear(x, W, b)\<close> on a two-dimensional input: \<open>x W\<^sup>T + b\<close>. Operands on
  different devices raise first; then the inner dimensions must agree.
\<close>

definition linear_forward :: "rtensor \<Rightarrow> linear \<Rightarrow> rtensor res" where
  "linear_forward x l =
     (if tdevice x \<noteq> tdevice (weight l) then Inl DeviceMismatch
      else if tdevice (bias l) \<noteq> tdevice (weight l) then Inl DeviceMismatch
      else case (tshape x, tshape (weight l)) of
        ([b, k], [n, k']) \<Rightarrow>
          if k \<noteq> k' then Inl ShapeError
          else if tshape (bias l) \<noteq> [n] then Inl ShapeError
          else Inr \<lparr>tdata = concat (map (\<lambda>row. map2 (\<lambda>w c. dot row w + c) (tensor_rows (weight l)) (tdata (bias l)))
                                      (tensor_rows x)),
                    tshape = [b, n], tdevice = tdevice x\<rparr>
      | _ \<Rightarrow> Inl ShapeError)"

definition relu :: "rtensor \<Rightarrow> rtensor" where
  "relu x = x\<lparr>tdata := map (\<lambda>v. max 0 v) (tdata x)\<rparr>"

definition softmax_row :: "real list \<Rightarrow> real list" where
  "softmax_row r = map (\<lambda>v. exp v / sum_list (map exp r)) r"

text \<open>\<open>F.softmax(x, dim=1)\<close> of a two-dimensional tensor: each row normalised separately.\<close>

definition softmax_dim1 :: "rtensor \<Rightarrow> rtensor" where
  "softmax_dim1 x = x\<lparr>tdata := concat (map softmax_row (tensor_rows x))\<rparr>"

section \<open>The network\<close>

record simplenet =
  fc1 :: linear
  fc2 :: linear
  training :: bool

text \<open>\<open>SimpleNet()\<close>: \<open>__init__\<close> builds the two layers; a new module is in training mode.\<close>

definition simplenet_new :: "(nat \<Rightarrow> real) \<Rightarrow> (nat \<Rightarrow> real) \<Rightarrow> simplenet" where
  "simplenet_new draw1 draw2 =
     \<lparr>fc1 = nn_linear 784 784 draw1, fc2 = nn_linear 784 10 draw2, training = True\<rparr>"

definition wf_simplenet :: "simplenet \<Rightarrow> bool" where
  "wf_simplenet net =
     (wf_linear 784 784 (fc1 net) \<and> wf_linear 784 10 (fc2 net) \<and>
      tdevice (weight (fc2 net)) = tdevice (weight (fc1 net)))"

definition net_device :: "simplenet \<Rightarrow> device" where
  "net_device net = tdevice (weight (fc1 net))"

text \<open>\<open>model.to(device)\<close>: every parameter moved, in registration order.\<close>

definition simplenet_to :: "host \<Rightarrow> simplenet \<Rightarrow> device \<Rightarrow> simplenet res" where
  "simplenet_to h net d =
     res_bind (linear_to h (fc1 net) d) (\<lambda>l1.
     res_bind (linear_to h (fc2 net) d) (\<lambda>l2. Inr (net\<lparr>fc1 := l1, fc2 := l2\<rparr>)))"

definition simplenet_train :: "simplenet \<Rightarrow> simplenet" where
  "simplenet_train net = net\<lparr>training := True\<rparr>"

definition simplenet_eval :: "simplenet \<Rightarrow> simplenet" where
  "simplenet_eval net = net\<lparr>training := False\<rparr>"

text \<open>
  \<open>SimpleNet.forward\<close>: \<open>x.view(batch_size, -1)\<close>, \<open>fc1\<close>, \<open>F.relu\<close>,
  \<open>fc2\<close>, \<open>F.softmax(x, dim=1)\<close>. The module has no dropout or batch
  normalisation, so its mode does not enter.
\<close>

definition simplenet_forward :: "nat \<Rightarrow> simplenet \<Rightarrow> rtensor \<Rightarrow> rtensor res" where
  "simplenet_forward bs net x =
     res_bind (tensor_view2 x bs) (\<lambda>x1.
     res_bind (linear_forward x1 (fc1 net)) (\<lambda>x2.
     res_bind (linear_forward (relu x2) (fc2 net)) (\<lambda>x3.
     Inr (softmax_dim1 x3))))"

section \<open>The loss\<close>

text \<open>
  \<open>F.nll_loss(output, target, reduction)\<close> for an output of shape \<open>[b, C]\<close>
  and \<open>b\<close> integer targets: the negated output entry at each target class,
  summed (\<open>reduction='sum'\<close>) or averaged over the counted targets (the default
  \<open>'mean'\<close>). A target equal to \<open>ignore_index = -100\<close> is skipped; any other
  target outside \<open>[0, C)\<close> raises. The function takes the output as it is: it
  does not apply a logarithm.
\<close>

datatype reduction = Mean | Sum

definition nll_terms :: "real list list \<Rightarrow> int list \<Rightarrow> real list" where
  "nll_terms rows ts = map (\<lambda>(row, t). - (row ! nat t)) (filter (\<lambda>(row, t). t \<noteq> -100) (zip rows ts))"

definition nll_loss :: "rtensor \<Rightarrow> int tensor \<Rightarrow> reduction \<Rightarrow> real res" where
  "nll_loss out target red =
     (if tdevice out \<noteq> tdevice target then Inl DeviceMismatch
      else case tshape out of
        [b, c] \<Rightarrow>
          if length (tdata target) \<noteq> b then Inl BatchSizeMismatch
          else if \<not> list_all (\<lambda>t. t = -100 \<or> (0 \<le> t \<and> t < int c)) (tdata target) then Inl TargetOutOfBounds
          else
            (let terms = nll_terms (tensor_rows out) (tdata target)
             in case red of
                  Sum \<Rightarrow> Inr (sum_list terms)
                | Mean \<Rightarrow> Inr (sum_list terms / real (length terms)))
      | _ \<Rightarrow> Inl ShapeError)"

section \<open>Lemmas\<close>

lemma softmax_row_length [simp, shape_simps]: "length (softmax_row r) = length r"
  by (simp add: softmax_row_def)

lemma softmax_row_Nil [simp]: "softmax_row [] = []"
  by (simp add: softmax_row_def)

lemma exp_sum_pos: "r \<noteq> [] \<Longrightarrow> 0 < sum_list (map exp r :: real list)"
  using sum_list_map_pos [of r "exp :: real \<Rightarrow> real"] by simp

lemma softmax_row_props:
  assumes "r \<noteq> []"
  shows "sum_list (softmax_row r) = 1 \<and> (\<forall>p \<in> set (softmax_row r). 0 < p \<and> p \<le> 1)"
proof
  let ?S = "sum_list (map exp r)"
  have S: "0 < ?S" using assms by (rule exp_sum_pos)
  have "sum_list (softmax_row r) = ?S / ?S"
    by (simp add: softmax_row_def sum_list_map_divide)
  with S show "sum_list (softmax_row r) = 1" by simp
  show "\<forall>p \<in> set (softmax_row r). 0 < p \<and> p \<le> 1"
  proof
    fix p assume "p \<in> set (softmax_row r)"
    then obtain v where v: "v \<in> set r" and p: "p = exp v / ?S"
      by (auto simp: softmax_row_def)
    have "exp v \<le> ?S" using v by (rule elem_le_sum_list_map) simp
    with S p show "0 < p \<and> p \<le> 1" by simp
  qed
qed

lemma relu_shape [simp, shape_simps]:
  "tshape (relu x) = tshape x" "tdevice (relu x) = tdevice x" "wf_tensor (relu x) = wf_tensor x"
  by (simp_all add: relu_def wf_tensor_def)

lemma softmax_dim1_shape:
  assumes "wf_tensor x" and "tshape x = [b, c]"
  shows "wf_tensor (softmax_dim1 x) \<and> tshape (softmax_dim1 x) = [b, c] \<and>
         tdevice (softmax_dim1 x) = tdevice x \<and>
         tensor_rows (softmax_dim1 x) = map softmax_row (tensor_rows x)"
proof (cases "c = 0")
  case True
  then have rows: "tensor_rows x = replicate b []" using assms(2) by (simp add: tensor_rows_def)
  then show ?thesis using True assms(2)
    by (simp add: softmax_dim1_def wf_tensor_def tensor_rows_def)
next
  case False
  from tensor_rows_shape [OF assms] have len: "length (tensor_rows x) = b"
    and each: "\<forall>row \<in> set (tensor_rows x). length row = c" by simp_all
  then have each': "\<forall>row \<in> set (map softmax_row (tensor_rows x)). length row = c" by simp
  have "length (concat (map softmax_row (tensor_rows x))) = b * c"
    using length_concat_const [OF each'] len by simp
  moreover have "chunks c (concat (map softmax_row (tensor_rows x))) = map softmax_row (tensor_rows x)"
    using False each' by (simp add: chunks_concat)
  ultimately show ?thesis using False assms(2)
    by (simp add: softmax_dim1_def wf_tensor_def tensor_rows_def)
qed

lemma linear_forward_ok:
  assumes "wf_linear k n l" and "wf_tensor x" and "tshape x = [b, k]"
    and "tdevice x = tdevice (weight l)"
  shows "\<exists>y. linear_forward x l = Inr y \<and> tshape y = [b, n] \<and> wf_tensor y \<and> tdevice y = tdevice x"
proof -
  from assms(1) have W: "wf_tensor (weight l)" "tshape (weight l) = [n, k]"
    and B: "wf_tensor (bias l)" "tshape (bias l) = [n]" "tdevice (bias l) = tdevice (weight l)"
    by (simp_all add: wf_linear_def)
  have rowsW: "length (tensor_rows (weight l)) = n" using tensor_rows_shape [OF W] by simp
  have lenB: "length (tdata (bias l)) = n" using B by (simp add: wf_tensor_def)
  have rowsX: "length (tensor_rows x) = b" using tensor_rows_shape [OF assms(2,3)] by simp
  let ?g = "\<lambda>row. map2 (\<lambda>w c. dot row w + c) (tensor_rows (weight l)) (tdata (bias l))"
  have each: "\<forall>ys \<in> set (map ?g (tensor_rows x)). length ys = n"
    using rowsW lenB by simp
  have "length (concat (map ?g (tensor_rows x))) = b * n"
    using length_concat_const [OF each] rowsX by simp
  then show ?thesis using assms(3,4) W B
    by (simp add: linear_forward_def wf_tensor_def)
qed


lemma wf_simplenet_new: "wf_simplenet (simplenet_new d1 d2)"
  by (simp add: simplenet_new_def wf_simplenet_def wf_linear_def nn_linear_def wf_tensor_def)

lemma net_device_new [simp]: "net_device (simplenet_new d1 d2) = cpu_device"
  by (simp add: simplenet_new_def net_device_def nn_linear_def)

lemma simplenet_forward_result:
  assumes "wf_simplenet net" and "wf_tensor x" and "tdevice x = net_device net"
    and "numel x = bs * 784" and "0 < bs"
  shows "\<exists>y. simplenet_forward bs net x = Inr y \<and> tshape y = [bs, 10] \<and> wf_tensor y \<and>
             tdevice y = net_device net \<and>
             (\<forall>row \<in> set (tensor_rows y). length row = 10 \<and> sum_list row = 1 \<and> (\<forall>p \<in> set row. 0 < p))"
proof -
  from assms(1) have L1: "wf_linear 784 784 (fc1 net)" and L2: "wf_linear 784 10 (fc2 net)"
    and dev2: "tdevice (weight (fc2 net)) = tdevice (weight (fc1 net))"
    by (simp_all add: wf_simplenet_def)
  let ?x1 = "x\<lparr>tshape := [bs, 784]\<rparr>"
  have v: "tensor_view2 x bs = Inr ?x1" using assms(4,5) by (simp add: tensor_view2_def)
  have x1: "wf_tensor ?x1" "tshape ?x1 = [bs, 784]" "tdevice ?x1 = tdevice (weight (fc1 net))"
    using assms(3,4) by (simp_all add: wf_tensor_def numel_def net_device_def)
  obtain x2 where f1: "linear_forward ?x1 (fc1 net) = Inr x2" and x2: "tshape x2 = [bs, 784]"
    "wf_tensor x2" "tdevice x2 = tdevice (weight (fc1 net))"
    using linear_forward_ok [OF L1 x1] x1(3) by auto
  have r2: "wf_tensor (relu x2)" "tshape (relu x2) = [bs, 784]" "tdevice (relu x2) = tdevice (weight (fc2 net))"
    using x2 dev2 by simp_all
  obtain x3 where f2: "linear_forward (relu x2) (fc2 net) = Inr x3" and x3: "tshape x3 = [bs, 10]"
    "wf_tensor x3" "tdevice x3 = tdevice (weight (fc1 net))"
    using linear_forward_ok [OF L2 r2] r2(3) dev2 by auto
  have sm: "wf_tensor (softmax_dim1 x3) \<and> tshape (softmax_dim1 x3) = [bs, 10] \<and>
         tdevice (softmax_dim1 x3) = tdevice x3 \<and>
         tensor_rows (softmax_dim1 x3) = map softmax_row (tensor_rows x3)"
    using softmax_dim1_shape [OF x3(2,1)] .
  have rows3: "\<forall>row \<in> set (tensor_rows x3). length row = 10"
    using tensor_rows_shape [OF x3(2,1)] by simp
  have dist: "\<forall>row \<in> set (tensor_rows (softmax_dim1 x3)). length row = 10 \<and> sum_list row = 1 \<and> (\<forall>p \<in> set row. 0 < p)"
  proof
    fix row assume "row \<in> set (tensor_rows (softmax_dim1 x3))"
    then obtain r where r: "r \<in> set (tensor_rows x3)" and row: "row = softmax_row r"
      using sm by auto
    then have "length r = 10" using rows3 by simp
    then have "r \<noteq> []" by auto
    with softmax_row_props [of r] row \<open>length r = 10\<close>
    show "length row = 10 \<and> sum_list row = 1 \<and> (\<forall>p \<in> set row. 0 < p)" by simp
  qed
  have "simplenet_forward bs net x = Inr (softmax_dim1 x3)"
    using v f1 f2 by (simp add: simplenet_forward_def)
  then show ?thesis using sm x3 dist by (auto simp: net_device_def)
qed

lemma nll_loss_result:
  assumes "tshape out = [b, c]" and "tdevice target = tdevice out"
    and "length (tdata target) = b" and "list_all (\<lambda>y. 0 \<le> y \<and> y < int c) (tdata target)"
  shows "\<exists>L. nll_loss out target red = Inr L"
proof -
  have "list_all (\<lambda>t. t = -100 \<or> (0 \<le> t \<and> t < int c)) (tdata target)"
    using assms(4) by (auto simp: list_all_iff)
  then show ?thesis using assms(1-3) by (cases red) (simp_all add: nll_loss_def Let_def)
qed

lemma forward_batch_mismatch:
  assumes "wf_simplenet net" and "numel x = k * 784" and "k \<noteq> bs"
  shows "\<exists>e. simplenet_forward bs net x = Inl e"
proof (cases "bs = 0 \<or> numel x mod bs \<noteq> 0")
  case True
  then have "tensor_view2 x bs = Inl ShapeError" by (auto simp: tensor_view2_def)
  then show ?thesis by (simp add: simplenet_forward_def)
next
  case False
  then have bs: "0 < bs" and dv: "bs dvd numel x" by auto
  let ?x1 = "x\<lparr>tshape := [bs, numel x div bs]\<rparr>"
  have v: "tensor_view2 x bs = Inr ?x1" using False by (simp add: tensor_view2_def)
  have "numel x div bs \<noteq> 784"
  proof
    assume "numel x div bs = 784"
    then have "numel x = 784 * bs" using dv by (metis dvd_mult_div_cancel mult.commute)
    then show False using assms(2,3) by simp
  qed
  moreover have "tshape (weight (fc1 net)) = [784, 784]" "tshape (bias (fc1 net)) = [784]"
    using assms(1) by (simp_all add: wf_simplenet_def wf_linear_def)
  ultimately have "\<exists>e. linear_forward ?x1 (fc1 net) = Inl e" by (simp add: linear_forward_def)
  then show ?thesis using v by (auto simp: simplenet_forward_def)
qed

lemma prod_list_filter_one: "prod_list (filter (\<lambda>k. k \<noteq> Suc 0) s) = prod_list (s :: nat list)"
  by (induction s) simp_all

lemma linear_forward_wf:
  assumes "wf_linear k n l" and "wf_tensor x" and "linear_forward x l = Inr y"
  shows "wf_tensor y"
proof -
  from assms(3) obtain b k' where x: "tshape x = [b, k']" and d: "tdevice x = tdevice (weight l)"
    by (auto simp: linear_forward_def split: if_splits list.splits)
  have "k' = k" using assms(1,3) x d by (auto simp: linear_forward_def wf_linear_def split: if_splits)
  then show ?thesis using linear_forward_ok [OF assms(1,2)] x d assms(3) by auto
qed

text \<open>\<open>model.to(d)\<close> puts every parameter on the device \<open>d\<close> resolves to.\<close>

lemma simplenet_to_device:
  "simplenet_to h net d = Inr net' \<Longrightarrow> resolve_device h d = Inr (net_device net')"
  by (auto simp: simplenet_to_def linear_to_def tensor_to_def net_device_def res_bind_def split: sum.splits)

section \<open>Properties\<close>

text \<open>
  The softmax of a non-empty row is a probability distribution: its
  entries are positive, at most 1, and sum to 1.
\<close>

theorem softmax_row_distribution:
  assumes "r \<noteq> []"
  shows "sum_list (softmax_row r) = 1 \<and> (\<forall>p \<in> set (softmax_row r). 0 < p \<and> p \<le> 1)"
  using assms by (rule softmax_row_props)

theorem softmax_row_distribution_witness:
  "[0, 0 :: real] \<noteq> [] \<and> softmax_row [0, 0] = [1 / 2, 1 / 2] \<and> sum_list (softmax_row [0, 0 :: real]) = 1"
proof -
  have ne: "[0, 0 :: real] \<noteq> []" by simp
  have v: "softmax_row [0, 0 :: real] = [1 / 2, 1 / 2]" by (simp add: softmax_row_def)
  show ?thesis using softmax_row_distribution [OF ne] ne v by simp
qed

text \<open>
  Softmax keeps the position of the largest entry: the class predicted
  from the probabilities is the class predicted from the logits.
\<close>

theorem softmax_preserves_argmax: "list_argmax (softmax_row r) = list_argmax r"
proof (cases "r = []")
  case True
  then show ?thesis by simp
next
  case False
  let ?S = "sum_list (map exp r)"
  have S: "0 < ?S" using False by (rule exp_sum_pos)
  have mono: "\<And>a b. exp a / ?S < exp b / ?S \<longleftrightarrow> a < b"
    using S by (simp add: divide_less_cancel)
  have "list_argmax (map (\<lambda>v. exp v / ?S) r) = list_argmax r"
    by (rule list_argmax_map_mono) (rule mono)
  then show ?thesis by (simp add: softmax_row_def)
qed

text \<open>
  C11: \<open>SimpleNet.forward\<close> on a well-formed input holding \<open>bs * 784\<close>
  values, on the model's device, never raises: it returns a \<open>[bs, 10]\<close>
  tensor on that device whose every row is a probability distribution over
  the ten classes.
\<close>

theorem simplenet_forward_ok:
  assumes "wf_simplenet net" and "wf_tensor x" and "tdevice x = net_device net"
    and "numel x = bs * 784" and "0 < bs"
  shows "\<exists>y. simplenet_forward bs net x = Inr y \<and> tshape y = [bs, 10] \<and> wf_tensor y \<and>
             tdevice y = net_device net \<and>
             (\<forall>row \<in> set (tensor_rows y). length row = 10 \<and> sum_list row = 1 \<and> (\<forall>p \<in> set row. 0 < p))"
  using assms by (rule simplenet_forward_result)

theorem simplenet_forward_ok_witness:
  "wf_simplenet (simplenet_new (\<lambda>_. 0) (\<lambda>_. 0)) \<and>
   wf_tensor \<lparr>tdata = replicate 784 (0 :: real), tshape = [1, 1, 28, 28], tdevice = cpu_device\<rparr> \<and>
   (\<exists>y. simplenet_forward 1 (simplenet_new (\<lambda>_. 0) (\<lambda>_. 0))
          \<lparr>tdata = replicate 784 0, tshape = [1, 1, 28, 28], tdevice = cpu_device\<rparr> = Inr y \<and>
        tshape y = [1, 10])"
proof -
  let ?x = "\<lparr>tdata = replicate 784 (0 :: real), tshape = [1, 1, 28, 28], tdevice = cpu_device\<rparr>"
  have n: "wf_simplenet (simplenet_new (\<lambda>_. 0) (\<lambda>_. 0))" by (rule wf_simplenet_new)
  have x: "wf_tensor ?x" by (simp add: wf_tensor_def)
  have d: "tdevice ?x = net_device (simplenet_new (\<lambda>_. 0) (\<lambda>_. 0))" by simp
  have c: "numel ?x = 1 * 784" by (simp add: numel_def)
  show ?thesis using simplenet_forward_ok [OF n x d c] n x by auto
qed

text \<open>
  C17. \<open>forward\<close> reshapes its input with the global \<open>batch_size\<close>, not
  with the input's own batch dimension: a well-formed model raises on every
  input of \<open>k\<close> images of 784 pixels unless \<open>k\<close> is exactly
  \<open>batch_size\<close>, so a final partial batch of a loader cannot go through it.
\<close>

theorem simplenet_forward_batch_mismatch:
  assumes "wf_simplenet net" and "numel x = k * 784" and "k \<noteq> bs"
  shows "\<exists>e. simplenet_forward bs net x = Inl e"
  using assms by (rule forward_batch_mismatch)

theorem simplenet_forward_batch_mismatch_witness:
  "wf_simplenet (simplenet_new (\<lambda>_. 0) (\<lambda>_. 0)) \<and>
   numel \<lparr>tdata = replicate (50 * 784) (0 :: real), tshape = [50, 1, 28, 28], tdevice = cpu_device\<rparr> = 50 * 784 \<and>
   (50 :: nat) \<noteq> 100 \<and>
   (\<exists>e. simplenet_forward 100 (simplenet_new (\<lambda>_. 0) (\<lambda>_. 0))
          \<lparr>tdata = replicate (50 * 784) 0, tshape = [50, 1, 28, 28], tdevice = cpu_device\<rparr> = Inl e)"
proof -
  have n: "wf_simplenet (simplenet_new (\<lambda>_. 0) (\<lambda>_. 0))" by (rule wf_simplenet_new)
  have c: "numel \<lparr>tdata = replicate (50 * 784) (0 :: real), tshape = [50, 1, 28, 28], tdevice = cpu_device\<rparr> = 50 * 784"
    by (simp add: numel_def)
  have d: "(50 :: nat) \<noteq> 100" by simp
  show ?thesis using simplenet_forward_batch_mismatch [OF n c d] n c d by blast
qed

text \<open>
  Well-formedness is the type of a tensor (a buffer holding exactly as
  many values as its shape says), and every tensor operation the notebooks
  apply keeps it: \<open>.to(device)\<close>, \<open>view(b, -1)\<close>, \<open>squeeze()\<close>,
  \<open>squeeze(0)\<close>, \<open>F.relu\<close>, \<open>F.softmax(dim=1)\<close> and a well-formed
  \<open>nn.Linear\<close> map a well-formed tensor, when they return, to a well-formed one.
\<close>

theorem tensor_ops_wf:
  assumes "wf_tensor x"
  shows "(tensor_to h x d = Inr y1 \<longrightarrow> wf_tensor y1) \<and> (tensor_view2 x b = Inr y2 \<longrightarrow> wf_tensor y2) \<and>
         wf_tensor (tensor_squeeze x) \<and> wf_tensor (tensor_squeeze0 x) \<and> wf_tensor (relu x) \<and>
         (tshape x = [r, c] \<longrightarrow> wf_tensor (softmax_dim1 x)) \<and>
         (wf_linear k n l \<longrightarrow> linear_forward x l = Inr y3 \<longrightarrow> wf_tensor y3)"
proof (intro conjI impI)
  show "wf_tensor y1" if "tensor_to h x d = Inr y1"
    using that assms by (auto simp: tensor_to_def res_bind_eq_Inr)
  show "wf_tensor y2" if "tensor_view2 x b = Inr y2"
    using that assms by (auto simp: tensor_view2_def wf_tensor_def numel_def split: if_splits)
  show "wf_tensor (tensor_squeeze x)"
    using assms by (simp add: tensor_squeeze_def wf_tensor_def prod_list_filter_one)
  show "wf_tensor (tensor_squeeze0 x)"
    using assms by (simp add: tensor_squeeze0_def wf_tensor_def split: list.splits nat.splits)
  show "wf_tensor (relu x)" using assms by simp
  show "wf_tensor (softmax_dim1 x)" if "tshape x = [r, c]"
    using softmax_dim1_shape [OF assms that] by simp
  show "wf_tensor y3" if "wf_linear k n l" and "linear_forward x l = Inr y3"
    using linear_forward_wf [OF that(1) assms that(2)] .
qed

theorem tensor_ops_wf_witness:
  "wf_tensor \<lparr>tdata = [1, -2, 3, 4 :: real], tshape = [2, 2], tdevice = cpu_device\<rparr> \<and>
   tensor_view2 \<lparr>tdata = [1, -2, 3, 4 :: real], tshape = [2, 2], tdevice = cpu_device\<rparr> 4 =
     Inr \<lparr>tdata = [1, -2, 3, 4], tshape = [4, 1], tdevice = cpu_device\<rparr> \<and>
   wf_tensor \<lparr>tdata = [1, -2, 3, 4 :: real], tshape = [4, 1], tdevice = cpu_device\<rparr> \<and>
   wf_tensor (relu \<lparr>tdata = [1, -2, 3, 4 :: real], tshape = [2, 2], tdevice = cpu_device\<rparr>) \<and>
   wf_tensor (softmax_dim1 \<lparr>tdata = [1, -2, 3, 4 :: real], tshape = [2, 2], tdevice = cpu_device\<rparr>)"
proof -
  let ?x = "\<lparr>tdata = [1, -2, 3, 4 :: real], tshape = [2, 2], tdevice = cpu_device\<rparr>"
  have w: "wf_tensor ?x" by (simp add: wf_tensor_def)
  have v: "tensor_view2 ?x 4 = Inr \<lparr>tdata = [1, -2, 3, 4], tshape = [4, 1], tdevice = cpu_device\<rparr>"
    by (simp add: tensor_view2_def numel_def)
  have s: "tshape ?x = [2, 2]" by simp
  from tensor_ops_wf [OF w, of h d y1 4 "\<lparr>tdata = [1, -2, 3, 4], tshape = [4, 1], tdevice = cpu_device\<rparr>" 2 2] w v s
  show ?thesis by blast
qed

end
