(* ===== verification/Data.thy ===== *)
theory Data
  imports Net
begin

text \<open>
  The data pipeline of both PyTorch notebooks. A FashionMNIST sample is a
  28x28 grayscale image of unsigned bytes and an integer label.
  \<open>transforms.ToTensor()\<close> turns the image into a \<open>[1, 28, 28]\<close> tensor of
  values in \<open>[0, 1]\<close>, and \<open>transforms.Normalize((0.1307,), (0.3081,))\<close>
  shifts and scales it. \<open>torch.utils.data.DataLoader\<close> with \<open>shuffle=False\<close>
  yields the transformed samples in dataset order, in consecutive batches of
  \<open>batch_size\<close> (the last one possibly shorter, since \<open>drop_last\<close> is false),
  each collated into a stacked data tensor and a label tensor. The worker
  processes (\<open>num_workers=2\<close>) do not change what is yielded or its order.
\<close>

type_synonym u8 = "8 word"

type_synonym raw_sample = "u8 list \<times> int"

section \<open>Transforms\<close>

text \<open>\<open>ToTensor()\<close> of a one-channel 28x28 image: each byte divided by 255.\<close>

definition to_tensor :: "u8 list \<Rightarrow> rtensor" where
  "to_tensor px = \<lparr>tdata = map (\<lambda>p. real (unat p) / 255) px, tshape = [1, 28, 28], tdevice = cpu_device\<rparr>"

text \<open>\<open>Normalize((mean,), (std,))\<close> on the single channel.\<close>

definition normalize :: "real \<Rightarrow> real \<Rightarrow> rtensor \<Rightarrow> rtensor" where
  "normalize mean std t = t\<lparr>tdata := map (\<lambda>v. (v - mean) / std) (tdata t)\<rparr>"

text \<open>\<open>train_transform\<close> and \<open>test_transform\<close> are the same composition.\<close>

definition fmnist_transform :: "u8 list \<Rightarrow> rtensor" where
  "fmnist_transform px = normalize 0.1307 0.3081 (to_tensor px)"

section \<open>The loader\<close>

text \<open>
  The default collate function: the batch's data tensors stacked along a new
  first dimension, the labels gathered into a one-dimensional tensor.
\<close>

definition collate :: "(rtensor \<times> int) list \<Rightarrow> rtensor \<times> int tensor" where
  "collate b =
     (\<lparr>tdata = concat (map (tdata \<circ> fst) b), tshape = length b # tshape (fst (hd b)), tdevice = cpu_device\<rparr>,
      \<lparr>tdata = map snd b, tshape = [length b], tdevice = cpu_device\<rparr>)"

definition data_loader :: "nat \<Rightarrow> (u8 list \<Rightarrow> rtensor) \<Rightarrow> raw_sample list \<Rightarrow> (rtensor \<times> int tensor) list" where
  "data_loader bs tf ds = map collate (chunks bs (map (\<lambda>(img, y). (tf img, y)) ds))"

text \<open>A FashionMNIST image: 784 bytes; a label: one of the ten classes.\<close>

definition fmnist_sample :: "raw_sample \<Rightarrow> bool" where
  "fmnist_sample s = (length (fst s) = 784 \<and> 0 \<le> snd s \<and> snd s < 10)"

section \<open>Lemmas\<close>

lemma to_tensor_range:
  assumes "v \<in> set (tdata (to_tensor px))"
  shows "0 \<le> v \<and> v \<le> 1"
proof -
  from assms have "v \<in> (\<lambda>p. real (unat p) / 255) ` set px" by (simp add: to_tensor_def)
  then obtain p where v: "v = real (unat p) / 255" and "p \<in> set px" by (rule imageE)
  have "unat p < 2 ^ LENGTH(8)" by (rule unsigned_less)
  then have "real (unat p) \<le> 255" by (simp del: of_nat_unat)
  with v show ?thesis by (simp del: of_nat_unat)
qed

lemma fmnist_transform_shape [shape_simps]:
  "tshape (fmnist_transform px) = [1, 28, 28]" "tdevice (fmnist_transform px) = cpu_device"
  "length (tdata (fmnist_transform px)) = length px"
  by (simp_all add: fmnist_transform_def normalize_def to_tensor_def)

lemma collate_fst [simp]:
  "tdata (fst (collate b)) = concat (map (tdata \<circ> fst) b)"
  "tshape (fst (collate b)) = length b # tshape (fst (hd b))"
  "tdevice (fst (collate b)) = cpu_device"
  by (simp_all add: collate_def)

lemma collate_snd [simp]:
  "tdata (snd (collate b)) = map snd b" "tshape (snd (collate b)) = [length b]"
  "tdevice (snd (collate b)) = cpu_device"
  by (simp_all add: collate_def)

lemma fmnist_batch_shape:
  assumes "c \<in> set (chunks bs (map (\<lambda>(img, y). (fmnist_transform img, y)) ds))"
    and "list_all fmnist_sample ds"
  shows "wf_tensor (fst (collate c)) \<and> tshape (fst (collate c)) = [length c, 1, 28, 28] \<and>
         tdevice (fst (collate c)) = cpu_device \<and>
         wf_tensor (snd (collate c)) \<and> tshape (snd (collate c)) = [length c] \<and>
         tdevice (snd (collate c)) = cpu_device \<and>
         list_all (\<lambda>y. 0 \<le> y \<and> y < 10) (tdata (snd (collate c)))"
proof -
  let ?xs = "map (\<lambda>(img, y). (fmnist_transform img, y)) ds"
  have sub: "set c \<subseteq> set ?xs" using assms(1) by (rule chunks_subset)
  have elem: "\<And>s. s \<in> set c \<Longrightarrow> tshape (fst s) = [1, 28, 28] \<and> length (tdata (fst s)) = 784 \<and>
                   0 \<le> snd s \<and> snd s < 10"
  proof -
    fix s assume "s \<in> set c"
    with sub obtain img y where "(img, y) \<in> set ds" and s: "s = (fmnist_transform img, y)" by auto
    with assms(2) have "length img = 784" "0 \<le> y" "y < 10"
      by (auto simp: list_all_iff fmnist_sample_def)
    with s show "tshape (fst s) = [1, 28, 28] \<and> length (tdata (fst s)) = 784 \<and> 0 \<le> snd s \<and> snd s < 10"
      by (simp add: fmnist_transform_shape)
  qed
  have ne: "c \<noteq> []" using assms(1) by (rule chunks_nonempty)
  then have hd: "tshape (fst (hd c)) = [1, 28, 28]" using elem by simp
  have "\<forall>ys \<in> set (map (tdata \<circ> fst) c). length ys = 784" using elem by auto
  then have "length (concat (map (tdata \<circ> fst) c)) = length c * 784"
    using length_concat_const by fastforce
  then show ?thesis using hd elem by (auto simp: wf_tensor_def list_all_iff)
qed

section \<open>Properties\<close>

text \<open>
  C23: after \<open>ToTensor\<close> and \<open>Normalize((0.1307,), (0.3081,))\<close>, every
  value of an image tensor lies between \<open>-0.1307/0.3081\<close> (a black pixel)
  and \<open>(1 - 0.1307)/0.3081\<close> (a white pixel): a byte is at most 255.
\<close>

theorem fmnist_transform_bounds:
  assumes "v \<in> set (tdata (fmnist_transform px))"
  shows "- (0.1307 / 0.3081) \<le> v \<and> v \<le> (1 - 0.1307) / 0.3081"
proof -
  from assms obtain u where u: "u \<in> set (tdata (to_tensor px))" and v: "v = (u - 0.1307) / 0.3081"
    by (auto simp: fmnist_transform_def normalize_def)
  from to_tensor_range [OF u] have "0 \<le> u" "u \<le> 1" by simp_all
  with v show ?thesis by (simp add: divide_right_mono)
qed

theorem fmnist_transform_bounds_witness:
  "(0 - 0.1307) / 0.3081 \<in> set (tdata (fmnist_transform [0])) \<and>
   - (0.1307 / 0.3081) \<le> ((0 - 0.1307) / 0.3081 :: real)"
proof -
  have m: "(0 - 0.1307) / 0.3081 \<in> set (tdata (fmnist_transform [0]))"
    by (simp add: fmnist_transform_def normalize_def to_tensor_def)
  show ?thesis using m fmnist_transform_bounds [OF m] by simp
qed

text \<open>
  The loader with \<open>shuffle=False\<close> loses, duplicates and reorders
  nothing: the labels of its batches, concatenated, are the dataset's labels in
  order, and the data of its batches are the transformed images in order.
\<close>

theorem data_loader_order:
  assumes "0 < bs"
  shows "concat (map (tdata \<circ> snd) (data_loader bs tf ds)) = map snd ds \<and>
         concat (map (tdata \<circ> fst) (data_loader bs tf ds)) = concat (map (\<lambda>s. tdata (tf (fst s))) ds)"
proof -
  let ?xs = "map (\<lambda>(img, y). (tf img, y)) ds"
  have "concat (map (tdata \<circ> snd) (data_loader bs tf ds)) = concat (map (map snd) (chunks bs ?xs))"
    by (simp add: data_loader_def comp_def)
  also have "\<dots> = map snd (concat (chunks bs ?xs))" by (simp add: map_concat)
  also have "\<dots> = map snd ds" using assms by (simp add: case_prod_beta comp_def)
  finally have l: "concat (map (tdata \<circ> snd) (data_loader bs tf ds)) = map snd ds" .
  have "concat (map (tdata \<circ> fst) (data_loader bs tf ds)) = concat (map (\<lambda>b. concat (map (tdata \<circ> fst) b)) (chunks bs ?xs))"
    by (simp add: data_loader_def comp_def)
  also have "\<dots> = concat (map (tdata \<circ> fst) (concat (chunks bs ?xs)))"
    by (simp add: concat_map_concat_map)
  also have "\<dots> = concat (map (\<lambda>s. tdata (tf (fst s))) ds)" using assms by (simp add: case_prod_beta comp_def)
  finally show ?thesis using l by simp
qed

theorem data_loader_order_witness:
  "0 < (1 :: nat) \<and>
   concat (map (tdata \<circ> snd) (data_loader 1 fmnist_transform [([0], 3), ([255], 7)])) = [3, 7]"
proof -
  have b: "0 < (1 :: nat)" by simp
  show ?thesis using data_loader_order [OF b, of fmnist_transform "[([0], 3), ([255], 7)]"] b by simp
qed



end
