(* ===== verification/Optim.thy ===== *)
theory Optim
  imports Prelude
begin

text \<open>
  \<open>torch.optim.Adadelta\<close>, as the training notebook creates it:
  \<open>optim.Adadelta(model.parameters(), lr=0.01)\<close>, with the library defaults
  \<open>rho = 0.9\<close>, \<open>eps = 1e-6\<close> and no weight decay. The optimizer keeps, for
  each parameter, a running average of squared gradients (\<open>square_avg\<close>) and
  of squared updates (\<open>acc_delta\<close>), created as zeros the first time the
  parameter is stepped. \<open>step()\<close> updates every parameter whose gradient is
  set and skips the others. A parameter's data is a flat list of reals; the
  parameter list is \<open>model.parameters()\<close> in registration order.
\<close>

record adadelta =
  lr :: real
  rho :: real
  eps :: real
  ada_state :: "(real list \<times> real list) option list"

definition adadelta_new :: "nat \<Rightarrow> adadelta" where
  "adadelta_new n = \<lparr>lr = 0.01, rho = 0.9, eps = 0.000001, ada_state = replicate n None\<rparr>"

text \<open>
  One element of one parameter, following the single-tensor update of the
  library: \<open>square_avg.mul_(rho).addcmul_(grad, grad, value=1-rho)\<close>,
  \<open>std = square_avg.add(eps).sqrt_()\<close>,
  \<open>delta = acc_delta.add(eps).sqrt_().div_(std).mul_(grad)\<close>,
  \<open>acc_delta.mul_(rho).addcmul_(delta, delta, value=1-rho)\<close>,
  \<open>param.add_(delta, alpha=-lr)\<close>.
\<close>

definition ada_elem :: "real \<Rightarrow> real \<Rightarrow> real \<Rightarrow> real \<times> real \<times> real \<times> real \<Rightarrow> real \<times> real \<times> real" where
  "ada_elem lr_c rho_c eps_c v =
     (case v of (x, g, sa, ad) \<Rightarrow>
       let sa' = rho_c * sa + (1 - rho_c) * g * g;
           std = sqrt (sa' + eps_c);
           delta = sqrt (ad + eps_c) / std * g;
           ad' = rho_c * ad + (1 - rho_c) * delta * delta
       in (x - lr_c * delta, sa', ad'))"

text \<open>One parameter: its state, zeros if it has none yet, updated element by element.\<close>

definition ada_param ::
  "adadelta \<Rightarrow> real list \<Rightarrow> real list \<Rightarrow> (real list \<times> real list) option \<Rightarrow> real list \<times> (real list \<times> real list)" where
  "ada_param c x g st =
     (let (sa, ad) = (case st of None \<Rightarrow> (map (\<lambda>_. 0) x, map (\<lambda>_. 0) x) | Some s \<Rightarrow> s);
          r = map (ada_elem (lr c) (rho c) (eps c)) (zip x (zip g (zip sa ad)))
      in (map fst r, (map (fst \<circ> snd) r, map (snd \<circ> snd) r)))"

text \<open>One slot of the parameter loop of \<open>step()\<close>: a parameter without a gradient is skipped.\<close>

definition ada_slot ::
  "adadelta \<Rightarrow> real list \<times> real list option \<times> (real list \<times> real list) option \<Rightarrow> real list \<times> (real list \<times> real list) option" where
  "ada_slot c v =
     (case v of
        (x, None, st) \<Rightarrow> (x, st)
      | (x, Some g, st) \<Rightarrow> (case ada_param c x g st of (x', s') \<Rightarrow> (x', Some s')))"

text \<open>\<open>optimizer.step()\<close>: the new parameter data and the new optimizer.\<close>

definition adadelta_step ::
  "adadelta \<Rightarrow> real list list \<Rightarrow> real list option list \<Rightarrow> real list list \<times> adadelta" where
  "adadelta_step c xs gs =
     (let new = map (ada_slot c) (zip xs (zip gs (ada_state c)))
      in (map fst new, c\<lparr>ada_state := map snd new\<rparr>))"

text \<open>
  Autograd's gradient slots. \<open>optimizer.zero_grad()\<close> sets every \<open>.grad\<close> to
  \<open>None\<close> (the library default \<open>set_to_none=True\<close>); \<open>loss.backward()\<close>
  stores the new gradient in an empty slot and adds it to a filled one.
\<close>

definition zero_grad :: "real list option list \<Rightarrow> real list option list" where
  "zero_grad gs = map (\<lambda>_. None) gs"

definition accumulate_grad :: "real list option \<Rightarrow> real list \<Rightarrow> real list option" where
  "accumulate_grad old g = (case old of None \<Rightarrow> Some g | Some a \<Rightarrow> Some (map2 (+) a g))"

definition backward :: "real list option list \<Rightarrow> real list list \<Rightarrow> real list option list" where
  "backward gs new = map2 accumulate_grad gs new"

section \<open>Lemmas\<close>

lemma ada_elem_unfold:
  "ada_elem lr_c rho_c eps_c (x, g, sa, ad) =
     (x - lr_c * (sqrt (ad + eps_c) / sqrt (rho_c * sa + (1 - rho_c) * g * g + eps_c) * g),
      rho_c * sa + (1 - rho_c) * g * g,
      rho_c * ad + (1 - rho_c) * (sqrt (ad + eps_c) / sqrt (rho_c * sa + (1 - rho_c) * g * g + eps_c) * g) *
                               (sqrt (ad + eps_c) / sqrt (rho_c * sa + (1 - rho_c) * g * g + eps_c) * g))"
  by (simp add: ada_elem_def Let_def)

lemma ada_square_term_nonneg: "rho_c \<le> 1 \<Longrightarrow> 0 \<le> (1 - rho_c) * g * (g :: real)"
  by (simp add: mult.assoc)

lemma ada_denominator_pos:
  assumes "0 \<le> rho_c" and "rho_c \<le> 1" and "0 \<le> sa" and "0 < eps_c"
  shows "0 < rho_c * sa + (1 - rho_c) * g * g + (eps_c :: real)"
proof -
  have "0 \<le> rho_c * sa" using assms(1,3) by simp
  moreover have "0 \<le> (1 - rho_c) * g * g" using assms(2) by (rule ada_square_term_nonneg)
  ultimately show ?thesis using assms(4) by linarith
qed

section \<open>Properties\<close>

text \<open>
  Adadelta moves every parameter element against its gradient: the
  change \<open>x - x'\<close> has the sign of the gradient, so a zero gradient leaves
  the element where it is (for a positive learning rate, \<open>rho\<close> in
  \<open>[0, 1]\<close>, positive \<open>eps\<close> and non-negative running averages).
\<close>

theorem ada_elem_descent:
  assumes "0 < lr_c" and "0 \<le> rho_c" and "rho_c \<le> 1" and "0 < eps_c" and "0 \<le> sa" and "0 \<le> ad"
  shows "sgn (x - fst (ada_elem lr_c rho_c eps_c (x, g, sa, ad))) = sgn g"
proof -
  let ?sa' = "rho_c * sa + (1 - rho_c) * g * g"
  have "0 < ?sa' + eps_c" using assms(2,3,5,4) by (rule ada_denominator_pos)
  then have std: "0 < sqrt (?sa' + eps_c)" by simp
  have num: "0 < sqrt (ad + eps_c)" using assms(4,6) by simp
  define c where "c = lr_c * (sqrt (ad + eps_c) / sqrt (?sa' + eps_c))"
  have eq: "x - fst (ada_elem lr_c rho_c eps_c (x, g, sa, ad)) = c * g"
    by (simp add: c_def ada_elem_unfold)
  have "0 < c" using assms(1) std num by (simp add: c_def)
  then show ?thesis by (simp only: eq sgn_mult) simp
qed

theorem ada_elem_descent_witness:
  "sgn (1 - fst (ada_elem 0.01 0.9 0.000001 (1, 1, 0, 0))) = sgn (1 :: real)"
  by (rule ada_elem_descent) simp_all

text \<open>
  However large the gradient, one Adadelta step moves an element by at
  most \<open>lr * sqrt((acc_delta + eps) / (1 - rho))\<close>: the squared gradient in
  the denominator's running average caps the step.
\<close>

theorem ada_elem_step_bound:
  assumes "0 \<le> lr_c" and "0 \<le> rho_c" and "rho_c < 1" and "0 < eps_c" and "0 \<le> sa" and "0 \<le> ad"
  shows "\<bar>x - fst (ada_elem lr_c rho_c eps_c (x, g, sa, ad))\<bar> \<le> lr_c * sqrt ((ad + eps_c) / (1 - rho_c))"
proof -
  let ?sa' = "rho_c * sa + (1 - rho_c) * g * g"
  let ?num = "sqrt (ad + eps_c)"
  let ?std = "sqrt (?sa' + eps_c)"
  have num: "0 < ?num" using assms(4,6) by simp
  have r: "0 < sqrt (1 - rho_c)" using assms(3) by simp
  have "0 < ?sa' + eps_c" using assms(2) _ assms(5,4) by (rule ada_denominator_pos) (use assms(3) in simp)
  then have std: "0 < ?std" by simp
  have delta: "\<bar>x - fst (ada_elem lr_c rho_c eps_c (x, g, sa, ad))\<bar> = lr_c * (?num * \<bar>g\<bar> / ?std)"
    using assms(1) num std by (simp add: ada_elem_unfold abs_mult)
  have "?num * \<bar>g\<bar> / ?std \<le> ?num / sqrt (1 - rho_c)"
  proof (cases "g = 0")
    case True
    then show ?thesis using num r by simp
  next
    case False
    have "0 \<le> rho_c * sa" using assms(2,5) by simp
    then have "(1 - rho_c) * g * g \<le> ?sa' + eps_c" using assms(4) by simp
    then have "sqrt ((1 - rho_c) * g * g) \<le> ?std" by (rule real_sqrt_le_mono)
    moreover have "sqrt ((1 - rho_c) * g * g) = sqrt (1 - rho_c) * \<bar>g\<bar>"
      by (simp add: real_sqrt_mult mult.assoc)
    ultimately have low: "sqrt (1 - rho_c) * \<bar>g\<bar> \<le> ?std" by simp
    have pos: "0 < sqrt (1 - rho_c) * \<bar>g\<bar>" using r False by simp
    have "0 < ?std * (sqrt (1 - rho_c) * \<bar>g\<bar>)" using std pos by simp
    then have "?num * \<bar>g\<bar> / ?std \<le> ?num * \<bar>g\<bar> / (sqrt (1 - rho_c) * \<bar>g\<bar>)"
      using low num by (intro divide_left_mono) simp_all
    also have "\<dots> = ?num / sqrt (1 - rho_c)" using False by simp
    finally show ?thesis .
  qed
  then have "lr_c * (?num * \<bar>g\<bar> / ?std) \<le> lr_c * (?num / sqrt (1 - rho_c))"
    using assms(1) by (rule mult_left_mono)
  also have "?num / sqrt (1 - rho_c) = sqrt ((ad + eps_c) / (1 - rho_c))"
    by (simp add: real_sqrt_divide)
  finally show ?thesis using delta by simp
qed

theorem ada_elem_step_bound_witness:
  "\<bar>1 - fst (ada_elem 0.01 0.9 0.000001 (1, 1000, 0, 0))\<bar> \<le> 0.01 * sqrt ((0 + 0.000001) / (1 - 0.9 :: real))"
  by (rule ada_elem_step_bound) simp_all

text \<open>
  The running averages \<open>square_avg\<close> and \<open>acc_delta\<close> stay
  non-negative through a step when \<open>rho\<close> is in \<open>[0, 1]\<close>, so the square
  roots the next step takes are of non-negative numbers.
\<close>

theorem ada_elem_state_nonneg:
  assumes "0 \<le> rho_c" and "rho_c \<le> 1" and "0 \<le> sa" and "0 \<le> ad"
    and "ada_elem lr_c rho_c eps_c (x, g, sa, ad) = (x', sa', ad')"
  shows "0 \<le> sa' \<and> 0 \<le> ad'"
proof -
  have "0 \<le> rho_c * sa" "0 \<le> rho_c * ad" using assms(1,3,4) by simp_all
  moreover have "\<And>d. 0 \<le> (1 - rho_c) * d * d" using assms(2) by (rule ada_square_term_nonneg)
  ultimately show ?thesis using assms(5) by (auto simp: ada_elem_unfold intro: add_nonneg_nonneg)
qed

theorem ada_elem_state_nonneg_witness:
  "0 \<le> fst (snd (ada_elem 0.01 0.9 0.000001 (1, 1, 0, 0))) \<and>
   0 \<le> snd (snd (ada_elem 0.01 0.9 0.000001 (1, 1, 0, 0 :: real)))"
proof -
  obtain x' sa' ad' where e: "ada_elem 0.01 0.9 0.000001 (1, 1, 0, 0 :: real) = (x', sa', ad')"
    by (cases "ada_elem 0.01 0.9 0.000001 (1, 1, 0, 0 :: real)") auto
  have "0 \<le> sa' \<and> 0 \<le> ad'" by (rule ada_elem_state_nonneg [OF _ _ _ _ e]) simp_all
  with e show ?thesis by simp
qed

end
