(* ===== verification/Train.thy ===== *)
theory Train
  imports Data Optim
begin

text \<open>
  The training cells of \<open>torch-use-gpu.ipynb\<close>: the optimizer
  \<open>optim.Adadelta(model.parameters(), lr=0.01)\<close> and the function
  \<open>train(model, device, train_loader, optimizer, epoch)\<close>, which puts the
  model in training mode and, for every batch, moves data and labels to
  \<open>device\<close>, clears the gradients, runs the model, computes
  \<open>F.nll_loss\<close>, back-propagates and steps the optimizer.
  Automatic differentiation is a library service this repository only calls:
  the model takes it as a parameter \<open>gradf\<close>, the gradient of the mean loss
  of a batch with respect to each parameter at the current parameter values.
  Every theorem about the loop holds for every such function.
\<close>

type_synonym grad_fn = "simplenet \<Rightarrow> rtensor \<Rightarrow> int tensor \<Rightarrow> real list list"

section \<open>Parameters\<close>

text \<open>\<open>model.parameters()\<close>: the four parameter tensors in registration order.\<close>

definition params :: "simplenet \<Rightarrow> rtensor list" where
  "params net = [weight (fc1 net), bias (fc1 net), weight (fc2 net), bias (fc2 net)]"

text \<open>Writing new data into the four parameters in place (what \<open>param.add_\<close> does).\<close>

definition set_params :: "simplenet \<Rightarrow> real list list \<Rightarrow> simplenet" where
  "set_params net vs =
     (case vs of
        [w1, b1, w2, b2] \<Rightarrow>
          net\<lparr>fc1 := \<lparr>weight = (weight (fc1 net))\<lparr>tdata := w1\<rparr>, bias = (bias (fc1 net))\<lparr>tdata := b1\<rparr>\<rparr>,
              fc2 := \<lparr>weight = (weight (fc2 net))\<lparr>tdata := w2\<rparr>, bias = (bias (fc2 net))\<lparr>tdata := b2\<rparr>\<rparr>\<rparr>
      | _ \<Rightarrow> net)"

text \<open>A gradient function gives one gradient per parameter, of the parameter's size.\<close>

definition grad_shapes :: "grad_fn \<Rightarrow> bool" where
  "grad_shapes gradf =
     (\<forall>net d t. map length (gradf net d t) = map (\<lambda>p. length (tdata p)) (params net))"

section \<open>The loop\<close>

record train_state =
  tnet :: simplenet
  grads :: "real list option list"
  topt :: adadelta

text \<open>\<open>optimizer.step()\<close> on the model's parameters and their gradient slots.\<close>

definition optimizer_step :: "train_state \<Rightarrow> train_state" where
  "optimizer_step st =
     (case adadelta_step (topt st) (map tdata (params (tnet st))) (grads st) of
        (xs, c) \<Rightarrow> st\<lparr>tnet := set_params (tnet st) xs, topt := c\<rparr>)"

text \<open>
  The body of the \<open>for\<close> loop of \<open>train\<close>, for one batch \<open>(data, target)\<close>:
  \<open>data, target = data.to(device), target.to(device)\<close>,
  \<open>optimizer.zero_grad()\<close>, \<open>output = model(data)\<close>,
  \<open>loss = F.nll_loss(output, target)\<close>, \<open>loss.backward()\<close>,
  \<open>optimizer.step()\<close>. \<open>bs\<close> is the notebook's global \<open>batch_size\<close>,
  which \<open>forward\<close> reads.
\<close>

definition train_batch ::
  "host \<Rightarrow> device \<Rightarrow> nat \<Rightarrow> grad_fn \<Rightarrow> train_state \<Rightarrow> rtensor \<times> int tensor \<Rightarrow> train_state res" where
  "train_batch h dev bs gradf st b =
     res_bind (tensor_to h (fst b) dev) (\<lambda>data.
     res_bind (tensor_to h (snd b) dev) (\<lambda>target.
     (let st1 = st\<lparr>grads := zero_grad (grads st)\<rparr> in
      res_bind (simplenet_forward bs (tnet st1) data) (\<lambda>output.
      res_bind (nll_loss output target Mean) (\<lambda>loss.
      (let st2 = st1\<lparr>grads := backward (grads st1) (gradf (tnet st1) data target)\<rparr>
       in Inr (optimizer_step st2)))))))"

text \<open>
  \<open>train(...)\<close>: \<open>model.train()\<close>, then the \<open>for\<close> statement over the
  loader's batches in order (\<open>py_for\<close>); the first exception ends it.
  (\<open>print(device)\<close> and the \<open>tqdm\<close> progress bar only write output.)
\<close>

definition train ::
  "host \<Rightarrow> device \<Rightarrow> nat \<Rightarrow> grad_fn \<Rightarrow> train_state \<Rightarrow> (rtensor \<times> int tensor) list \<Rightarrow> train_state res" where
  "train h dev bs gradf st loader =
     py_for (train_batch h dev bs gradf) loader (st\<lparr>tnet := simplenet_train (tnet st)\<rparr>)"

section \<open>The abstract algorithm\<close>

text \<open>
  What the loop is meant to compute: for each batch in turn, the gradient of
  that batch's loss at the current parameters, and one Adadelta update with it.
  A batch is seen as the model sees it, moved to the training device.
\<close>

definition ada_update :: "adadelta \<Rightarrow> simplenet \<Rightarrow> real list list \<Rightarrow> simplenet \<times> adadelta" where
  "ada_update c net g =
     (case adadelta_step c (map tdata (params net)) (map Some g) of (xs, c') \<Rightarrow> (set_params net xs, c'))"

definition move_batch :: "device \<Rightarrow> rtensor \<times> int tensor \<Rightarrow> rtensor \<times> int tensor" where
  "move_batch d b = ((fst b)\<lparr>tdevice := d\<rparr>, (snd b)\<lparr>tdevice := d\<rparr>)"

fun abstract_epoch ::
  "grad_fn \<Rightarrow> (rtensor \<times> int tensor) list \<Rightarrow> simplenet \<times> adadelta \<Rightarrow> simplenet \<times> adadelta" where
  "abstract_epoch gradf [] s = s"
| "abstract_epoch gradf (b # bs) (net, c) =
     abstract_epoch gradf bs (case ada_update c net (gradf net (fst b) (snd b)) of (net', c') \<Rightarrow> (net', c'))"

section \<open>Invariants\<close>

text \<open>
  The Adadelta state of a parameter fits it: none yet, or the two running
  averages \<open>square_avg\<close> and \<open>acc_delta\<close> with one entry per element.
\<close>

definition state_fits :: "real list \<Rightarrow> (real list \<times> real list) option \<Rightarrow> bool" where
  "state_fits x st = (case st of None \<Rightarrow> True | Some (sa, ad) \<Rightarrow> length sa = length x \<and> length ad = length x)"

text \<open>
  A gradient slot fits its parameter when it is empty or holds one entry per
  element of the parameter.
\<close>

definition grad_fits :: "real list \<Rightarrow> real list option \<Rightarrow> bool" where
  "grad_fits x g = (case g of None \<Rightarrow> True | Some v \<Rightarrow> length v = length x)"

text \<open>
  A batch as the training loader gives it: a well-formed image tensor of
  \<open>bs\<close> images of 784 pixels, and \<open>bs\<close> labels among the ten classes.
\<close>

definition batch_ok :: "nat \<Rightarrow> rtensor \<times> int tensor \<Rightarrow> bool" where
  "batch_ok bs b =
     (wf_tensor (fst b) \<and> numel (fst b) = bs * 784 \<and> length (tdata (snd b)) = bs \<and>
      list_all (\<lambda>y. 0 \<le> y \<and> y < 10) (tdata (snd b)))"

section \<open>Lemmas\<close>

lemma ada_param_shape:
  assumes "length g = length x" and "state_fits x st"
  shows "length (fst (ada_param c x g st)) = length x \<and> state_fits (fst (ada_param c x g st)) (Some (snd (ada_param c x g st)))"
  using assms by (cases st) (auto simp: ada_param_def state_fits_def Let_def split: prod.splits)

lemma adadelta_step_fits:
  assumes "list_all2 grad_fits xs gs" and "list_all2 state_fits xs (ada_state c)"
  shows "list_all2 (\<lambda>x x'. length x' = length x) xs (fst (adadelta_step c xs gs)) \<and>
         list_all2 state_fits (fst (adadelta_step c xs gs)) (ada_state (snd (adadelta_step c xs gs))) \<and>
         lr (snd (adadelta_step c xs gs)) = lr c \<and> rho (snd (adadelta_step c xs gs)) = rho c \<and>
         eps (snd (adadelta_step c xs gs)) = eps c"
proof -
  have "list_all2 (\<lambda>x x'. length x' = length x) xs (map fst (map (ada_slot c) (zip xs (zip gs sts)))) \<and>
        list_all2 state_fits (map fst (map (ada_slot c) (zip xs (zip gs sts))))
                             (map snd (map (ada_slot c) (zip xs (zip gs sts))))"
    if "list_all2 grad_fits xs gs" and "list_all2 state_fits xs sts" for sts
    using that
  proof (induction xs arbitrary: gs sts)
    case Nil
    then show ?case by simp
  next
    case (Cons x xs)
    from Cons.prems obtain g gs' st sts' where gs: "gs = g # gs'" and sts: "sts = st # sts'"
      by (auto simp: list_all2_Cons1)
    with Cons.prems have g: "grad_fits x g" and st: "state_fits x st"
      and r1: "list_all2 grad_fits xs gs'" and r2: "list_all2 state_fits xs sts'" by simp_all
    show ?case
    proof (cases g)
      case None
      then show ?thesis using st Cons.IH [OF r1 r2] by (simp add: gs sts ada_slot_def)
    next
      case (Some v)
      obtain x' s' where ap: "ada_param c x v st = (x', s')" by (cases "ada_param c x v st")
      have "length v = length x" using g Some by (simp add: grad_fits_def)
      from ada_param_shape [OF this st, of c] ap Cons.IH [OF r1 r2] Some show ?thesis
        by (simp add: gs sts ada_slot_def)
    qed
  qed
  from this [OF assms] show ?thesis by (simp add: adadelta_step_def Let_def)
qed

lemma adadelta_step_shape:
  assumes "list_all2 (\<lambda>x g. length g = length x) xs gs" and "list_all2 state_fits xs (ada_state c)"
  shows "list_all2 (\<lambda>x x'. length x' = length x) xs (fst (adadelta_step c xs (map Some gs))) \<and>
         list_all2 state_fits (fst (adadelta_step c xs (map Some gs))) (ada_state (snd (adadelta_step c xs (map Some gs)))) \<and>
         lr (snd (adadelta_step c xs (map Some gs))) = lr c \<and>
         rho (snd (adadelta_step c xs (map Some gs))) = rho c \<and>
         eps (snd (adadelta_step c xs (map Some gs))) = eps c"
proof (rule adadelta_step_fits [OF _ assms(2)])
  show "list_all2 grad_fits xs (map Some gs)"
    using assms(1) by (simp add: list_all2_map2 grad_fits_def)
qed

lemma list_all2_lengths: "map length g = map length xs \<Longrightarrow> list_all2 (\<lambda>x g. length g = length x) xs g"
proof (induction xs arbitrary: g)
  case Nil
  then show ?case by simp
next
  case (Cons x xs)
  then obtain g1 g' where "g = g1 # g'" by (cases g) auto
  with Cons show ?case by simp
qed

lemma set_params_props:
  assumes "list_all2 (\<lambda>x x'. length x' = length x) (map tdata (params net)) xs"
  shows "map tdata (params (set_params net xs)) = xs \<and>
         map tshape (params (set_params net xs)) = map tshape (params net) \<and>
         map tdevice (params (set_params net xs)) = map tdevice (params net) \<and>
         training (set_params net xs) = training net"
proof -
  from assms obtain x1 x2 x3 x4 where "xs = [x1, x2, x3, x4]"
    by (auto simp: params_def list_all2_Cons1)
  then show ?thesis by (simp add: params_def set_params_def)
qed

lemma wf_set_params:
  assumes "wf_simplenet net" and "list_all2 (\<lambda>x x'. length x' = length x) (map tdata (params net)) xs"
  shows "wf_simplenet (set_params net xs) \<and> net_device (set_params net xs) = net_device net"
proof -
  from assms(2) obtain x1 x2 x3 x4 where xs: "xs = [x1, x2, x3, x4]"
    and l: "length x1 = length (tdata (weight (fc1 net)))" "length x2 = length (tdata (bias (fc1 net)))"
           "length x3 = length (tdata (weight (fc2 net)))" "length x4 = length (tdata (bias (fc2 net)))"
    by (auto simp: params_def list_all2_Cons1)
  with assms(1) show ?thesis
    by (simp add: set_params_def wf_simplenet_def wf_linear_def wf_tensor_def net_device_def)
qed

lemma ada_update_props:
  assumes "wf_simplenet net" and "map length g = map (\<lambda>p. length (tdata p)) (params net)"
    and "list_all2 state_fits (map tdata (params net)) (ada_state c)"
  shows "wf_simplenet (fst (ada_update c net g)) \<and> net_device (fst (ada_update c net g)) = net_device net \<and>
         training (fst (ada_update c net g)) = training net \<and>
         list_all2 state_fits (map tdata (params (fst (ada_update c net g)))) (ada_state (snd (ada_update c net g)))"
proof -
  let ?xs = "map tdata (params net)"
  have l: "list_all2 (\<lambda>x g. length g = length x) ?xs g"
    using assms(2) by (intro list_all2_lengths) (simp add: comp_def)
  obtain xs' c' where st: "adadelta_step c ?xs (map Some g) = (xs', c')"
    by (cases "adadelta_step c ?xs (map Some g)")
  from adadelta_step_shape [OF l assms(3)] st
  have s1: "list_all2 (\<lambda>x x'. length x' = length x) ?xs xs'" and s2: "list_all2 state_fits xs' (ada_state c')"
    by simp_all
  from set_params_props [OF s1] wf_set_params [OF assms(1) s1] s2 st show ?thesis
    by (simp add: ada_update_def)
qed

lemma backward_after_zero_grad:
  "length gs = length g \<Longrightarrow> backward (zero_grad gs) g = map Some g"
proof (induction gs arbitrary: g)
  case Nil
  then show ?case by (simp add: backward_def zero_grad_def)
next
  case (Cons a gs)
  then obtain g1 g' where "g = g1 # g'" by (cases g) auto
  with Cons show ?case by (simp add: backward_def zero_grad_def accumulate_grad_def)
qed

lemma length_params [simp]: "length (params net) = 4"
  by (simp add: params_def)

lemma simplenet_train_props [simp]:
  "wf_simplenet (simplenet_train net) = wf_simplenet net"
  "net_device (simplenet_train net) = net_device net"
  "params (simplenet_train net) = params net"
  "training (simplenet_train net)"
  by (simp_all add: simplenet_train_def wf_simplenet_def net_device_def params_def)

lemma train_batch_result:
  assumes dev: "resolve_device h dev = Inr dev'"
    and net: "wf_simplenet (tnet st)" "net_device (tnet st) = dev'"
    and st: "length (grads st) = 4" and gs: "grad_shapes gradf"
    and b: "wf_tensor (fst b)" "numel (fst b) = bs * 784" "0 < bs" "length (tdata (snd b)) = bs"
           "list_all (\<lambda>y. 0 \<le> y \<and> y < 10) (tdata (snd b))"
  shows "train_batch h dev bs gradf st b =
           Inr (st\<lparr>tnet := fst (ada_update (topt st) (tnet st) (gradf (tnet st) (fst (move_batch dev' b)) (snd (move_batch dev' b)))),
                   grads := map Some (gradf (tnet st) (fst (move_batch dev' b)) (snd (move_batch dev' b))),
                   topt := snd (ada_update (topt st) (tnet st) (gradf (tnet st) (fst (move_batch dev' b)) (snd (move_batch dev' b))))\<rparr>)"
proof -
  let ?d = "(fst b)\<lparr>tdevice := dev'\<rparr>" and ?t = "(snd b)\<lparr>tdevice := dev'\<rparr>"
  let ?g = "gradf (tnet st) ?d ?t"
  have m1: "tensor_to h (fst b) dev = Inr ?d" and m2: "tensor_to h (snd b) dev = Inr ?t"
    using dev by (simp_all add: tensor_to_def)
  have "wf_tensor ?d" "tdevice ?d = net_device (tnet st)" "numel ?d = bs * 784"
    using b net by simp_all
  then obtain y where f: "simplenet_forward bs (tnet st) ?d = Inr y" and y: "tshape y = [bs, 10]"
    "tdevice y = net_device (tnet st)"
    using simplenet_forward_result [OF net(1)] b(3) by blast
  have "tdevice ?t = tdevice y" using y net by simp
  moreover have "list_all (\<lambda>v. 0 \<le> v \<and> v < int 10) (tdata ?t)" using b(5) by simp
  ultimately obtain L where l: "nll_loss y ?t Mean = Inr L"
    using nll_loss_result [OF y(1)] b(4) by fastforce
  have lg: "length (grads st) = length ?g"
    using gs st by (simp add: grad_shapes_def map_eq_imp_length_eq [of length ?g])
  have bw: "backward (zero_grad (grads st)) ?g = map Some ?g"
    using lg by (rule backward_after_zero_grad)
  show ?thesis
    using m1 m2 f l bw
    by (simp add: train_batch_def move_batch_def optimizer_step_def ada_update_def split: prod.splits)
qed

lemma train_fold_result:
  assumes dev: "resolve_device h dev = Inr dev'" and gs: "grad_shapes gradf" and bs: "0 < bs"
    and batches: "list_all (batch_ok bs) loader"
    and net: "wf_simplenet (tnet st)" "net_device (tnet st) = dev'"
    and st: "length (grads st) = 4" "list_all2 state_fits (map tdata (params (tnet st))) (ada_state (topt st))"
  shows "\<exists>st'. res_fold (train_batch h dev bs gradf) loader st = Inr st' \<and>
              (tnet st', topt st') = abstract_epoch gradf (map (move_batch dev') loader) (tnet st, topt st) \<and>
              training (tnet st') = training (tnet st) \<and>
              wf_simplenet (tnet st') \<and> net_device (tnet st') = dev' \<and> length (grads st') = 4 \<and>
              list_all2 state_fits (map tdata (params (tnet st'))) (ada_state (topt st'))"
  using batches net st
proof (induction loader arbitrary: st)
  case Nil
  then show ?case by simp
next
  case (Cons b loader)
  let ?g = "gradf (tnet st) (fst (move_batch dev' b)) (snd (move_batch dev' b))"
  let ?u = "ada_update (topt st) (tnet st) ?g"
  let ?st1 = "st\<lparr>tnet := fst ?u, grads := map Some ?g, topt := snd ?u\<rparr>"
  from Cons.prems(1) have b: "batch_ok bs b" and rest: "list_all (batch_ok bs) loader" by simp_all
  have step: "train_batch h dev bs gradf st b = Inr ?st1"
    using train_batch_result [OF dev Cons.prems(2,3,4) gs] b bs by (simp add: batch_ok_def)
  have shapes: "map length ?g = map (\<lambda>p. length (tdata p)) (params (tnet st))"
    using gs by (simp add: grad_shapes_def)
  from ada_update_props [OF Cons.prems(2) shapes Cons.prems(5)]
  have inv: "wf_simplenet (tnet ?st1)" "net_device (tnet ?st1) = dev'" "training (tnet ?st1) = training (tnet st)"
    "list_all2 state_fits (map tdata (params (tnet ?st1))) (ada_state (topt ?st1))"
    using Cons.prems(3) by simp_all
  have "length (grads ?st1) = 4" using shapes by (simp add: map_eq_imp_length_eq [of length ?g])
  then obtain st' where r: "res_fold (train_batch h dev bs gradf) loader ?st1 = Inr st'"
    and a: "(tnet st', topt st') = abstract_epoch gradf (map (move_batch dev') loader) (tnet ?st1, topt ?st1)"
    and tr: "training (tnet st') = training (tnet ?st1)"
    and fin: "wf_simplenet (tnet st') \<and> net_device (tnet st') = dev' \<and> length (grads st') = 4 \<and>
              list_all2 state_fits (map tdata (params (tnet st'))) (ada_state (topt st'))"
    using Cons.IH [OF rest inv(1,2)] inv(4) by blast
  have "abstract_epoch gradf (map (move_batch dev') (b # loader)) (tnet st, topt st) =
        abstract_epoch gradf (map (move_batch dev') loader) (tnet ?st1, topt ?st1)"
    by (simp split: prod.splits)
  then show ?case using step r a tr inv(3) fin by simp
qed

lemma train_result:
  assumes "resolve_device h dev = Inr dev'" and "grad_shapes gradf" and "0 < bs"
    and "list_all (batch_ok bs) loader"
    and "wf_simplenet (tnet st)" and "net_device (tnet st) = dev'"
    and "length (grads st) = 4" and "list_all2 state_fits (map tdata (params (tnet st))) (ada_state (topt st))"
  shows "\<exists>st'. train h dev bs gradf st loader = Inr st' \<and>
              (tnet st', topt st') = abstract_epoch gradf (map (move_batch dev') loader) (simplenet_train (tnet st), topt st) \<and>
              training (tnet st') \<and>
              wf_simplenet (tnet st') \<and> net_device (tnet st') = dev' \<and> length (grads st') = 4 \<and>
              list_all2 state_fits (map tdata (params (tnet st'))) (ada_state (topt st'))"
proof -
  let ?st0 = "st\<lparr>tnet := simplenet_train (tnet st)\<rparr>"
  have "wf_simplenet (tnet ?st0)" "net_device (tnet ?st0) = dev'" "length (grads ?st0) = 4"
    "list_all2 state_fits (map tdata (params (tnet ?st0))) (ada_state (topt ?st0))"
    using assms(5-8) by simp_all
  from train_fold_result [OF assms(1-4) this] show ?thesis by (simp add: train_def py_for_fold)
qed

section \<open>Properties\<close>

text \<open>
  C2. One epoch of \<open>train\<close> refines the abstract algorithm: on a device that
  resolves on the host, for a well-formed model on that device, gradient slots
  for its four parameters, optimizer state that fits them, and a loader of
  well-formed batches, the loop raises nothing, leaves the model in training
  mode, and its model and optimizer are exactly those of one Adadelta update
  per batch, in loader order, each with the gradient of that batch at the
  parameters before it.
\<close>

theorem train_refines:
  assumes "resolve_device h dev = Inr dev'" and "grad_shapes gradf" and "0 < bs"
    and "list_all (batch_ok bs) loader"
    and "wf_simplenet (tnet st)" and "net_device (tnet st) = dev'"
    and "length (grads st) = 4" and "list_all2 state_fits (map tdata (params (tnet st))) (ada_state (topt st))"
  shows "\<exists>st'. train h dev bs gradf st loader = Inr st' \<and>
              (tnet st', topt st') = abstract_epoch gradf (map (move_batch dev') loader) (simplenet_train (tnet st), topt st) \<and>
              training (tnet st')"
  using train_result [OF assms] by blast

theorem train_refines_witness:
  "resolve_device \<lparr>gpu_names = []\<rparr> cpu_device = Inr cpu_device \<and>
   grad_shapes (\<lambda>net d t. map (\<lambda>p. map (\<lambda>_. 0) (tdata p)) (params net)) \<and> 0 < (1::nat) \<and>
   list_all (batch_ok 1) [(\<lparr>tdata = replicate 784 0, tshape = [1, 1, 28, 28], tdevice = cpu_device\<rparr>,
                            \<lparr>tdata = [3], tshape = [1], tdevice = cpu_device\<rparr>)] \<and>
   wf_simplenet (simplenet_new (\<lambda>_. 0) (\<lambda>_. 0)) \<and>
   net_device (simplenet_new (\<lambda>_. 0) (\<lambda>_. 0)) = cpu_device \<and>
   list_all2 state_fits (map tdata (params (simplenet_new (\<lambda>_. 0) (\<lambda>_. 0)))) (ada_state (adadelta_new 4)) \<and>
   (\<exists>st'. train \<lparr>gpu_names = []\<rparr> cpu_device 1 (\<lambda>net d t. map (\<lambda>p. map (\<lambda>_. 0) (tdata p)) (params net))
              \<lparr>tnet = simplenet_new (\<lambda>_. 0) (\<lambda>_. 0), grads = replicate 4 None, topt = adadelta_new 4\<rparr>
              [(\<lparr>tdata = replicate 784 0, tshape = [1, 1, 28, 28], tdevice = cpu_device\<rparr>,
                \<lparr>tdata = [3], tshape = [1], tdevice = cpu_device\<rparr>)] = Inr st' \<and>
         (tnet st', topt st') =
           abstract_epoch (\<lambda>net d t. map (\<lambda>p. map (\<lambda>_. 0) (tdata p)) (params net))
             (map (move_batch cpu_device)
               [(\<lparr>tdata = replicate 784 0, tshape = [1, 1, 28, 28], tdevice = cpu_device\<rparr>,
                 \<lparr>tdata = [3], tshape = [1], tdevice = cpu_device\<rparr>)])
             (simplenet_train (simplenet_new (\<lambda>_. 0) (\<lambda>_. 0)), adadelta_new 4) \<and>
         training (tnet st'))"
proof -
  have r: "resolve_device \<lparr>gpu_names = []\<rparr> cpu_device = Inr cpu_device"
    by (simp add: resolve_device_def cpu_device_def)
  have g: "grad_shapes (\<lambda>net d t. map (\<lambda>p. map (\<lambda>_. 0) (tdata p)) (params net))"
    by (simp add: grad_shapes_def comp_def)
  have b: "list_all (batch_ok 1) [(\<lparr>tdata = replicate 784 0, tshape = [1, 1, 28, 28], tdevice = cpu_device\<rparr>,
                                  \<lparr>tdata = [3::int], tshape = [1], tdevice = cpu_device\<rparr>)]"
    by (simp add: batch_ok_def wf_tensor_def numel_def)
  have n: "wf_simplenet (simplenet_new (\<lambda>_. 0) (\<lambda>_. 0))" by (rule wf_simplenet_new)
  have s: "list_all2 state_fits (map tdata (params (simplenet_new (\<lambda>_. 0) (\<lambda>_. 0)))) (ada_state (adadelta_new 4))"
    by (simp add: params_def adadelta_new_def state_fits_def numeral_eq_Suc)
  from train_refines [OF r g _ b, where st = "\<lparr>tnet = simplenet_new (\<lambda>_. 0) (\<lambda>_. 0), grads = replicate 4 None,
                                             topt = adadelta_new 4\<rparr>"] r g b n s
  show ?thesis by simp
qed

end
