(* ===== verification/Eval.thy ===== *)
theory Eval
  imports Train
begin

text \<open>
  The evaluation function \<open>test(model, device, test_loader)\<close> of
  \<open>torch-use-gpu.ipynb\<close> (defined twice, with the same body; the second
  definition is the one in force). It puts the model in evaluation mode and,
  without gradients, runs the body of its \<open>for\<close> statement (\<open>py_for\<close>)
  on every test batch in turn, adding the
  summed \<open>F.nll_loss\<close> of the batch to \<open>test_loss\<close> and the number of
  rows whose \<open>argmax\<close> equals the label to \<open>correct\<close>; it then divides by
  the size of the dataset and reports the average loss and the accuracy.
\<close>

record test_report =
  test_loss :: real
  correct :: nat
  total :: nat
  accuracy :: real

text \<open>
  \<open>pred.eq(target.view_as(pred)).sum().item()\<close>: \<open>view_as\<close> raises when
  the target has a different number of elements than the prediction.
\<close>

definition count_correct :: "nat list \<Rightarrow> int list \<Rightarrow> nat res" where
  "count_correct pred target =
     (if length target \<noteq> length pred then Inl ShapeError
      else Inr (length (filter (\<lambda>(p, t). int p = t) (zip pred target))))"

text \<open>The body of the loop over \<open>test_loader\<close>, accumulating \<open>(test_loss, correct)\<close>.\<close>

definition test_batch ::
  "host \<Rightarrow> device \<Rightarrow> nat \<Rightarrow> simplenet \<Rightarrow> real \<times> nat \<Rightarrow> rtensor \<times> int tensor \<Rightarrow> (real \<times> nat) res" where
  "test_batch h dev bs net acc b =
     res_bind (tensor_to h (fst b) dev) (\<lambda>data.
     res_bind (tensor_to h (snd b) dev) (\<lambda>target.
     res_bind (simplenet_forward bs net data) (\<lambda>output.
     res_bind (nll_loss output target Sum) (\<lambda>l.
     res_bind (tensor_argmax_dim1 output) (\<lambda>pred.
     res_bind (count_correct pred (tdata target)) (\<lambda>k.
     Inr (fst acc + l, snd acc + k)))))))"

text \<open>
  \<open>test(...)\<close> with \<open>n = len(test_loader.dataset)\<close>: \<open>test_loss /= n\<close>
  raises \<open>ZeroDivisionError\<close> on an empty dataset; the model is left in
  evaluation mode.
\<close>

definition test ::
  "host \<Rightarrow> device \<Rightarrow> nat \<Rightarrow> simplenet \<Rightarrow> (rtensor \<times> int tensor) list \<Rightarrow> nat \<Rightarrow> (simplenet \<times> test_report) res" where
  "test h dev bs net loader n =
     (let net' = simplenet_eval net in
      res_bind (py_for (test_batch h dev bs net') loader (0, 0)) (\<lambda>(l, c).
        if n = 0 then Inl ZeroDivisionError
        else Inr (net', \<lparr>test_loss = l / real n, correct = c, total = n,
                         accuracy = 100 * real c / real n\<rparr>)))"

section \<open>Lemmas\<close>

lemma sum_list_bounds:
  "(\<And>v. v \<in> set xs \<Longrightarrow> - 1 \<le> v \<and> v \<le> 0) \<Longrightarrow>
   - real (length xs) \<le> sum_list xs \<and> sum_list xs \<le> (0 :: real)"
  by (induction xs) fastforce+

lemma nll_terms_bounds:
  assumes "\<forall>row \<in> set rows. length row = c \<and> sum_list row = 1 \<and> (\<forall>p \<in> set row. 0 < p)"
    and "list_all (\<lambda>t. 0 \<le> t \<and> t < int c) ts" and "length ts = length rows"
  shows "length (nll_terms rows ts) = length rows \<and> (\<forall>v \<in> set (nll_terms rows ts). - 1 \<le> v \<and> v \<le> 0)"
proof -
  have f: "filter (\<lambda>(row, t). t \<noteq> -100) (zip rows ts) = zip rows ts"
  proof (rule filter_True, rule ballI)
    fix x assume x: "x \<in> set (zip rows ts)"
    obtain row t where "x = (row, t)" by (cases x)
    with x assms(2) show "case x of (row, t) \<Rightarrow> t \<noteq> -100"
      by (fastforce simp: list_all_iff dest: set_zip_rightD)
  qed
  have "- 1 \<le> - (row ! nat t) \<and> - (row ! nat t) \<le> 0" if "(row, t) \<in> set (zip rows ts)" for row t
  proof -
    from that have row: "row \<in> set rows" and t: "t \<in> set ts" by (auto dest: set_zip_leftD set_zip_rightD)
    with assms(1,2) have "nat t < length row" by (auto simp: list_all_iff)
    then have m: "row ! nat t \<in> set row" by simp
    have pos: "\<forall>p \<in> set row. 0 < p" using row assms(1) by simp
    have "row ! nat t \<le> sum_list row" using m pos by (intro member_le_sum_list) (auto intro: less_imp_le)
    then show ?thesis using m row assms(1) by fastforce
  qed
  then show ?thesis using assms(3) by (auto simp: nll_terms_def f)
qed

lemma nll_loss_sum_bounds:
  assumes "wf_tensor out" and "tshape out = [b, c]" and "tdevice target = tdevice out"
    and "\<forall>row \<in> set (tensor_rows out). length row = c \<and> sum_list row = 1 \<and> (\<forall>p \<in> set row. 0 < p)"
    and "length (tdata target) = b" and "list_all (\<lambda>y. 0 \<le> y \<and> y < int c) (tdata target)"
  shows "\<exists>L. nll_loss out target Sum = Inr L \<and> - real b \<le> L \<and> L \<le> 0"
proof -
  have r: "length (tensor_rows out) = b" using tensor_rows_shape [OF assms(1,2)] by simp
  have t: "list_all (\<lambda>t. t = -100 \<or> (0 \<le> t \<and> t < int c)) (tdata target)"
    using assms(6) by (auto simp: list_all_iff)
  from nll_terms_bounds [OF assms(4,6)] assms(5) r
  have "length (nll_terms (tensor_rows out) (tdata target)) = b"
    "\<forall>v \<in> set (nll_terms (tensor_rows out) (tdata target)). - 1 \<le> v \<and> v \<le> 0" by simp_all
  with sum_list_bounds [of "nll_terms (tensor_rows out) (tdata target)"]
  show ?thesis using assms(2,3,5) t by (simp add: nll_loss_def Let_def)
qed

lemma argmax_dim1_result:
  assumes "wf_tensor out" and "tshape out = [b, c]" and "0 < c"
  shows "tensor_argmax_dim1 out = Inr (map list_argmax (tensor_rows out)) \<and>
         length (map list_argmax (tensor_rows out)) = b"
  using assms tensor_rows_shape [OF assms(1,2)] by (simp add: tensor_argmax_dim1_def)

lemma count_correct_result:
  "length t = length p \<Longrightarrow> \<exists>k. count_correct p t = Inr k \<and> k \<le> length p"
  by (simp add: count_correct_def) (metis length_filter_le length_zip min.idem)

lemma simplenet_eval_props [simp]:
  "wf_simplenet (simplenet_eval net) = wf_simplenet net"
  "net_device (simplenet_eval net) = net_device net"
  "params (simplenet_eval net) = params net"
  "\<not> training (simplenet_eval net)"
  by (simp_all add: simplenet_eval_def wf_simplenet_def net_device_def params_def)

lemma test_batch_result:
  assumes dev: "resolve_device h dev = Inr dev'"
    and net: "wf_simplenet net" "net_device net = dev'"
    and bs: "0 < bs" and b: "batch_ok bs b"
  shows "\<exists>l k. test_batch h dev bs net acc b = Inr (fst acc + l, snd acc + k) \<and>
               k \<le> bs \<and> - real bs \<le> l \<and> l \<le> 0"
proof -
  let ?d = "(fst b)\<lparr>tdevice := dev'\<rparr>" and ?t = "(snd b)\<lparr>tdevice := dev'\<rparr>"
  have m1: "tensor_to h (fst b) dev = Inr ?d" and m2: "tensor_to h (snd b) dev = Inr ?t"
    using dev by (simp_all add: tensor_to_def)
  have "wf_tensor ?d" "tdevice ?d = net_device net" "numel ?d = bs * 784"
    using b net by (simp_all add: batch_ok_def)
  then obtain y where f: "simplenet_forward bs net ?d = Inr y" and y: "tshape y = [bs, 10]" "wf_tensor y"
    "tdevice y = net_device net"
    "\<forall>row \<in> set (tensor_rows y). length row = 10 \<and> sum_list row = 1 \<and> (\<forall>p \<in> set row. 0 < p)"
    using simplenet_forward_result [OF net(1)] bs by blast
  have tgt: "tdevice ?t = tdevice y" "length (tdata ?t) = bs" "list_all (\<lambda>v. 0 \<le> v \<and> v < int 10) (tdata ?t)"
    using y net b by (simp_all add: batch_ok_def)
  obtain L where l: "nll_loss y ?t Sum = Inr L" "- real bs \<le> L" "L \<le> 0"
    using nll_loss_sum_bounds [OF y(2,1) tgt(1) y(4) tgt(2,3)] by blast
  have a: "tensor_argmax_dim1 y = Inr (map list_argmax (tensor_rows y))"
    "length (map list_argmax (tensor_rows y)) = bs"
    using argmax_dim1_result [OF y(2,1)] by simp_all
  obtain k where k: "count_correct (map list_argmax (tensor_rows y)) (tdata ?t) = Inr k" "k \<le> bs"
    using count_correct_result [of "tdata ?t" "map list_argmax (tensor_rows y)"] a(2) tgt(2) by auto
  show ?thesis using m1 m2 f l a(1) k by (simp add: test_batch_def)
qed

lemma test_fold_result:
  assumes dev: "resolve_device h dev = Inr dev'"
    and net: "wf_simplenet net" "net_device net = dev'"
    and bs: "0 < bs" and batches: "list_all (batch_ok bs) loader"
  shows "\<exists>l c. res_fold (test_batch h dev bs net) loader (l0, c0) = Inr (l, c) \<and>
               c0 \<le> c \<and> c \<le> c0 + bs * length loader \<and>
               l0 - real (bs * length loader) \<le> l \<and> l \<le> l0"
  using batches
proof (induction loader arbitrary: l0 c0)
  case Nil
  then show ?case by simp
next
  case (Cons b loader)
  then have b: "batch_ok bs b" and rest: "list_all (batch_ok bs) loader" by simp_all
  obtain l k where s: "test_batch h dev bs net (l0, c0) b = Inr (l0 + l, c0 + k)"
    and k: "k \<le> bs" and l: "- real bs \<le> l" "l \<le> 0"
    using test_batch_result [OF dev net bs b, of "(l0, c0)"] by auto
  obtain l' c' where r: "res_fold (test_batch h dev bs net) loader (l0 + l, c0 + k) = Inr (l', c')"
    and c': "c0 + k \<le> c'" "c' \<le> c0 + k + bs * length loader"
    and l': "l0 + l - real (bs * length loader) \<le> l'" "l' \<le> l0 + l"
    using Cons.IH [OF rest] by blast
  have "l0 - real (bs * length (b # loader)) \<le> l'" using l l' by (simp add: algebra_simps)
  moreover have "c' \<le> c0 + bs * length (b # loader)" using c' k by simp
  ultimately show ?case using s r c' l' l by auto
qed

lemma test_result:
  assumes "resolve_device h dev = Inr dev'" and "wf_simplenet net" and "net_device net = dev'"
    and "0 < bs" and "list_all (batch_ok bs) loader" and "loader \<noteq> []" and "n = bs * length loader"
  shows "\<exists>r. test h dev bs net loader n = Inr (simplenet_eval net, r) \<and> total r = n \<and>
             correct r \<le> n \<and> 0 \<le> accuracy r \<and> accuracy r \<le> 100 \<and>
             - 1 \<le> test_loss r \<and> test_loss r \<le> 0"
proof -
  have n: "0 < n" using assms(4,6,7) by simp
  have "wf_simplenet (simplenet_eval net)" "net_device (simplenet_eval net) = dev'"
    using assms(2,3) by simp_all
  from test_fold_result [OF assms(1) this assms(4,5), of 0 0] assms(7)
  obtain l c where r: "res_fold (test_batch h dev bs (simplenet_eval net)) loader (0, 0) = Inr (l, c)"
    and c: "c \<le> n" and l: "- real n \<le> l" "l \<le> 0" by auto
  have "real c \<le> real n" using c by simp
  then have acc: "100 * real c / real n \<le> 100" using n by (simp add: divide_le_eq)
  have "- 1 \<le> l / real n" using l(1) n by (simp add: le_divide_eq)
  moreover have "l / real n \<le> 0" using l(2) n by (simp add: divide_le_0_iff)
  ultimately show ?thesis using r c acc n by (simp add: test_def py_for_fold)
qed

section \<open>Properties\<close>

text \<open>
  C12. On a device that resolves on the host, for a well-formed model on that
  device and a non-empty loader of well-formed batches covering the dataset,
  \<open>test\<close> raises nothing, leaves the model in evaluation mode, and reports
  at most \<open>n\<close> correct predictions, an accuracy between 0 and 100 percent
  and an average loss between -1 and 0: \<open>F.nll_loss\<close> is applied to
  probabilities, so each sample's term is minus a probability.
\<close>

theorem test_report_bounds:
  assumes "resolve_device h dev = Inr dev'" and "wf_simplenet net" and "net_device net = dev'"
    and "0 < bs" and "list_all (batch_ok bs) loader" and "loader \<noteq> []" and "n = bs * length loader"
  shows "\<exists>r. test h dev bs net loader n = Inr (simplenet_eval net, r) \<and> total r = n \<and>
             correct r \<le> n \<and> 0 \<le> accuracy r \<and> accuracy r \<le> 100 \<and>
             - 1 \<le> test_loss r \<and> test_loss r \<le> 0"
  using assms by (rule test_result)

theorem test_report_bounds_witness:
  "resolve_device \<lparr>gpu_names = []\<rparr> cpu_device = Inr cpu_device \<and>
   wf_simplenet (simplenet_new (\<lambda>_. 0) (\<lambda>_. 0)) \<and>
   net_device (simplenet_new (\<lambda>_. 0) (\<lambda>_. 0)) = cpu_device \<and> 0 < (1::nat) \<and>
   list_all (batch_ok 1) [(\<lparr>tdata = replicate 784 0, tshape = [1, 1, 28, 28], tdevice = cpu_device\<rparr>,
                            \<lparr>tdata = [3], tshape = [1], tdevice = cpu_device\<rparr>)] \<and>
   (\<exists>r. test \<lparr>gpu_names = []\<rparr> cpu_device 1 (simplenet_new (\<lambda>_. 0) (\<lambda>_. 0))
           [(\<lparr>tdata = replicate 784 0, tshape = [1, 1, 28, 28], tdevice = cpu_device\<rparr>,
             \<lparr>tdata = [3], tshape = [1], tdevice = cpu_device\<rparr>)] 1 =
         Inr (simplenet_eval (simplenet_new (\<lambda>_. 0) (\<lambda>_. 0)), r) \<and> total r = 1 \<and>
         correct r \<le> 1 \<and> 0 \<le> accuracy r \<and> accuracy r \<le> 100 \<and> - 1 \<le> test_loss r \<and> test_loss r \<le> 0)"
proof -
  have r: "resolve_device \<lparr>gpu_names = []\<rparr> cpu_device = Inr cpu_device"
    by (simp add: resolve_device_def cpu_device_def)
  have b: "list_all (batch_ok 1) [(\<lparr>tdata = replicate 784 0, tshape = [1, 1, 28, 28], tdevice = cpu_device\<rparr>,
                                  \<lparr>tdata = [3::int], tshape = [1], tdevice = cpu_device\<rparr>)]"
    by (simp add: batch_ok_def wf_tensor_def numel_def)
  have n: "wf_simplenet (simplenet_new (\<lambda>_. 0) (\<lambda>_. 0))" by (rule wf_simplenet_new)
  from test_report_bounds [OF r n _ _ b] r b n show ?thesis by simp
qed

text \<open>
  \<open>test\<close> on an empty test set never completes: \<open>test_loss /= n\<close>
  with \<open>n = 0\<close> raises \<open>ZeroDivisionError\<close>, whatever the batches raised
  before it or not.
\<close>

theorem test_empty_dataset: "\<not> (\<exists>r. test h dev bs net loader 0 = Inr r)"
proof -
  have "res_bind x (\<lambda>(l, c). if (0::nat) = 0 then Inl ZeroDivisionError else Inr (f l c)) \<noteq> Inr r"
    for x :: "(real \<times> nat) res" and f :: "real \<Rightarrow> nat \<Rightarrow> simplenet \<times> test_report" and r
    by (cases x) auto
  then show ?thesis by (simp add: test_def Let_def py_for_fold)
qed

end
