(* ===== verification/Objects.thy ===== *)
theory Objects
  imports Eval
begin

text \<open>
  The Python objects the training cells of \<open>torch-use-gpu.ipynb\<close> share. In
  the notebook the model, the optimizer and the two functions are globals
  bound by different cells: \<open>optimizer = optim.Adadelta(model.parameters(),
  lr=0.01)\<close> keeps references to the parameter tensors of the model object
  bound when that cell ran, and \<open>train(model, device, train_loader,
  optimizer, epoch)\<close> runs the model it is given while the optimizer clears
  and updates the parameters it holds. The heap is a list of model objects (a
  reference is an index); an object is its module state and the \<open>.grad\<close>
  slots of its four parameters. The optimizer is the reference of the model
  whose parameters it took, with its Adadelta state. \<open>k_train\<close> and
  \<open>k_test\<close> are \<open>train\<close> and \<open>test\<close> acting on the heap, keeping what they
  did when an exception stops them. When the optimizer's parameters are the
  model's own they are exactly \<open>train\<close> and \<open>test\<close> of the theories
  \<open>Train\<close> and \<open>Eval\<close>; when they are another model's, training changes no
  parameter at all.
\<close>

section \<open>Objects and the heap\<close>

record kobj =
  onet :: simplenet
  ograds :: "real list option list"

type_synonym heap = "kobj list"

text \<open>The training state of theory \<open>Train\<close> seen in the heap: the object at \<open>m\<close> and the optimizer.\<close>

definition heap_view :: "nat \<Rightarrow> heap \<times> adadelta \<Rightarrow> train_state" where
  "heap_view m hc = \<lparr>tnet = onet (fst hc ! m), grads = ograds (fst hc ! m), topt = snd hc\<rparr>"

text \<open>\<open>optimizer.step()\<close> on the parameters and gradient slots of one object.\<close>

definition obj_step :: "adadelta \<Rightarrow> kobj \<Rightarrow> kobj \<times> adadelta" where
  "obj_step c ob =
     (let st = optimizer_step \<lparr>tnet = onet ob, grads = ograds ob, topt = c\<rparr> in (ob\<lparr>onet := tnet st\<rparr>, topt st))"

section \<open>Training and evaluation on the heap\<close>

text \<open>
  The body of the loop of \<open>train\<close> with the model at \<open>m\<close> and an optimizer
  over the parameters of the object at \<open>r\<close>: \<open>optimizer.zero_grad()\<close>
  empties the slots of \<open>r\<close>, \<open>loss.backward()\<close> fills those of \<open>m\<close>,
  \<open>optimizer.step()\<close> updates \<open>r\<close>. An exception in \<open>model(data)\<close> or in
  \<open>F.nll_loss\<close> leaves the slots of \<open>r\<close> emptied.
\<close>

definition k_train_batch ::
  "host \<Rightarrow> device \<Rightarrow> nat \<Rightarrow> grad_fn \<Rightarrow> nat \<Rightarrow> nat \<Rightarrow> heap \<times> adadelta \<Rightarrow> rtensor \<times> int tensor \<Rightarrow>
   (heap \<times> adadelta) exc" where
  "k_train_batch h dev bs gradf m r hc b =
     (case hc of (hp, c) \<Rightarrow>
      raise_or (tensor_to h (fst b) dev) hc (\<lambda>data.
      raise_or (tensor_to h (snd b) dev) hc (\<lambda>target.
      (let hp1 = hp[r := (hp ! r)\<lparr>ograds := zero_grad (ograds (hp ! r))\<rparr>] in
       raise_or (simplenet_forward bs (onet (hp1 ! m)) data) (hp1, c) (\<lambda>output.
       raise_or (nll_loss output target Mean) (hp1, c) (\<lambda>loss.
       (let hp2 = hp1[m := (hp1 ! m)\<lparr>ograds := backward (ograds (hp1 ! m)) (gradf (onet (hp1 ! m)) data target)\<rparr>];
            oc = obj_step c (hp2 ! r)
        in ((hp2[r := fst oc], snd oc), None))))))))"

text \<open>\<open>train(...)\<close>: \<open>model.train()\<close> on the object at \<open>m\<close>, then the loop.\<close>

definition k_train ::
  "host \<Rightarrow> device \<Rightarrow> nat \<Rightarrow> grad_fn \<Rightarrow> nat \<Rightarrow> nat \<Rightarrow> heap \<times> adadelta \<Rightarrow> (rtensor \<times> int tensor) list \<Rightarrow>
   (heap \<times> adadelta) exc" where
  "k_train h dev bs gradf m r hc loader =
     (case hc of (hp, c) \<Rightarrow>
       exc_for (k_train_batch h dev bs gradf m r) loader
         (hp[m := (hp ! m)\<lparr>onet := simplenet_train (onet (hp ! m))\<rparr>], c))"

text \<open>
  \<open>test(...)\<close>: \<open>model.eval()\<close> on the object at \<open>m\<close>, which stays in
  evaluation mode whether or not the loop raises, and the report.
\<close>

definition k_test ::
  "host \<Rightarrow> device \<Rightarrow> nat \<Rightarrow> nat \<Rightarrow> heap \<Rightarrow> (rtensor \<times> int tensor) list \<Rightarrow> nat \<Rightarrow> heap \<times> test_report res" where
  "k_test h dev bs m hp loader n =
     (hp[m := (hp ! m)\<lparr>onet := simplenet_eval (onet (hp ! m))\<rparr>],
      res_bind (test h dev bs (onet (hp ! m)) loader n) (\<lambda>(net', r). Inr r))"

section \<open>The epoch loop\<close>

text \<open>
  The loop \<open>for epoch in range(1, EPOCHS + 1): train(...); test(...)\<close>:
  each epoch trains on the whole training loader, then evaluates on the test
  loader, which leaves the model in evaluation mode until the next
  \<open>train\<close> puts it back in training mode.
\<close>

fun run_epochs ::
  "host \<Rightarrow> device \<Rightarrow> nat \<Rightarrow> grad_fn \<Rightarrow> nat \<Rightarrow> train_state \<Rightarrow> (rtensor \<times> int tensor) list \<Rightarrow>
   (rtensor \<times> int tensor) list \<Rightarrow> nat \<Rightarrow> (train_state \<times> test_report list) res" where
  "run_epochs h dev bs gradf 0 st trl tel n = Inr (st, [])"
| "run_epochs h dev bs gradf (Suc k) st trl tel n =
     res_bind (train h dev bs gradf st trl) (\<lambda>st1.
     res_bind (test h dev bs (tnet st1) tel n) (\<lambda>(net', r).
     res_bind (run_epochs h dev bs gradf k (st1\<lparr>tnet := net'\<rparr>) trl tel n) (\<lambda>(st2, rs).
     Inr (st2, r # rs))))"

section \<open>Invariant of the heap\<close>

text \<open>
  A model object is sound when its module is a well-formed \<open>SimpleNet\<close>
  and each gradient slot fits its parameter; an optimizer when its reference
  is in the heap and its state fits the parameters it refers to.
\<close>

definition obj_ok :: "kobj \<Rightarrow> bool" where
  "obj_ok ob = (wf_simplenet (onet ob) \<and> list_all2 grad_fits (map tdata (params (onet ob))) (ograds ob))"

definition opt_ok :: "heap \<Rightarrow> nat \<times> adadelta \<Rightarrow> bool" where
  "opt_ok hp rc =
     (fst rc < length hp \<and> list_all2 state_fits (map tdata (params (onet (hp ! fst rc)))) (ada_state (snd rc)))"

text \<open>The training state and the reports the whole run is expected to keep.\<close>

abbreviation train_inv :: "device \<Rightarrow> train_state \<Rightarrow> bool" where
  "train_inv d st \<equiv> wf_simplenet (tnet st) \<and> net_device (tnet st) = d \<and> length (grads st) = 4 \<and>
                    list_all2 state_fits (map tdata (params (tnet st))) (ada_state (topt st))"

abbreviation report_ok :: "test_report \<Rightarrow> bool" where
  "report_ok r \<equiv> 0 \<le> accuracy r \<and> accuracy r \<le> 100 \<and> - 1 \<le> test_loss r \<and> test_loss r \<le> 0"

section \<open>Lemmas\<close>

lemma state_fits_new: "length xs = 4 \<Longrightarrow> list_all2 state_fits xs (ada_state (adadelta_new 4))"
  by (simp add: adadelta_new_def list_all2_conv_all_nth state_fits_def)

lemma simplenet_to_moves:
  assumes "resolve_device h d = Inr d'" and "wf_simplenet net"
  shows "\<exists>net'. simplenet_to h net d = Inr net' \<and> wf_simplenet net' \<and> net_device net' = d' \<and>
                map tdata (params net') = map tdata (params net) \<and> training net' = training net"
  using assms
  by (simp add: simplenet_to_def linear_to_def tensor_to_def wf_simplenet_def wf_linear_def net_device_def params_def)

lemma run_epochs_result:
  assumes dev: "resolve_device h dev = Inr dev'" and gs: "grad_shapes gradf" and bs: "0 < bs"
    and trl: "list_all (batch_ok bs) trl" and tel: "list_all (batch_ok bs) tel" and ne: "tel \<noteq> []"
    and n: "n = bs * length tel"
  shows "train_inv dev' st \<Longrightarrow>
         \<exists>st' rs. run_epochs h dev bs gradf k st trl tel n = Inr (st', rs) \<and> length rs = k \<and>
                  list_all report_ok rs \<and> train_inv dev' st'"
proof (induction k arbitrary: st)
  case 0
  then show ?case by simp
next
  case (Suc k)
  obtain st1 where t: "train h dev bs gradf st trl = Inr st1" and i1: "train_inv dev' st1"
    using train_result [OF dev gs bs trl] Suc.prems by blast
  obtain r where r: "test h dev bs (tnet st1) tel n = Inr (simplenet_eval (tnet st1), r)" and ok: "report_ok r"
    using test_result [OF dev _ _ bs tel ne n] i1 by blast
  have "train_inv dev' (st1\<lparr>tnet := simplenet_eval (tnet st1)\<rparr>)" using i1 by simp
  then obtain st' rs where rest: "run_epochs h dev bs gradf k (st1\<lparr>tnet := simplenet_eval (tnet st1)\<rparr>) trl tel n = Inr (st', rs)"
    and l: "length rs = k" and oks: "list_all report_ok rs" and i': "train_inv dev' st'"
    using Suc.IH by blast
  show ?case using t r rest l oks ok i' by simp
qed


lemma heap_view_update [simp]:
  "m < length hp \<Longrightarrow> heap_view m (hp[m := ob], c) = \<lparr>tnet = onet ob, grads = ograds ob, topt = c\<rparr>"
  by (simp add: heap_view_def)

text \<open>With the optimizer over the model's own parameters, one batch is \<open>train_batch\<close>.\<close>

lemma k_train_batch_alias:
  assumes "m < length hp"
  shows "exc_res (apfst (heap_view m) (k_train_batch h dev bs gradf m m (hp, c) b)) =
           train_batch h dev bs gradf (heap_view m (hp, c)) b \<and>
         length (fst (fst (k_train_batch h dev bs gradf m m (hp, c) b))) = length hp \<and>
         (\<forall>j. j \<noteq> m \<longrightarrow> fst (fst (k_train_batch h dev bs gradf m m (hp, c) b)) ! j = hp ! j)"
  using assms
  by (auto simp: k_train_batch_def train_batch_def heap_view_def obj_step_def Let_def raise_or_def
                 res_bind_def optimizer_step_def split: sum.splits prod.splits)

lemma k_train_alias:
  assumes "m < length hp"
  shows "exc_res (apfst (heap_view m) (k_train h dev bs gradf m m (hp, c) loader)) =
           train h dev bs gradf (heap_view m (hp, c)) loader \<and>
         length (fst (fst (k_train h dev bs gradf m m (hp, c) loader))) = length hp \<and>
         (\<forall>j. j \<noteq> m \<longrightarrow> fst (fst (k_train h dev bs gradf m m (hp, c) loader)) ! j = hp ! j)"
proof -
  let ?P = "\<lambda>hc :: heap \<times> adadelta. length (fst hc) = length hp \<and> (\<forall>j. j \<noteq> m \<longrightarrow> fst hc ! j = hp ! j)"
  let ?hc0 = "(hp[m := (hp ! m)\<lparr>onet := simplenet_train (onet (hp ! m))\<rparr>], c)"
  have sim: "exc_res (apfst (heap_view m) (exc_for (k_train_batch h dev bs gradf m m) loader ?hc0)) =
               res_fold (train_batch h dev bs gradf) loader (heap_view m ?hc0) \<and>
             ?P (fst (exc_for (k_train_batch h dev bs gradf m m) loader ?hc0))"
  proof (rule exc_for_sim)
    fix hc :: "heap \<times> adadelta" and b assume "?P hc"
    then show "exc_res (apfst (heap_view m) (k_train_batch h dev bs gradf m m hc b)) =
                 train_batch h dev bs gradf (heap_view m hc) b"
      and "?P (fst (k_train_batch h dev bs gradf m m hc b))"
      using k_train_batch_alias [of m "fst hc" h dev bs gradf "snd hc" b] assms by auto
  qed (use assms in simp)
  have "heap_view m ?hc0 = (heap_view m (hp, c))\<lparr>tnet := simplenet_train (tnet (heap_view m (hp, c)))\<rparr>"
    using assms by (simp add: heap_view_def)
  then show ?thesis using sim by (simp add: k_train_def train_def py_for_fold)
qed

text \<open>
  An optimizer whose parameters have no gradient changes nothing: every slot
  is skipped, and writing back a prefix of the parameters' own data leaves
  the model as it was.
\<close>

lemma set_params_prefix: "set_params net (take k (map tdata (params net))) = net"
proof (cases "k < 4")
  case True
  then have "k = 0 \<or> k = 1 \<or> k = 2 \<or> k = 3" by arith
  then show ?thesis by (auto simp: set_params_def params_def)
next
  case False
  then show ?thesis by (simp add: set_params_def params_def)
qed

lemma adadelta_step_no_grads:
  assumes "\<forall>g \<in> set gs. g = None"
  shows "fst (adadelta_step c xs gs) = take (min (length gs) (length (ada_state c))) xs"
proof -
  have "map fst (map (ada_slot c) (zip xs (zip gs sts))) = take (min (length gs) (length sts)) xs"
    if "\<forall>g \<in> set gs. g = None" for gs :: "real list option list" and sts
    using that
  proof (induction xs arbitrary: gs sts)
    case (Cons x xs)
    then show ?case by (cases gs; cases sts) (auto simp: ada_slot_def)
  qed simp
  from this [OF assms] show ?thesis by (simp add: adadelta_step_def Let_def)
qed

lemma obj_step_no_grads:
  assumes "\<forall>g \<in> set (ograds ob). g = None"
  shows "onet (fst (obj_step c ob)) = onet ob"
proof -
  obtain xs' c' where st: "adadelta_step c (map tdata (params (onet ob))) (ograds ob) = (xs', c')"
    by (cases "adadelta_step c (map tdata (params (onet ob))) (ograds ob)")
  then have "xs' = take (min (length (ograds ob)) (length (ada_state c))) (map tdata (params (onet ob)))"
    using adadelta_step_no_grads [OF assms, of c "map tdata (params (onet ob))"] by simp
  then show ?thesis using st set_params_prefix by (simp add: obj_step_def optimizer_step_def)
qed

lemma map_update_same [simp]: "(map f xs)[i := f (xs ! i)] = map f xs"
  by (cases "i < length xs") (simp_all add: map_update [symmetric] list_update_beyond)

lemma zero_grad_None: "\<forall>g \<in> set (zero_grad gs). g = None"
  by (simp add: zero_grad_def)

text \<open>With the optimizer over another object's parameters, no model changes.\<close>

lemma k_train_batch_stale:
  assumes "r \<noteq> m" and "r < length hp"
  shows "map onet (fst (fst (k_train_batch h dev bs gradf m r (hp, c) b))) = map onet hp"
proof -
  let ?hp1 = "hp[r := (hp ! r)\<lparr>ograds := zero_grad (ograds (hp ! r))\<rparr>]"
  let ?hp2 = "\<lambda>g. ?hp1[m := (?hp1 ! m)\<lparr>ograds := g\<rparr>]"
  have r2: "?hp2 g ! r = (hp ! r)\<lparr>ograds := zero_grad (ograds (hp ! r))\<rparr>" for g
    using assms by simp
  have "onet (fst (obj_step c' (?hp2 g ! r))) = onet (hp ! r)" for c' g
    using obj_step_no_grads [of "?hp2 g ! r" c'] r2 zero_grad_None by simp
  moreover have "map onet (?hp2 g) = map onet hp" for g
    using assms by (simp add: map_update nth_list_update list_update_id)
  ultimately show ?thesis
    using assms
    by (auto simp: k_train_batch_def raise_or_def Let_def map_update list_update_id
             split: sum.splits prod.splits)
qed

lemma list_update_id': "i < length xs \<Longrightarrow> x = xs ! i \<Longrightarrow> xs[i := x] = xs"
  by simp

lemma map_params_update:
  "params (onet ob) = params (onet (hp ! m)) \<Longrightarrow>
   map (\<lambda>ob. params (onet ob)) (hp[m := ob]) = map (\<lambda>ob. params (onet ob)) hp"
  by (cases "m < length hp") (simp_all add: map_update list_update_beyond list_update_id')

lemma k_train_stale:
  assumes "r \<noteq> m" and "r < length hp"
  shows "map (\<lambda>ob. params (onet ob)) (fst (fst (k_train h dev bs gradf m r (hp, c) loader))) =
         map (\<lambda>ob. params (onet ob)) hp"
proof -
  let ?P = "\<lambda>hc :: heap \<times> adadelta. map (\<lambda>ob. params (onet ob)) (fst hc) = map (\<lambda>ob. params (onet ob)) hp"
  have len: "length (fst hc) = length hp" if "?P hc" for hc
    using that by (metis length_map)
  have keep: "?P (fst (k_train_batch h dev bs gradf m r hc b))" if "?P hc" for hc b
  proof -
    have "map onet (fst (fst (k_train_batch h dev bs gradf m r (fst hc, snd hc) b))) = map onet (fst hc)"
      using k_train_batch_stale [OF assms(1), of "fst hc" h dev bs gradf "snd hc" b] assms(2) len [OF that]
      by simp
    then have "map onet (fst (fst (k_train_batch h dev bs gradf m r hc b))) = map onet (fst hc)"
      by simp
    from arg_cong [OF this, of "map params"]
    have "map (\<lambda>ob. params (onet ob)) (fst (fst (k_train_batch h dev bs gradf m r hc b))) =
          map (\<lambda>ob. params (onet ob)) (fst hc)"
      by (simp add: comp_def)
    with that show ?thesis by simp
  qed
  have "?P (hp[m := (hp ! m)\<lparr>onet := simplenet_train (onet (hp ! m))\<rparr>], c)"
    by (simp add: map_params_update)
  from exc_for_invariant [where P = ?P, OF keep this] show ?thesis by (simp add: k_train_def)
qed

lemma list_all_update: "list_all P xs \<Longrightarrow> P x \<Longrightarrow> list_all P (xs[i := x])"
  by (auto simp: list_all_iff dest: set_update_subset_insert [THEN subsetD])

text \<open>Writing an object with the same parameters keeps the heap and the optimizer sound.\<close>

lemma heap_update_ok:
  assumes "list_all obj_ok hp" and "obj_ok ob" and "params (onet ob) = params (onet (hp ! i))"
    and "opt_ok hp rc"
  shows "list_all obj_ok (hp[i := ob]) \<and> opt_ok (hp[i := ob]) rc"
  using assms by (cases "i = fst rc") (auto simp: list_all_update opt_ok_def)

lemma obj_ok_zero_grad: "obj_ok ob \<Longrightarrow> obj_ok (ob\<lparr>ograds := zero_grad (ograds ob)\<rparr>)"
  by (auto simp: obj_ok_def zero_grad_def list_all2_conv_all_nth grad_fits_def)

lemma obj_ok_backward:
  assumes "obj_ok ob" and "map length g = map (\<lambda>p. length (tdata p)) (params (onet ob))"
  shows "obj_ok (ob\<lparr>ograds := backward (ograds ob) g\<rparr>)"
proof -
  have l: "length g = length (ograds ob)" "length (ograds ob) = 4"
    using assms by (auto simp: obj_ok_def dest!: list_all2_lengthD map_eq_imp_length_eq)
  have "length (g ! i) = length (tdata (params (onet ob) ! i))" if "i < 4" for i
    using arg_cong [OF assms(2), of "\<lambda>xs. xs ! i"] that l by simp
  then show ?thesis using assms(1) l
    by (auto simp: obj_ok_def backward_def list_all2_conv_all_nth grad_fits_def accumulate_grad_def
             split: option.splits)
qed

lemma obj_step_ok:
  assumes "obj_ok ob" and "list_all2 state_fits (map tdata (params (onet ob))) (ada_state c)"
  shows "obj_ok (fst (obj_step c ob)) \<and>
         list_all2 state_fits (map tdata (params (onet (fst (obj_step c ob))))) (ada_state (snd (obj_step c ob)))"
proof -
  let ?xs = "map tdata (params (onet ob))"
  obtain xs' c' where st: "adadelta_step c ?xs (ograds ob) = (xs', c')"
    by (cases "adadelta_step c ?xs (ograds ob)")
  have g: "list_all2 grad_fits ?xs (ograds ob)" using assms(1) by (simp add: obj_ok_def)
  from adadelta_step_fits [OF g assms(2)] st
  have s1: "list_all2 (\<lambda>x x'. length x' = length x) ?xs xs'" and s2: "list_all2 state_fits xs' (ada_state c')"
    by simp_all
  have "list_all2 grad_fits xs' (ograds ob)"
    using g s1 by (auto simp: list_all2_conv_all_nth grad_fits_def split: option.splits)
  with set_params_props [OF s1] wf_set_params [OF _ s1] assms(1) s2 st show ?thesis
    by (simp add: obj_step_def optimizer_step_def obj_ok_def)
qed

lemma obj_step_update_ok:
  assumes "list_all obj_ok hp" and "opt_ok hp (r, c)"
  shows "list_all obj_ok (hp[r := fst (obj_step c (hp ! r))]) \<and>
         opt_ok (hp[r := fst (obj_step c (hp ! r))]) (r, snd (obj_step c (hp ! r)))"
proof -
  have r: "r < length hp" and o: "obj_ok (hp ! r)"
    and s: "list_all2 state_fits (map tdata (params (onet (hp ! r)))) (ada_state c)"
    using assms by (auto simp: opt_ok_def list_all_length)
  from obj_step_ok [OF o s] show ?thesis using assms(1) r by (simp add: list_all_update opt_ok_def)
qed

lemma k_train_batch_ok:
  assumes gs: "grad_shapes gradf" and ok: "list_all obj_ok hp" and op: "opt_ok hp (r, c)" and m: "m < length hp"
  shows "list_all obj_ok (fst (fst (k_train_batch h dev bs gradf m r (hp, c) b))) \<and>
         opt_ok (fst (fst (k_train_batch h dev bs gradf m r (hp, c) b))) (r, snd (fst (k_train_batch h dev bs gradf m r (hp, c) b))) \<and>
         length (fst (fst (k_train_batch h dev bs gradf m r (hp, c) b))) = length hp"
proof -
  have r: "r < length hp" using op by (simp add: opt_ok_def)
  let ?hp1 = "hp[r := (hp ! r)\<lparr>ograds := zero_grad (ograds (hp ! r))\<rparr>]"
  have ok1: "list_all obj_ok ?hp1 \<and> opt_ok ?hp1 (r, c)"
    using heap_update_ok [OF ok obj_ok_zero_grad _ op] ok r by (simp add: list_all_length)
  let ?hp2 = "\<lambda>g. ?hp1[m := (?hp1 ! m)\<lparr>ograds := backward (ograds (?hp1 ! m)) g\<rparr>]"
  have ok2: "list_all obj_ok (?hp2 (gradf (onet (?hp1 ! m)) d t)) \<and> opt_ok (?hp2 (gradf (onet (?hp1 ! m)) d t)) (r, c)"
    for d t
  proof (rule heap_update_ok)
    show "obj_ok ((?hp1 ! m)\<lparr>ograds := backward (ograds (?hp1 ! m)) (gradf (onet (?hp1 ! m)) d t)\<rparr>)"
      using ok1 m gs by (intro obj_ok_backward) (simp_all add: list_all_length grad_shapes_def)
  qed (use ok1 in simp_all)
  have ok3: "list_all obj_ok ((?hp2 g)[r := fst (obj_step c (?hp2 g ! r))]) \<and>
             opt_ok ((?hp2 g)[r := fst (obj_step c (?hp2 g ! r))]) (r, snd (obj_step c (?hp2 g ! r)))"
    if "list_all obj_ok (?hp2 g) \<and> opt_ok (?hp2 g) (r, c)" for g
    using obj_step_update_ok that by blast
  show ?thesis
    using ok op ok1 ok2 ok3 r m
    by (auto simp: k_train_batch_def raise_or_def Let_def split: sum.splits)
qed

lemma k_train_ok:
  assumes "grad_shapes gradf" and "list_all obj_ok hp" and "opt_ok hp (r, c)" and "m < length hp"
  shows "list_all obj_ok (fst (fst (k_train h dev bs gradf m r (hp, c) loader))) \<and>
         opt_ok (fst (fst (k_train h dev bs gradf m r (hp, c) loader))) (r, snd (fst (k_train h dev bs gradf m r (hp, c) loader))) \<and>
         length (fst (fst (k_train h dev bs gradf m r (hp, c) loader))) = length hp"
proof -
  let ?P = "\<lambda>hc :: heap \<times> adadelta. list_all obj_ok (fst hc) \<and> opt_ok (fst hc) (r, snd hc) \<and> length (fst hc) = length hp"
  let ?hp0 = "hp[m := (hp ! m)\<lparr>onet := simplenet_train (onet (hp ! m))\<rparr>]"
  have o: "obj_ok ((hp ! m)\<lparr>onet := simplenet_train (onet (hp ! m))\<rparr>)"
    using assms(2,4) by (simp add: list_all_length obj_ok_def)
  have p0: "?P (?hp0, c)" using heap_update_ok [OF assms(2) o _ assms(3)] by simp
  have keep: "?P (fst (k_train_batch h dev bs gradf m r hc b))" if "?P hc" for hc b
    using k_train_batch_ok [OF assms(1), of "fst hc" r "snd hc" m h dev bs b] that assms(4) by simp
  have "?P (fst (exc_for (k_train_batch h dev bs gradf m r) loader (?hp0, c)))"
    by (rule exc_for_invariant [where P = ?P]) (use keep p0 in blast)+
  then show ?thesis by (simp add: k_train_def)
qed

lemma test_returns_eval: "test h dev bs net loader n = Inr (net', r) \<Longrightarrow> net' = simplenet_eval net"
  by (auto simp: test_def res_bind_def Let_def split: sum.splits prod.splits if_splits)

lemma k_test_params:
  "map (\<lambda>ob. params (onet ob)) (fst (k_test h dev bs m hp loader n)) = map (\<lambda>ob. params (onet ob)) hp \<and>
   length (fst (k_test h dev bs m hp loader n)) = length hp"
  by (simp add: k_test_def map_params_update)

lemma k_test_ok:
  assumes "list_all obj_ok hp" and "pred_option (opt_ok hp) rc" and "m < length hp"
  shows "list_all obj_ok (fst (k_test h dev bs m hp loader n)) \<and> pred_option (opt_ok (fst (k_test h dev bs m hp loader n))) rc \<and>
         map (\<lambda>ob. params (onet ob)) (fst (k_test h dev bs m hp loader n)) = map (\<lambda>ob. params (onet ob)) hp \<and>
         length (fst (k_test h dev bs m hp loader n)) = length hp"
proof -
  let ?ob = "(hp ! m)\<lparr>onet := simplenet_eval (onet (hp ! m))\<rparr>"
  have o: "obj_ok ?ob" using assms(1,3) by (simp add: list_all_length obj_ok_def)
  show ?thesis
  proof (cases rc)
    case None
    then show ?thesis using assms o by (simp add: k_test_def list_all_update map_params_update)
  next
    case (Some a)
    then show ?thesis using heap_update_ok [OF assms(1) o, of m a] assms
      by (simp add: k_test_def map_params_update)
  qed
qed

end
