(* ===== verification/Checkpoint.thy ===== *)
theory Checkpoint
  imports Net
begin

text \<open>
  Saving and loading the trained weights: \<open>torch.save(model.state_dict(),
  "mnist_fashion_SimpleNet.pt")\<close> at the end of \<open>torch-use-gpu.ipynb\<close>, and
  \<open>model = SimpleNet().to(device)\<close> followed by
  \<open>model.load_state_dict(torch.load("mnist_fashion_SimpleNet.pt"))\<close> in
  \<open>torch-test-model.ipynb\<close>. The file system is a map from paths to the
  saved state dictionaries. \<open>torch.save\<close> keeps each tensor's device;
  \<open>torch.load\<close> without \<open>map_location\<close> restores every tensor on the
  device it was saved from, which must exist on the loading host.
  \<open>load_state_dict\<close> is strict: missing keys, unexpected keys and shape
  mismatches raise, in that order of report.
\<close>

type_synonym state_dict = "(string \<times> rtensor) list"

type_synonym files = "string \<Rightarrow> state_dict option"

text \<open>\<open>model.state_dict()\<close>: the parameters under their qualified names, in registration order.\<close>

definition state_dict :: "simplenet \<Rightarrow> state_dict" where
  "state_dict net =
     [(''fc1.weight'', weight (fc1 net)), (''fc1.bias'', bias (fc1 net)),
      (''fc2.weight'', weight (fc2 net)), (''fc2.bias'', bias (fc2 net))]"

definition torch_save :: "state_dict \<Rightarrow> string \<Rightarrow> files \<Rightarrow> files" where
  "torch_save sd path fs = fs(path \<mapsto> sd)"

text \<open>
  The default restore location of a tensor: its saved device, which
  \<open>validate_cuda_device\<close> checks against the host (no CUDA, or an index
  beyond the device count, raise).
\<close>

definition restore_tensor :: "host \<Rightarrow> string \<times> rtensor \<Rightarrow> (string \<times> rtensor) res" where
  "restore_tensor h kv =
     res_bind (resolve_device h (tdevice (snd kv))) (\<lambda>d. Inr (fst kv, (snd kv)\<lparr>tdevice := d\<rparr>))"

definition torch_load :: "host \<Rightarrow> files \<Rightarrow> string \<Rightarrow> state_dict res" where
  "torch_load h fs path =
     (case fs path of
        None \<Rightarrow> Inl FileNotFound
      | Some sd \<Rightarrow> res_map (restore_tensor h) sd)"

text \<open>\<open>param.copy_(input_param)\<close>: the values are copied into the parameter, which keeps its device.\<close>

definition copy_param :: "state_dict \<Rightarrow> string \<Rightarrow> rtensor \<Rightarrow> rtensor" where
  "copy_param sd k p = (case map_of sd k of Some v \<Rightarrow> p\<lparr>tdata := tdata v\<rparr> | None \<Rightarrow> p)"

definition load_state_dict :: "simplenet \<Rightarrow> state_dict \<Rightarrow> simplenet res" where
  "load_state_dict net sd =
     (let own = state_dict net; ks = map fst sd in
      if \<not> list_all (\<lambda>k. k \<in> set ks) (map fst own) then Inl MissingKeys
      else if \<not> list_all (\<lambda>k. k \<in> set (map fst own)) ks then Inl UnexpectedKeys
      else if \<not> list_all (\<lambda>(k, p). map_option tshape (map_of sd k) = Some (tshape p)) own then Inl SizeMismatch
      else Inr (net\<lparr>fc1 := \<lparr>weight = copy_param sd ''fc1.weight'' (weight (fc1 net)),
                             bias = copy_param sd ''fc1.bias'' (bias (fc1 net))\<rparr>,
                   fc2 := \<lparr>weight = copy_param sd ''fc2.weight'' (weight (fc2 net)),
                             bias = copy_param sd ''fc2.bias'' (bias (fc2 net))\<rparr>\<rparr>))"

text \<open>
  What \<open>load_state_dict\<close> has done to the module when it returns or raises:
  each parameter whose key the dictionary holds with the parameter's shape is
  copied in place (\<open>_load_from_state_dict\<close>); the missing, unexpected and
  mismatched keys are only reported, after the copy, by the exception.
\<close>

definition copy_matching :: "state_dict \<Rightarrow> string \<Rightarrow> rtensor \<Rightarrow> rtensor" where
  "copy_matching sd k p =
     (case map_of sd k of Some v \<Rightarrow> if tshape v = tshape p then p\<lparr>tdata := tdata v\<rparr> else p | None \<Rightarrow> p)"

definition load_effect :: "simplenet \<Rightarrow> state_dict \<Rightarrow> simplenet" where
  "load_effect net sd =
     net\<lparr>fc1 := \<lparr>weight = copy_matching sd ''fc1.weight'' (weight (fc1 net)),
                 bias = copy_matching sd ''fc1.bias'' (bias (fc1 net))\<rparr>,
         fc2 := \<lparr>weight = copy_matching sd ''fc2.weight'' (weight (fc2 net)),
                 bias = copy_matching sd ''fc2.bias'' (bias (fc2 net))\<rparr>\<rparr>"

text \<open>Files as \<open>torch.save\<close> writes them: every saved tensor is well formed.\<close>

definition files_wf :: "files \<Rightarrow> bool" where
  "files_wf fs = (\<forall>sd \<in> ran fs. list_all (wf_tensor \<circ> snd) sd)"

section \<open>Lemmas\<close>

lemma state_dict_keys [simp]:
  "map fst (state_dict net) = [''fc1.weight'', ''fc1.bias'', ''fc2.weight'', ''fc2.bias'']"
  by (simp add: state_dict_def)

lemma restore_tensor_valid:
  assumes "valid_device h (tdevice (snd kv))"
  shows "restore_tensor h kv = Inr kv"
proof -
  from assms have "resolve_device h (tdevice (snd kv)) = Inr (tdevice (snd kv))"
    by (auto simp: valid_device_def resolve_device_def cpu_device_def cuda_device_def cuda_is_available_count)
  then show ?thesis by (simp add: restore_tensor_def)
qed

lemma wf_simplenet_devices:
  "wf_simplenet net \<Longrightarrow> \<forall>kv \<in> set (state_dict net). tdevice (snd kv) = net_device net"
  by (simp add: wf_simplenet_def wf_linear_def state_dict_def net_device_def)

lemma torch_load_file:
  assumes "fs path = Some (state_dict net)" and "wf_simplenet net" and "valid_device h (net_device net)"
  shows "torch_load h fs path = Inr (state_dict net)"
proof -
  have "\<And>kv. kv \<in> set (state_dict net) \<Longrightarrow> restore_tensor h kv = Inr (id kv)"
    using wf_simplenet_devices [OF assms(2)] assms(3) by (simp add: restore_tensor_valid)
  then show ?thesis using assms(1) by (simp add: torch_load_def res_map_Inr [where g = id])
qed

lemma load_state_dict_wf:
  assumes "wf_simplenet m" and "wf_simplenet net"
  shows "load_state_dict m (state_dict net) =
           Inr (m\<lparr>fc1 := \<lparr>weight = (weight (fc1 m))\<lparr>tdata := tdata (weight (fc1 net))\<rparr>,
                             bias = (bias (fc1 m))\<lparr>tdata := tdata (bias (fc1 net))\<rparr>\<rparr>,
                   fc2 := \<lparr>weight = (weight (fc2 m))\<lparr>tdata := tdata (weight (fc2 net))\<rparr>,
                             bias = (bias (fc2 m))\<lparr>tdata := tdata (bias (fc2 net))\<rparr>\<rparr>\<rparr>)"
  using assms by (simp add: load_state_dict_def state_dict_def copy_param_def wf_simplenet_def wf_linear_def)

text \<open>On success the module returned is the module the copy left.\<close>

lemma load_state_dict_effect:
  assumes "load_state_dict net sd = Inr net'"
  shows "net' = load_effect net sd"
  using assms
  by (auto simp: load_state_dict_def load_effect_def copy_matching_def copy_param_def state_dict_def Let_def
           split: if_splits option.splits)

lemma restore_tensors_wf:
  "res_map (restore_tensor h) xs = Inr ys \<Longrightarrow> list_all (wf_tensor \<circ> snd) xs \<Longrightarrow> list_all (wf_tensor \<circ> snd) ys"
  by (induction xs arbitrary: ys) (auto simp: restore_tensor_def res_bind_def wf_tensor_def split: sum.splits)

lemma torch_load_wf:
  assumes "torch_load h fs path = Inr sd" and "files_wf fs"
  shows "list_all (wf_tensor \<circ> snd) sd"
proof (cases "fs path")
  case (Some sd0)
  then have "list_all (wf_tensor \<circ> snd) sd0" using assms(2) by (auto simp: files_wf_def ran_def)
  then show ?thesis using assms(1) Some by (simp add: torch_load_def restore_tensors_wf)
qed (use assms in \<open>simp add: torch_load_def\<close>)

lemma copy_matching_keeps [simp]:
  "tdevice (copy_matching sd k p) = tdevice p" "tshape (copy_matching sd k p) = tshape p"
  by (simp_all add: copy_matching_def split: option.splits)

lemma copy_matching_wf:
  "list_all (wf_tensor \<circ> snd) sd \<Longrightarrow> wf_tensor p \<Longrightarrow> wf_tensor (copy_matching sd k p)"
  by (auto simp: copy_matching_def wf_tensor_def list_all_iff dest!: map_of_SomeD split: option.splits)

lemma load_effect_wf:
  "wf_simplenet net \<Longrightarrow> list_all (wf_tensor \<circ> snd) sd \<Longrightarrow> wf_simplenet (load_effect net sd)"
  by (simp add: wf_simplenet_def wf_linear_def load_effect_def copy_matching_wf)

lemma net_device_load_effect [simp]: "net_device (load_effect net sd) = net_device net"
  by (simp add: net_device_def load_effect_def)

section \<open>Properties\<close>



text \<open>
  C20. \<open>torch.load\<close> is called without \<open>map_location\<close>: a checkpoint saved
  from a model on a CUDA device cannot be loaded on a host without CUDA, even
  though the loading notebook falls back to the CPU there.
\<close>

theorem checkpoint_cuda_on_cpu_host:
  assumes "wf_simplenet net" and "dev_type (net_device net) = CUDA" and "\<not> cuda_is_available h"
  shows "torch_load h (torch_save (state_dict net) path fs) path = Inl NoCuda"
  using assms
  by (simp add: torch_load_def torch_save_def state_dict_def restore_tensor_def resolve_device_def net_device_def)

theorem checkpoint_cuda_on_cpu_host_witness:
  "wf_simplenet \<lparr>fc1 = \<lparr>weight = \<lparr>tdata = replicate (784 * 784) 0, tshape = [784, 784], tdevice = cuda_device 0\<rparr>,
                         bias = \<lparr>tdata = replicate 784 0, tshape = [784], tdevice = cuda_device 0\<rparr>\<rparr>,
                 fc2 = \<lparr>weight = \<lparr>tdata = replicate (10 * 784) 0, tshape = [10, 784], tdevice = cuda_device 0\<rparr>,
                         bias = \<lparr>tdata = replicate 10 0, tshape = [10], tdevice = cuda_device 0\<rparr>\<rparr>,
                 training = False\<rparr> \<and>
   \<not> cuda_is_available \<lparr>gpu_names = []\<rparr> \<and>
   torch_load \<lparr>gpu_names = []\<rparr>
     (torch_save (state_dict \<lparr>fc1 = \<lparr>weight = \<lparr>tdata = replicate (784 * 784) 0, tshape = [784, 784], tdevice = cuda_device 0\<rparr>,
                         bias = \<lparr>tdata = replicate 784 0, tshape = [784], tdevice = cuda_device 0\<rparr>\<rparr>,
                 fc2 = \<lparr>weight = \<lparr>tdata = replicate (10 * 784) 0, tshape = [10, 784], tdevice = cuda_device 0\<rparr>,
                         bias = \<lparr>tdata = replicate 10 0, tshape = [10], tdevice = cuda_device 0\<rparr>\<rparr>,
                 training = False\<rparr>) ''mnist_fashion_SimpleNet.pt'' Map.empty)
     ''mnist_fashion_SimpleNet.pt'' = Inl NoCuda"
proof -
  let ?net = "\<lparr>fc1 = \<lparr>weight = \<lparr>tdata = replicate (784 * 784) (0::real), tshape = [784, 784], tdevice = cuda_device 0\<rparr>,
                         bias = \<lparr>tdata = replicate 784 0, tshape = [784], tdevice = cuda_device 0\<rparr>\<rparr>,
                 fc2 = \<lparr>weight = \<lparr>tdata = replicate (10 * 784) 0, tshape = [10, 784], tdevice = cuda_device 0\<rparr>,
                         bias = \<lparr>tdata = replicate 10 0, tshape = [10], tdevice = cuda_device 0\<rparr>\<rparr>,
                 training = False\<rparr>"
  have w: "wf_simplenet ?net" by (simp add: wf_simplenet_def wf_linear_def wf_tensor_def numel_def)
  have d: "dev_type (net_device ?net) = CUDA" by (simp add: net_device_def cuda_device_def)
  have c: "\<not> cuda_is_available \<lparr>gpu_names = []\<rparr>" by (simp add: cuda_is_available_def)
  show ?thesis using checkpoint_cuda_on_cpu_host [OF w d c] w c by simp
qed

text \<open>
  A strict \<open>load_state_dict\<close> that returns has checked the file: its
  keys are exactly the model's four parameter names and each value has its
  parameter's shape, so loading well-formed tensors keeps the model
  well-formed and on its device.
\<close>

theorem load_state_dict_strict:
  assumes "wf_simplenet m" and "list_all (\<lambda>kv. wf_tensor (snd kv)) sd" and "load_state_dict m sd = Inr m'"
  shows "set (map fst sd) = set (map fst (state_dict m)) \<and>
         list_all (\<lambda>(k, p). map_option tshape (map_of sd k) = Some (tshape p)) (state_dict m) \<and>
         wf_simplenet m' \<and> net_device m' = net_device m"
proof -
  let ?own = "state_dict m"
  from assms(3) have keys1: "list_all (\<lambda>k. k \<in> set (map fst sd)) (map fst ?own)"
    and keys2: "list_all (\<lambda>k. k \<in> set (map fst ?own)) (map fst sd)"
    and shapes: "list_all (\<lambda>(k, p). map_option tshape (map_of sd k) = Some (tshape p)) ?own"
    and m': "m' = m\<lparr>fc1 := \<lparr>weight = copy_param sd ''fc1.weight'' (weight (fc1 m)),
                             bias = copy_param sd ''fc1.bias'' (bias (fc1 m))\<rparr>,
                   fc2 := \<lparr>weight = copy_param sd ''fc2.weight'' (weight (fc2 m)),
                             bias = copy_param sd ''fc2.bias'' (bias (fc2 m))\<rparr>\<rparr>"
    by (simp_all add: load_state_dict_def Let_def split: if_splits)
  have keys: "set (map fst sd) = set (map fst ?own)"
    using keys1 keys2 by (auto simp: list_all_iff)
  have cp: "wf_tensor (copy_param sd k p) \<and> tshape (copy_param sd k p) = tshape p \<and> tdevice (copy_param sd k p) = tdevice p"
    if "map_option tshape (map_of sd k) = Some (tshape p)" for k p
  proof -
    from that obtain v where v: "map_of sd k = Some v" "tshape v = tshape p" by auto
    have "(k, v) \<in> set sd" using v(1) by (rule map_of_SomeD)
    then have "wf_tensor v" using assms(2) by (auto simp: list_all_iff)
    then show ?thesis using v by (simp add: copy_param_def wf_tensor_def numel_def)
  qed
  from shapes have "map_option tshape (map_of sd ''fc1.weight'') = Some (tshape (weight (fc1 m)))"
    "map_option tshape (map_of sd ''fc1.bias'') = Some (tshape (bias (fc1 m)))"
    "map_option tshape (map_of sd ''fc2.weight'') = Some (tshape (weight (fc2 m)))"
    "map_option tshape (map_of sd ''fc2.bias'') = Some (tshape (bias (fc2 m)))"
    by (simp_all add: state_dict_def)
  with cp have "wf_simplenet m' \<and> net_device m' = net_device m"
    using assms(1) by (simp add: m' wf_simplenet_def wf_linear_def net_device_def)
  then show ?thesis using keys shapes by simp
qed

theorem load_state_dict_strict_witness:
  "wf_simplenet (simplenet_new (\<lambda>_. 0) (\<lambda>_. 0)) \<and>
   list_all (\<lambda>kv. wf_tensor (snd kv)) (state_dict (simplenet_new (\<lambda>i. real i) (\<lambda>_. 1))) \<and>
   load_state_dict (simplenet_new (\<lambda>_. 0) (\<lambda>_. 0)) (state_dict (simplenet_new (\<lambda>i. real i) (\<lambda>_. 1))) =
     Inr (simplenet_new (\<lambda>i. real i) (\<lambda>_. 1)) \<and>
   wf_simplenet (simplenet_new (\<lambda>i. real i) (\<lambda>_. 1))"
proof -
  have a: "wf_simplenet (simplenet_new (\<lambda>_. 0) (\<lambda>_. 0))" "wf_simplenet (simplenet_new (\<lambda>i. real i) (\<lambda>_. 1))"
    by (rule wf_simplenet_new)+
  have b: "list_all (\<lambda>kv. wf_tensor (snd kv)) (state_dict (simplenet_new (\<lambda>i. real i) (\<lambda>_. 1)))"
    using a(2) by (simp add: state_dict_def wf_simplenet_def wf_linear_def)
  have c: "load_state_dict (simplenet_new (\<lambda>_. 0) (\<lambda>_. 0)) (state_dict (simplenet_new (\<lambda>i. real i) (\<lambda>_. 1))) =
     Inr (simplenet_new (\<lambda>i. real i) (\<lambda>_. 1))"
    using a by (simp add: load_state_dict_wf) (simp add: simplenet_new_def nn_linear_def)
  show ?thesis using load_state_dict_strict [OF a(1) b c] a b c by simp
qed

end
