(* ===== verification/Inference.thy ===== *)
theory Inference
  imports Train
begin

text \<open>
  The inference cells of \<open>torch-test-model.ipynb\<close>: the iterator over the
  test loader (\<open>batch_size = 1\<close>), the dictionary \<open>labels_map\<close> from class
  numbers to names, \<open>get_probs(model, x, y, device)\<close>, and the cell the
  reader runs repeatedly, which takes the next test image, runs the model on
  it and looks up the names of the predicted and of the true class.
\<close>

section \<open>Python and tensor operations\<close>

text \<open>\<open>labels_map\<close>, a dictionary from class numbers to names.\<close>

definition labels_map :: "int \<rightharpoonup> string" where
  "labels_map = map_of [(0, ''T-Shirt''), (1, ''Trouser''), (2, ''Pullover''), (3, ''Dress''),
                        (4, ''Coat''), (5, ''Sandal''), (6, ''Shirt''), (7, ''Sneaker''),
                        (8, ''Bag''), (9, ''Ankle Boot'')]"

text \<open>\<open>d[k]\<close> on a dictionary: a missing key raises \<open>KeyError\<close>.\<close>

definition dict_get :: "('k \<rightharpoonup> 'v) \<Rightarrow> 'k \<Rightarrow> 'v res" where
  "dict_get d k = (case d k of None \<Rightarrow> Inl KeyError | Some v \<Rightarrow> Inr v)"

text \<open>\<open>next(it)\<close> on the loader's iterator: the next batch, or \<open>StopIteration\<close>.\<close>

definition loader_next :: "'b list \<Rightarrow> ('b \<times> 'b list) res" where
  "loader_next it = (case it of [] \<Rightarrow> Inl StopIteration | b # rest \<Rightarrow> Inr (b, rest))"

text \<open>\<open>t.item()\<close>: only a tensor of one element converts to a Python number.\<close>

definition tensor_item :: "'a tensor \<Rightarrow> 'a res" where
  "tensor_item t = (case tdata t of [v] \<Rightarrow> Inr v | _ \<Rightarrow> Inl ShapeError)"

text \<open>Indexing a sequence of length \<open>n\<close> by an integer in \<open>[-n, n)\<close>; negative indices count from the end.\<close>

definition index_int :: "'a list \<Rightarrow> int \<Rightarrow> 'a res" where
  "index_int xs i =
     (if i < - int (length xs) then Inl IndexError
      else if int (length xs) \<le> i then Inl IndexError
      else if i < 0 then Inr (xs ! nat (i + int (length xs)))
      else Inr (xs ! nat i))"

text \<open>
  \<open>t[y]\<close> with an integer tensor \<open>y\<close>: the slices of \<open>t\<close> along its first
  dimension at the indices in \<open>y\<close>; the index tensor must be on the device
  of \<open>t\<close> or on the CPU.
\<close>

definition slices0 :: "'a tensor \<Rightarrow> 'a list list" where
  "slices0 t =
     (let n = hd (tshape t); k = prod_list (tl (tshape t))
      in if k = 0 then replicate n [] else chunks k (tdata t))"

definition tensor_index_on :: "'a tensor \<Rightarrow> int tensor \<Rightarrow> 'a tensor res" where
  "tensor_index_on t y =
     (case tshape t of
        [] \<Rightarrow> Inl IndexError
      | n # s \<Rightarrow>
          res_bind (res_map (index_int (slices0 t)) (tdata y)) (\<lambda>rows.
            Inr \<lparr>tdata = concat rows, tshape = tshape y @ s, tdevice = tdevice t\<rparr>))"

definition tensor_index :: "'a tensor \<Rightarrow> int tensor \<Rightarrow> 'a tensor res" where
  "tensor_index t y =
     (if tdevice y \<noteq> tdevice t then
        (if tdevice y = cpu_device then tensor_index_on t y else Inl DeviceMismatch)
      else tensor_index_on t y)"

section \<open>The notebook's functions and cells\<close>

text \<open>
  \<open>get_probs(model, x, y, device)\<close>: the model, the image and the label
  are moved to \<open>device\<close> (\<open>Module.to\<close> moves the model in place), the
  model runs on the image without gradients, and its output is squeezed to
  the ten class probabilities; it returns them and \<open>output[y]\<close>, the
  probability of the true class. \<open>bs\<close> is the notebook's global
  \<open>batch_size\<close>, which \<open>forward\<close> reads.
\<close>

definition get_probs ::
  "host \<Rightarrow> nat \<Rightarrow> simplenet \<Rightarrow> rtensor \<Rightarrow> int tensor \<Rightarrow> device \<Rightarrow> (simplenet \<times> rtensor \<times> rtensor) res" where
  "get_probs h bs net x y dev =
     res_bind (simplenet_to h net dev) (\<lambda>net'.
     res_bind (tensor_to h x dev) (\<lambda>x'.
     res_bind (tensor_to h y dev) (\<lambda>y'.
     res_bind (simplenet_forward bs net' x') (\<lambda>output.
     (let output' = tensor_squeeze output in
      res_bind (tensor_index output' y') (\<lambda>gt. Inr (net', output', gt)))))))"

record prediction =
  predicted :: string
  confidence :: real
  actual :: string
  gt_prob :: "real list"

text \<open>
  The prediction cell: \<open>image, label = testing_iterator.next()\<close>, then
  on that batch \<open>image = image.squeeze(0)\<close>, \<open>probs, gt_prob =
  get_probs(...)\<close>, \<open>plt.imshow(image.view(28,28))\<close> (which needs 784
  values), \<open>max_label = torch.argmax(probs)\<close>, and the two \<open>print\<close> calls,
  which look up \<open>labels_map[max_label.item()]\<close> and
  \<open>probs[max_label.item()]\<close>, then \<open>labels_map[label.item()]\<close>.
  \<open>predict_batch\<close> is the part after \<open>next()\<close>; the state the cell changes
  is the model (moved in place) and the iterator.
\<close>

definition predict_batch ::
  "host \<Rightarrow> device \<Rightarrow> simplenet \<Rightarrow> rtensor \<times> int tensor \<Rightarrow> (prediction \<times> simplenet) res" where
  "predict_batch h dev net b =
     (let image = tensor_squeeze0 (fst b); label = snd b in
      res_bind (get_probs h 1 net image label dev) (\<lambda>(net', probs, gt).
      if numel image \<noteq> 784 then Inl ShapeError
      else
        res_bind (tensor_argmax probs) (\<lambda>m.
        res_bind (dict_get labels_map (int m)) (\<lambda>name.
        res_bind (index_int (tdata probs) (int m)) (\<lambda>conf.
        res_bind (tensor_item label) (\<lambda>l.
        res_bind (dict_get labels_map l) (\<lambda>name'.
        Inr (\<lparr>predicted = name, confidence = conf, actual = name', gt_prob = tdata gt\<rparr>, net'))))))))"

definition predict_cell ::
  "host \<Rightarrow> device \<Rightarrow> simplenet \<Rightarrow> (rtensor \<times> int tensor) list \<Rightarrow>
   (prediction \<times> simplenet \<times> (rtensor \<times> int tensor) list) res" where
  "predict_cell h dev net it =
     res_bind (loader_next it) (\<lambda>(b, it').
     res_bind (predict_batch h dev net b) (\<lambda>(p, net'). Inr (p, net', it')))"

text \<open>The reader running the prediction cell \<open>k\<close> times in a row.\<close>

fun run_cells ::
  "host \<Rightarrow> device \<Rightarrow> nat \<Rightarrow> simplenet \<Rightarrow> (rtensor \<times> int tensor) list \<Rightarrow>
   (prediction list \<times> simplenet \<times> (rtensor \<times> int tensor) list) res" where
  "run_cells h dev 0 net it = Inr ([], net, it)"
| "run_cells h dev (Suc k) net it =
     res_bind (predict_cell h dev net it) (\<lambda>(p, net', it').
     res_bind (run_cells h dev k net' it') (\<lambda>(ps, net'', it''). Inr (p # ps, net'', it'')))"

section \<open>Lemmas\<close>

lemma simplenet_to_resident:
  assumes "resolve_device h dev = Inr dev'" and "wf_simplenet net" and "net_device net = dev'"
  shows "simplenet_to h net dev = Inr net"
  using assms
  by (simp add: simplenet_to_def linear_to_def tensor_to_def wf_simplenet_def wf_linear_def net_device_def)

lemma chunks_one: "chunks (Suc 0) xs = map (\<lambda>x. [x]) xs"
  by (induction xs) simp_all

lemma index_int_nat: "i < length xs \<Longrightarrow> index_int xs (int i) = Inr (xs ! i)"
  by (simp add: index_int_def)

lemma labels_map_defined: "0 \<le> k \<Longrightarrow> k < 10 \<Longrightarrow> \<exists>name. labels_map k = Some name"
proof -
  assume "0 \<le> k" "k < 10"
  then have "k = 0 \<or> k = 1 \<or> k = 2 \<or> k = 3 \<or> k = 4 \<or> k = 5 \<or> k = 6 \<or> k = 7 \<or> k = 8 \<or> k = 9" by presburger
  then show ?thesis by (auto simp: labels_map_def)
qed

lemma get_probs_result:
  assumes dev: "resolve_device h dev = Inr dev'" and net: "wf_simplenet net" "net_device net = dev'"
    and x: "wf_tensor x" "numel x = 784"
    and y: "tdata y = [l]" "0 \<le> l" "l < 10"
  shows "\<exists>probs gt. get_probs h 1 net x y dev = Inr (net, probs, gt) \<and>
           tshape probs = [10] \<and> length (tdata probs) = 10 \<and> sum_list (tdata probs) = 1 \<and>
           (\<forall>p \<in> set (tdata probs). 0 < p) \<and> tdata gt = [tdata probs ! nat l]"
proof -
  let ?x = "x\<lparr>tdevice := dev'\<rparr>" and ?y = "y\<lparr>tdevice := dev'\<rparr>"
  have to: "simplenet_to h net dev = Inr net" using dev net by (rule simplenet_to_resident)
  have mx: "tensor_to h x dev = Inr ?x" and my: "tensor_to h y dev = Inr ?y"
    using dev by (simp_all add: tensor_to_def)
  have xs: "wf_tensor ?x" "tdevice ?x = net_device net" "numel ?x = 1 * 784" "(0::nat) < 1"
    using x net by simp_all
  obtain out where f: "simplenet_forward 1 net ?x = Inr out" and out: "tshape out = [1, 10]" "wf_tensor out"
    "tdevice out = net_device net"
    "\<forall>row \<in> set (tensor_rows out). length row = 10 \<and> sum_list row = 1 \<and> (\<forall>p \<in> set row. 0 < p)"
    using simplenet_forward_result [OF net(1) xs] by blast
  obtain row where rows: "tensor_rows out = [row]"
    using tensor_rows_shape [OF out(2,1)] by (auto simp: length_Suc_conv)
  have row: "length row = 10" "sum_list row = 1" "\<forall>p \<in> set row. 0 < p" using out(4) rows by simp_all
  have data: "tdata out = row" using concat_tensor_rows [OF out(2,1)] rows by simp
  let ?p = "tensor_squeeze out"
  have p: "tshape ?p = [10]" "tdata ?p = row" "tdevice ?p = dev'"
    using out(1,3) data net(2) by (simp_all add: tensor_squeeze_def)
  have sl: "slices0 ?p = map (\<lambda>v. [v]) row" using p by (simp add: slices0_def chunks_one)
  have "nat l < length row" using y(2,3) row(1) by simp
  then have ix: "index_int (slices0 ?p) l = Inr [row ! nat l]"
    using index_int_nat [of "nat l" "slices0 ?p"] y(2) sl by simp
  have "tensor_index ?p ?y = Inr \<lparr>tdata = [row ! nat l], tshape = tshape y, tdevice = dev'\<rparr>"
    using p ix y(1) by (simp add: tensor_index_def tensor_index_on_def)
  then have "get_probs h 1 net x y dev = Inr (net, ?p, \<lparr>tdata = [row ! nat l], tshape = tshape y, tdevice = dev'\<rparr>)"
    using to mx my f by (simp add: get_probs_def)
  then show ?thesis using p row by auto
qed

lemma sum_list_le_length_max:
  "(\<And>x. x \<in> set xs \<Longrightarrow> x \<le> M) \<Longrightarrow> sum_list xs \<le> real (length xs) * (M :: real)"
  by (induction xs) (simp_all add: algebra_simps, smt (verit) list.set_intros)

lemma squeeze0_props [simp]:
  "numel (tensor_squeeze0 t) = numel t" "wf_tensor (tensor_squeeze0 t) = wf_tensor t"
  "tdevice (tensor_squeeze0 t) = tdevice t"
  by (simp_all add: tensor_squeeze0_def numel_def wf_tensor_def split: list.splits nat.splits)

lemma predict_cell_result:
  assumes dev: "resolve_device h dev = Inr dev'" and net: "wf_simplenet net" "net_device net = dev'"
    and b: "batch_ok 1 b"
  shows "\<exists>p. predict_cell h dev net (b # rest) = Inr (p, net, rest) \<and>
             1 / 10 \<le> confidence p \<and> confidence p \<le> 1 \<and>
             (\<exists>g. gt_prob p = [g] \<and> 0 < g \<and> g \<le> confidence p) \<and>
             (\<exists>k < 10. labels_map (int k) = Some (predicted p)) \<and>
             labels_map (hd (tdata (snd b))) = Some (actual p)"
proof -
  let ?img = "tensor_squeeze0 (fst b)"
  from b obtain l where l: "tdata (snd b) = [l]" "0 \<le> l" "l < 10"
    by (auto simp: batch_ok_def length_Suc_conv)
  have img: "wf_tensor ?img" "numel ?img = 784" using b by (simp_all add: batch_ok_def)
  obtain probs gt where gp: "get_probs h 1 net ?img (snd b) dev = Inr (net, probs, gt)"
    and pr: "length (tdata probs) = 10" "sum_list (tdata probs) = 1" "\<forall>p \<in> set (tdata probs). 0 < p"
    and gt: "tdata gt = [tdata probs ! nat l]"
    using get_probs_result [OF dev net img l] by blast
  let ?m = "list_argmax (tdata probs)"
  have ne: "tdata probs \<noteq> []" using pr(1) by auto
  have am: "?m < 10" "\<forall>j<10. tdata probs ! j \<le> tdata probs ! ?m"
    using list_argmax_max [OF ne] pr(1) by simp_all
  obtain name where name: "labels_map (int ?m) = Some name" using labels_map_defined [of "int ?m"] am(1) by auto
  obtain name' where name': "labels_map l = Some name'" using labels_map_defined l(2,3) by auto
  have ix: "index_int (tdata probs) (int ?m) = Inr (tdata probs ! ?m)" using am(1) pr(1) by (simp add: index_int_nat)
  have cell: "predict_cell h dev net (b # rest) =
      Inr (\<lparr>predicted = name, confidence = tdata probs ! ?m, actual = name', gt_prob = tdata gt\<rparr>, net, rest)"
    using gp img(2) ne name name' ix l(1)
    by (simp add: predict_cell_def predict_batch_def loader_next_def tensor_argmax_def dict_get_def tensor_item_def)
  have mem: "tdata probs ! ?m \<in> set (tdata probs)" using am(1) pr(1) by simp
  have le1: "tdata probs ! ?m \<le> 1"
    using member_le_sum_list [OF mem] pr(2,3) by (auto intro: less_imp_le)
  have "\<And>x. x \<in> set (tdata probs) \<Longrightarrow> x \<le> tdata probs ! ?m"
    using am(2) pr(1) by (auto simp: in_set_conv_nth)
  from sum_list_le_length_max [of "tdata probs", OF this] pr(1,2) have ge: "1 / 10 \<le> tdata probs ! ?m" by simp
  have nl: "nat l < 10" using l by simp
  have g: "0 < tdata probs ! nat l" "tdata probs ! nat l \<le> tdata probs ! ?m"
    using nl pr(1,3) am(2) by simp_all
  show ?thesis using cell le1 ge gt g name am(1) name' l(1) by auto
qed

lemma run_cells_loader:
  assumes dev: "resolve_device h dev = Inr dev'" and net: "wf_simplenet net" "net_device net = dev'"
  shows "list_all (batch_ok 1) loader \<Longrightarrow>
         \<exists>ps. run_cells h dev (length loader) net loader = Inr (ps, net, []) \<and> length ps = length loader \<and>
              map (\<lambda>p. Some (actual p)) ps = map (\<lambda>b. labels_map (hd (tdata (snd b)))) loader \<and>
              run_cells h dev (Suc (length loader)) net loader = Inl StopIteration"
proof (induction loader)
  case Nil
  then show ?case by (simp add: predict_cell_def loader_next_def)
next
  case (Cons b loader)
  then obtain ps where ps: "run_cells h dev (length loader) net loader = Inr (ps, net, [])"
    "length ps = length loader"
    "map (\<lambda>p. Some (actual p)) ps = map (\<lambda>b. labels_map (hd (tdata (snd b)))) loader"
    "run_cells h dev (Suc (length loader)) net loader = Inl StopIteration"
    by (auto simp del: run_cells.simps)
  from Cons.prems obtain p where p: "predict_cell h dev net (b # loader) = Inr (p, net, loader)"
    "labels_map (hd (tdata (snd b))) = Some (actual p)"
    using predict_cell_result [OF dev net, of b loader] by auto
  have "run_cells h dev (Suc (length (b # loader))) net (b # loader) =
        res_bind (run_cells h dev (Suc (length loader)) net loader) (\<lambda>(ps, net'', it''). Inr (p # ps, net'', it''))"
    using p(1) by (simp del: run_cells.simps add: run_cells.simps(2) [of h dev "Suc (length loader)" net "b # loader"])
  then have "run_cells h dev (Suc (length (b # loader))) net (b # loader) = Inl StopIteration"
    using ps(4) by (simp del: run_cells.simps)
  then show ?case using p ps(1-3) by simp
qed

text \<open>
  The module's mode does not enter a prediction: \<open>Module.to\<close> keeps it and
  \<open>forward\<close> does not read it, so a model in training mode predicts what
  the same model in evaluation mode predicts.
\<close>

lemma simplenet_to_mode:
  "simplenet_to h (net\<lparr>training := b\<rparr>) d = res_bind (simplenet_to h net d) (\<lambda>n. Inr (n\<lparr>training := b\<rparr>))"
  by (simp add: simplenet_to_def res_bind_def split: sum.splits)

lemma simplenet_forward_mode: "simplenet_forward bs (net\<lparr>training := b\<rparr>) x = simplenet_forward bs net x"
  by (simp add: simplenet_forward_def)

lemma get_probs_mode:
  "get_probs h bs (net\<lparr>training := b\<rparr>) x y d = res_bind (get_probs h bs net x y d) (\<lambda>(n, p, g). Inr (n\<lparr>training := b\<rparr>, p, g))"
  by (simp add: get_probs_def simplenet_to_mode simplenet_forward_mode Let_def res_bind_def split: sum.splits)

lemma predict_batch_mode:
  "predict_batch h dev (net\<lparr>training := b\<rparr>) bt =
   res_bind (predict_batch h dev net bt) (\<lambda>(p, n). Inr (p, n\<lparr>training := b\<rparr>))"
proof (cases "get_probs h 1 net (tensor_squeeze0 (fst bt)) (snd bt) dev")
  case (Inl e)
  then show ?thesis by (simp add: predict_batch_def get_probs_mode Let_def)
next
  case (Inr r)
  then obtain n p g where "get_probs h 1 net (tensor_squeeze0 (fst bt)) (snd bt) dev = Inr (n, p, g)"
    by (cases r) auto
  then show ?thesis by (simp add: predict_batch_def get_probs_mode Let_def)
qed

lemma run_cells_mode:
  "res_bind (run_cells h dev k (net\<lparr>training := b\<rparr>) it) (\<lambda>(ps, m, it'). g ps it') =
   res_bind (run_cells h dev k net it) (\<lambda>(ps, m, it'). g ps it')"
proof (induction k arbitrary: net it g)
  case (Suc k)
  show ?case
  proof (cases "loader_next it")
    case (Inl e)
    then show ?thesis by (simp add: predict_cell_def)
  next
    case (Inr bi)
    then obtain bt it' where n: "loader_next it = Inr (bt, it')" by (cases bi) auto
    show ?thesis
    proof (cases "predict_batch h dev net bt")
      case (Inl e)
      then show ?thesis using n by (simp add: predict_cell_def predict_batch_mode)
    next
      case (Inr pn)
      then obtain p n' where "predict_batch h dev net bt = Inr (p, n')" by (cases pn) auto
      then show ?thesis using n Suc.IH [of n' it' "\<lambda>ps it''. g (p # ps) it''"]
        by (simp add: predict_cell_def predict_batch_mode res_bind_def split: sum.splits prod.splits)
    qed
  qed
qed simp

lemma run_cells_mode_ignoring:
  assumes "\<And>ps m m' it'. f (ps, m, it') = f (ps, m', it')"
  shows "res_bind (run_cells h dev k (net\<lparr>training := b\<rparr>) it) f = res_bind (run_cells h dev k net it) f"
proof -
  have "f = (\<lambda>(ps, m, it'). f (ps, net, it'))" using assms by (auto simp: fun_eq_iff)
  then show ?thesis using run_cells_mode [where g = "\<lambda>ps it'. f (ps, net, it')" and net = net] by simp
qed

text \<open>The in-place \<open>model.to(device)\<close> of \<open>get_probs\<close> leaves a resident model as it is.\<close>

lemma predict_batch_keeps_model:
  assumes "predict_batch h d net b = Inr (p, net')"
    and "resolve_device h d = Inr (net_device net)" and "wf_simplenet net"
  shows "net' = net"
proof -
  have "simplenet_to h net d = Inr net" using assms(2,3) refl by (rule simplenet_to_resident)
  then show ?thesis using assms(1)
    by (auto simp: predict_batch_def get_probs_def Let_def res_bind_def split: sum.splits if_splits)
qed

section \<open>Properties\<close>

text \<open>
  C14. The prediction cell, run with a well-formed model resident on a
  device that resolves on the host and a test iterator whose next item is a
  valid sample, raises nothing (no \<open>KeyError\<close> from \<open>labels_map\<close>, no
  \<open>IndexError\<close>), leaves the model as it was and advances the iterator by
  one; the reported confidence is the largest of ten probabilities, so it is
  at least 1/10 and at most 1 (a probability, although the printed text
  \<open>"with confidence % of"\<close> and the notebook's explanation call it a
  percentage) and at least the probability of the true class, which is
  positive in the exact-real model of softmax; both names come from
  \<open>labels_map\<close>, the second being the label's.
\<close>

theorem predict_cell_ok:
  assumes "resolve_device h dev = Inr dev'" and "wf_simplenet net" and "net_device net = dev'"
    and "batch_ok 1 b"
  shows "\<exists>p. predict_cell h dev net (b # rest) = Inr (p, net, rest) \<and>
             1 / 10 \<le> confidence p \<and> confidence p \<le> 1 \<and>
             (\<exists>g. gt_prob p = [g] \<and> 0 < g \<and> g \<le> confidence p) \<and>
             (\<exists>k < 10. labels_map (int k) = Some (predicted p)) \<and>
             labels_map (hd (tdata (snd b))) = Some (actual p)"
  using assms by (rule predict_cell_result)

theorem predict_cell_ok_witness:
  "resolve_device \<lparr>gpu_names = []\<rparr> cpu_device = Inr cpu_device \<and>
   wf_simplenet (simplenet_new (\<lambda>_. 0) (\<lambda>_. 0)) \<and>
   net_device (simplenet_new (\<lambda>_. 0) (\<lambda>_. 0)) = cpu_device \<and>
   batch_ok 1 (\<lparr>tdata = replicate 784 0, tshape = [1, 1, 28, 28], tdevice = cpu_device\<rparr>,
                            \<lparr>tdata = [3], tshape = [1], tdevice = cpu_device\<rparr>) \<and>
   (\<exists>p. predict_cell \<lparr>gpu_names = []\<rparr> cpu_device (simplenet_new (\<lambda>_. 0) (\<lambda>_. 0)) [(\<lparr>tdata = replicate 784 0, tshape = [1, 1, 28, 28], tdevice = cpu_device\<rparr>,
                            \<lparr>tdata = [3], tshape = [1], tdevice = cpu_device\<rparr>)] =
           Inr (p, simplenet_new (\<lambda>_. 0) (\<lambda>_. 0), []) \<and>
         1 / 10 \<le> confidence p \<and> actual p = ''Dress'')"
proof -
  have r: "resolve_device \<lparr>gpu_names = []\<rparr> cpu_device = Inr cpu_device"
    by (simp add: resolve_device_def cpu_device_def)
  have n: "wf_simplenet (simplenet_new (\<lambda>_. 0) (\<lambda>_. 0))" by (rule wf_simplenet_new)
  have b: "batch_ok 1 (\<lparr>tdata = replicate 784 0, tshape = [1, 1, 28, 28], tdevice = cpu_device\<rparr>,
                            \<lparr>tdata = [3::int], tshape = [1], tdevice = cpu_device\<rparr>)"
    by (simp add: batch_ok_def wf_tensor_def numel_def)
  from predict_cell_ok [OF r n _ b, of "[]"] r n b show ?thesis by (auto simp: labels_map_def)
qed

text \<open>
  C21. Running the prediction cell again and again over a test set of valid
  samples reports one prediction per sample, in order, each with the name of
  that sample's label, and the run after the last sample raises
  \<open>StopIteration\<close>.
\<close>

theorem predict_cells_exhaust:
  assumes "resolve_device h dev = Inr dev'" and "wf_simplenet net" and "net_device net = dev'"
    and "list_all (batch_ok 1) loader"
  shows "\<exists>ps. run_cells h dev (length loader) net loader = Inr (ps, net, []) \<and> length ps = length loader \<and>
              map (\<lambda>p. Some (actual p)) ps = map (\<lambda>b. labels_map (hd (tdata (snd b)))) loader \<and>
              run_cells h dev (Suc (length loader)) net loader = Inl StopIteration"
  using run_cells_loader [OF assms(1-3)] assms(4) by blast

theorem predict_cells_exhaust_witness:
  "resolve_device \<lparr>gpu_names = []\<rparr> cpu_device = Inr cpu_device \<and>
   wf_simplenet (simplenet_new (\<lambda>_. 0) (\<lambda>_. 0)) \<and>
   net_device (simplenet_new (\<lambda>_. 0) (\<lambda>_. 0)) = cpu_device \<and>
   list_all (batch_ok 1) [(\<lparr>tdata = replicate 784 0, tshape = [1, 1, 28, 28], tdevice = cpu_device\<rparr>,
                            \<lparr>tdata = [3], tshape = [1], tdevice = cpu_device\<rparr>)] \<and>
   run_cells \<lparr>gpu_names = []\<rparr> cpu_device 2 (simplenet_new (\<lambda>_. 0) (\<lambda>_. 0)) [(\<lparr>tdata = replicate 784 0, tshape = [1, 1, 28, 28], tdevice = cpu_device\<rparr>,
                            \<lparr>tdata = [3], tshape = [1], tdevice = cpu_device\<rparr>)] = Inl StopIteration"
proof -
  have r: "resolve_device \<lparr>gpu_names = []\<rparr> cpu_device = Inr cpu_device"
    by (simp add: resolve_device_def cpu_device_def)
  have n: "wf_simplenet (simplenet_new (\<lambda>_. 0) (\<lambda>_. 0))" by (rule wf_simplenet_new)
  have b: "list_all (batch_ok 1) [(\<lparr>tdata = replicate 784 0, tshape = [1, 1, 28, 28], tdevice = cpu_device\<rparr>,
                            \<lparr>tdata = [3::int], tshape = [1], tdevice = cpu_device\<rparr>)]"
    by (simp add: batch_ok_def wf_tensor_def numel_def)
  from predict_cells_exhaust [OF r n _ b] r n b show ?thesis by (auto simp: numeral_2_eq_2 simp del: run_cells.simps)
qed

end
