(* ===== verification/Kernel.thy ===== *)
theory Kernel
  imports Objects Checkpoint Inference
begin

text \<open>
  \<open>torch-use-gpu.ipynb\<close> as a Jupyter kernel runs it: a state of global
  names and objects, and cells the user runs one at a time, in any order, any
  number of times. A cell that reads a name no cell has bound yet raises
  \<open>NameError\<close>; a cell that raises keeps what it did before the raising
  statement. \<open>run_cell\<close> gives each code cell of the notebook its effect,
  \<open>reach\<close> is the set of states some sequence of cell runs produces, and
  \<open>run_all\<close> runs a list of cells until the first exception, as
  \<open>Run All\<close> does. The heap of model objects and the optimizer come from
  theory \<open>Objects\<close>; the environment \<open>env\<close> is what the notebook does
  not control: the host, the random draws, autograd, the datasets and the
  files already on disk. The sample figure the plot cell displays is kept
  as its panels (\<open>subplot\<close>).
\<close>

section \<open>Kernel state\<close>

text \<open>
  One panel of the sample figure: \<open>figure.add_subplot(3, 3, i)\<close> gives its
  position, \<open>plt.title(...)\<close> its title and \<open>plt.imshow(...)\<close> the image it
  shows (\<open>plt.axis("off")\<close> and the colour map only change how it looks).
\<close>

record subplot =
  sp_pos :: nat
  sp_title :: string
  sp_image :: rtensor

text \<open>What the cells print or display, in order.\<close>

datatype cell_output =
    OBool bool                 \<comment> \<open>\<open>torch.cuda.is_available()\<close>\<close>
  | ONat nat                   \<comment> \<open>\<open>torch.cuda.device_count()\<close>\<close>
  | ODevice device             \<comment> \<open>\<open>print(device)\<close>\<close>
  | OStr string                \<comment> \<open>\<open>torch.cuda.get_device_name(0)\<close>\<close>
  | OTensor bool device        \<comment> \<open>\<open>print(X.is_cuda, ",", X.device)\<close>\<close>
  | OEpoch nat                 \<comment> \<open>\<open>print(f"EPOCH: {epoch}")\<close>\<close>
  | OReport test_report        \<comment> \<open>the report \<open>test\<close> prints\<close>
  | OFigure "subplot list"     \<comment> \<open>the figure \<open>plt.show()\<close> displays\<close>

record env =
  e_host :: host
  e_draw :: "nat \<Rightarrow> (nat \<Rightarrow> real) \<times> (nat \<Rightarrow> real)"
  e_pick :: "nat \<Rightarrow> nat \<Rightarrow> nat"
  e_grad :: grad_fn
  e_trainset :: "raw_sample list"
  e_testset :: "raw_sample list"
  e_files :: files

text \<open>
  The globals of the notebook (\<open>None\<close> or \<open>False\<close>: not bound yet), the
  heap of model objects, the files, the number of random draws made so far,
  and the output. A \<open>DataLoader\<close> is its batch size and its dataset; it
  batches the dataset when iterated. The optimizer is the reference of the
  model whose parameters it holds, and its state.
\<close>

record kstate =
  k_imported :: bool
  k_device :: "device option"
  k_X_train :: "i32 tensor option"
  k_X_test :: "i32 tensor option"
  k_batch_size :: "nat option"
  k_net_class :: bool
  k_heap :: heap
  k_model :: "nat option"
  k_trainset :: "raw_sample list option"
  k_testset :: "raw_sample list option"
  k_train_loader :: "(nat \<times> raw_sample list) option"
  k_test_loader :: "(nat \<times> raw_sample list) option"
  k_train_fn :: bool
  k_test_fn :: bool
  k_epochs :: "nat option"
  k_optimizer :: "(nat \<times> adadelta) option"
  k_files :: files
  k_rng :: nat
  k_out :: "cell_output list"

definition kinit :: "env \<Rightarrow> kstate" where
  "kinit env =
     \<lparr>k_imported = False, k_device = None, k_X_train = None, k_X_test = None, k_batch_size = None,
      k_net_class = False, k_heap = [], k_model = None, k_trainset = None, k_testset = None,
      k_train_loader = None, k_test_loader = None, k_train_fn = False, k_test_fn = False,
      k_epochs = None, k_optimizer = None, k_files = e_files env, k_rng = 0, k_out = []\<rparr>"

text \<open>Reading a global name, and printing.\<close>

definition lookup :: "'a option \<Rightarrow> 'a res" where
  "lookup v = (case v of None \<Rightarrow> Inl NameError | Some a \<Rightarrow> Inr a)"

definition bound :: "bool \<Rightarrow> unit res" where
  "bound b = (if b then Inr () else Inl NameError)"

definition emit :: "kstate \<Rightarrow> cell_output \<Rightarrow> kstate" where
  "emit s x = s\<lparr>k_out := k_out s @ [x]\<rparr>"

section \<open>Cells\<close>

text \<open>
  The training notebook's own \<open>labels_map\<close>, defined in the plot cell.
\<close>

definition train_labels_map :: "int \<rightharpoonup> string" where
  "train_labels_map = map_of [(0, ''T-Shirt''), (1, ''Trouser''), (2, ''Pullover''), (3, ''Dress''),
                              (4, ''Coat''), (5, ''Sandal''), (6, ''Shirt''), (7, ''Sneaker''),
                              (8, ''Bag''), (9, ''Ankle Boot'')]"

text \<open>
  The sample plot cell draws nine training images with their class names.
  For \<open>i\<close> in \<open>range(1, 3 * 3 + 1)\<close>:
  \<open>sample_idx = torch.randint(len(trainset), size=(1,)).item()\<close>,
  \<open>img, label = trainset[sample_idx]\<close> (the dataset applies the transform),
  \<open>figure.add_subplot(3, 3, i)\<close>, \<open>plt.title(labels_map[label])\<close>,
  \<open>plt.imshow(img.view(28,28))\<close>; then \<open>plt.show()\<close> displays the panels.
  The random draws are a parameter \<open>pick\<close>, reduced modulo the dataset size
  since \<open>randint\<close> only returns indices in range; on an empty dataset
  \<open>randint\<close> raises. The title lookup and the reshape can raise.
\<close>

definition plot_sample :: "raw_sample list \<Rightarrow> nat \<Rightarrow> nat \<Rightarrow> subplot res" where
  "plot_sample ds pos i =
     (let s = ds ! i; img = fmnist_transform (fst s) in
      res_bind (dict_get train_labels_map (snd s)) (\<lambda>name.
        if numel img \<noteq> 784 then Inl ShapeError
        else Inr \<lparr>sp_pos = pos, sp_title = name, sp_image = img\<lparr>tshape := [28, 28]\<rparr>\<rparr>))"

definition sample_plot_cell :: "(nat \<Rightarrow> nat) \<Rightarrow> raw_sample list \<Rightarrow> subplot list res" where
  "sample_plot_cell pick ds =
     (if ds = [] then Inl ShapeError
      else res_map (\<lambda>i. plot_sample ds i (pick i mod length ds)) [1..<10])"

text \<open>
  The call \<open>train(model, device, train_loader, optimizer, epoch)\<close>: the
  names are read in argument order, then \<open>print(device)\<close> and the loop of
  \<open>k_train\<close>, whose \<open>model(data)\<close> reads the global \<open>batch_size\<close>. (The
  library names \<open>train\<close> uses, \<open>tqdm\<close> and \<open>F\<close>, and \<open>batch_size\<close> are
  bound whenever \<open>model\<close> is, by the invariant \<open>kinv\<close>; they are read at
  the call.) The optimizer object is updated in place.
\<close>

definition train_call :: "env \<Rightarrow> kstate \<Rightarrow> kstate exc" where
  "train_call env s =
     raise_or (bound (k_train_fn s)) s (\<lambda>_.
     raise_or (lookup (k_model s)) s (\<lambda>m.
     raise_or (lookup (k_device s)) s (\<lambda>d.
     raise_or (lookup (k_train_loader s)) s (\<lambda>(lbs, ds).
     raise_or (lookup (k_optimizer s)) s (\<lambda>(r, c).
     raise_or (lookup (k_batch_size s)) s (\<lambda>bs.
     (let s1 = emit s (ODevice d);
          res = k_train (e_host env) d bs (e_grad env) m r (k_heap s1, c) (data_loader lbs fmnist_transform ds)
      in (s1\<lparr>k_heap := fst (fst res), k_optimizer := Some (r, snd (fst res))\<rparr>, snd res))))))))"

text \<open>
  The call \<open>test(model, device, test_loader)\<close>: the loop of \<open>k_test\<close> over
  the batches of the loader, \<open>len(test_loader.dataset)\<close> the size of its
  dataset, then the printed report.
\<close>

definition test_call :: "env \<Rightarrow> kstate \<Rightarrow> kstate exc" where
  "test_call env s =
     raise_or (bound (k_test_fn s)) s (\<lambda>_.
     raise_or (lookup (k_model s)) s (\<lambda>m.
     raise_or (lookup (k_device s)) s (\<lambda>d.
     raise_or (lookup (k_test_loader s)) s (\<lambda>(lbs, ds).
     raise_or (lookup (k_batch_size s)) s (\<lambda>bs.
     (case k_test (e_host env) d bs m (k_heap s) (data_loader lbs fmnist_transform ds) (length ds) of
        (hp', Inl e) \<Rightarrow> (s\<lparr>k_heap := hp'\<rparr>, Some e)
      | (hp', Inr rep) \<Rightarrow> (emit (s\<lparr>k_heap := hp'\<rparr>) (OReport rep), None)))))))"

text \<open>One pass of \<open>for epoch in range(1, EPOCHS + 1)\<close>.\<close>

definition epoch_body :: "env \<Rightarrow> kstate \<Rightarrow> nat \<Rightarrow> kstate exc" where
  "epoch_body env s e =
     (case train_call env (emit s (OEpoch e)) of
        (s1, None) \<Rightarrow> test_call env s1
      | (s1, Some err) \<Rightarrow> (s1, Some err))"

text \<open>The code cells of the notebook, in the order they appear.\<close>

datatype cell =
    NvidiaSmi | Imports | CudaAvailable | DeviceCount | SetDevice | DeviceName
  | MakeXTrain | MoveXTrain | MakeXTest | DefineNet | MakeModel | MakeLoaders | PlotSamples
  | DefineTrain | DefineTest | RedefineTest | MakeOptimizer | RunEpochs | SaveModel

fun run_cell :: "env \<Rightarrow> kstate \<Rightarrow> cell \<Rightarrow> kstate exc" where
  "run_cell env s NvidiaSmi = (s, None)"
| "run_cell env s Imports = (s\<lparr>k_imported := True\<rparr>, None)"
| "run_cell env s CudaAvailable =
     raise_or (bound (k_imported s)) s (\<lambda>_. (emit s (OBool (cuda_is_available (e_host env))), None))"
| "run_cell env s DeviceCount =
     raise_or (bound (k_imported s)) s (\<lambda>_. (emit s (ONat (cuda_device_count (e_host env))), None))"
| "run_cell env s SetDevice =
     raise_or (bound (k_imported s)) s (\<lambda>_.
     raise_or (select_device (e_host env)) s (\<lambda>d. (emit (s\<lparr>k_device := Some d\<rparr>) (ODevice d), None)))"
| "run_cell env s DeviceName =
     raise_or (bound (k_imported s)) s (\<lambda>_.
     raise_or (get_device_name (e_host env) 0) s (\<lambda>n. (emit s (OStr n), None)))"
| "run_cell env s MakeXTrain =
     raise_or (bound (k_imported s)) s (\<lambda>_.
     raise_or (int_tensor [0, 30, 50, 75, 70]) s (\<lambda>t.
       (emit (s\<lparr>k_X_train := Some t\<rparr>) (OTensor (is_cuda t) (tdevice t)), None)))"
| "run_cell env s MoveXTrain =
     raise_or (lookup (k_X_train s)) s (\<lambda>x.
     raise_or (tensor_cuda (e_host env) x) s (\<lambda>t.
       (emit (s\<lparr>k_X_train := Some t\<rparr>) (OTensor (is_cuda t) (tdevice t)), None)))"
| "run_cell env s MakeXTest =
     raise_or (bound (k_imported s)) s (\<lambda>_.
     raise_or (lookup (k_device s)) s (\<lambda>d.
     raise_or (cuda_int_tensor (e_host env) [30, 40, 50] d) s (\<lambda>t.
       (emit (s\<lparr>k_X_test := Some t\<rparr>) (OTensor (is_cuda t) (tdevice t)), None))))"
| "run_cell env s DefineNet =
     (let s1 = s\<lparr>k_batch_size := Some 100\<rparr> in
      raise_or (bound (k_imported s1)) s1 (\<lambda>_. (s1\<lparr>k_net_class := True\<rparr>, None)))"
| "run_cell env s MakeModel =
     raise_or (bound (k_net_class s)) s (\<lambda>_.
     (let s1 = s\<lparr>k_rng := Suc (k_rng s)\<rparr>;
          net = simplenet_new (fst (e_draw env (k_rng s))) (snd (e_draw env (k_rng s)))
      in raise_or (lookup (k_device s1)) s1 (\<lambda>d.
         raise_or (simplenet_to (e_host env) net d) s1 (\<lambda>net'.
           (s1\<lparr>k_heap := k_heap s1 @ [\<lparr>onet = net', ograds = replicate 4 None\<rparr>],
               k_model := Some (length (k_heap s1))\<rparr>, None)))))"
| "run_cell env s MakeLoaders =
     raise_or (bound (k_imported s)) s (\<lambda>_.
     (let s1 = s\<lparr>k_trainset := Some (e_trainset env)\<rparr> in
      raise_or (lookup (k_batch_size s1)) s1 (\<lambda>bs.
        (s1\<lparr>k_train_loader := Some (bs, e_trainset env), k_testset := Some (e_testset env),
            k_test_loader := Some (bs, e_testset env)\<rparr>, None))))"
| "run_cell env s PlotSamples =
     raise_or (bound (k_imported s)) s (\<lambda>_.
     raise_or (lookup (k_trainset s)) s (\<lambda>ts.
     (let s1 = s\<lparr>k_rng := Suc (k_rng s)\<rparr> in
      raise_or (sample_plot_cell (e_pick env (k_rng s)) ts) s1 (\<lambda>fig. (emit s1 (OFigure fig), None)))))"
| "run_cell env s DefineTrain = (s\<lparr>k_train_fn := True\<rparr>, None)"
| "run_cell env s DefineTest = (s\<lparr>k_test_fn := True\<rparr>, None)"
| "run_cell env s RedefineTest = (s\<lparr>k_test_fn := True\<rparr>, None)"
| "run_cell env s MakeOptimizer =
     (let s1 = s\<lparr>k_epochs := Some 5\<rparr> in
      raise_or (bound (k_imported s1)) s1 (\<lambda>_.
      raise_or (lookup (k_model s1)) s1 (\<lambda>m. (s1\<lparr>k_optimizer := Some (m, adadelta_new 4)\<rparr>, None))))"
| "run_cell env s RunEpochs =
     raise_or (lookup (k_epochs s)) s (\<lambda>n. exc_for (epoch_body env) [1..<n + 1] s)"
| "run_cell env s SaveModel =
     raise_or (bound (k_imported s)) s (\<lambda>_.
     raise_or (lookup (k_model s)) s (\<lambda>m.
       (s\<lparr>k_files := torch_save (state_dict (onet (k_heap s ! m))) ''mnist_fashion_SimpleNet.pt'' (k_files s)\<rparr>, None)))"

text \<open>\<open>Run All\<close>: the cells in order, stopping at the first exception.\<close>

definition run_all :: "env \<Rightarrow> cell list \<Rightarrow> kstate \<Rightarrow> kstate exc" where
  "run_all env cs s = exc_for (run_cell env) cs s"

definition notebook_cells :: "cell list" where
  "notebook_cells =
     [NvidiaSmi, Imports, CudaAvailable, DeviceCount, SetDevice, DeviceName, MakeXTrain, MoveXTrain,
      MakeXTest, DefineNet, MakeModel, MakeLoaders, PlotSamples, DefineTrain, DefineTest, RedefineTest,
      MakeOptimizer, RunEpochs, SaveModel]"

text \<open>The states some sequence of cell runs reaches from a fresh kernel.\<close>

inductive reach :: "env \<Rightarrow> kstate \<Rightarrow> bool" for env where
  start: "reach env (kinit env)"
| run: "reach env s \<Longrightarrow> reach env (fst (run_cell env s c))"

text \<open>The reports \<open>test\<close> printed, in order.\<close>

fun reports :: "cell_output list \<Rightarrow> test_report list" where
  "reports [] = []"
| "reports (OReport r # os) = r # reports os"
| "reports (_ # os) = reports os"

text \<open>
  One pass of the epoch loop seen from the notebook-level model: \<open>train\<close>,
  then \<open>test\<close> on the model it left, whose report is added to those so far.
\<close>

definition epoch_step ::
  "host \<Rightarrow> device \<Rightarrow> nat \<Rightarrow> grad_fn \<Rightarrow> (rtensor \<times> int tensor) list \<Rightarrow> (rtensor \<times> int tensor) list \<Rightarrow> nat \<Rightarrow>
   train_state \<times> test_report list \<Rightarrow> nat \<Rightarrow> (train_state \<times> test_report list) res" where
  "epoch_step h d bs gradf trl tel n sr e =
     res_bind (train h d bs gradf (fst sr) trl) (\<lambda>st1.
     res_bind (test h d bs (tnet st1) tel n) (\<lambda>(net', r). Inr (st1\<lparr>tnet := net'\<rparr>, snd sr @ [r])))"

section \<open>Invariant\<close>

text \<open>
  What every reachable state satisfies: the model objects are sound, the
  \<open>model\<close> and the optimizer refer into the heap and the optimizer state
  fits the parameters it holds; a bound \<open>model\<close> means \<open>SimpleNet\<close> is
  bound, and that means the imports ran and \<open>batch_size\<close> is bound;
  \<open>batch_size\<close> is 100 once bound; the
  loaders batch by 100; \<open>device\<close> is the device the selection cell picks
  on this host.
\<close>

definition kinv :: "env \<Rightarrow> kstate \<Rightarrow> bool" where
  "kinv env s =
     (list_all obj_ok (k_heap s) \<and>
      pred_option (\<lambda>m. m < length (k_heap s)) (k_model s) \<and>
      pred_option (opt_ok (k_heap s)) (k_optimizer s) \<and>
      (k_model s = None \<or> k_net_class s) \<and>
      (\<not> k_net_class s \<or> k_imported s \<and> k_batch_size s \<noteq> None) \<and>
      pred_option (\<lambda>b. b = 100) (k_batch_size s) \<and>
      pred_option (\<lambda>l. fst l = 100) (k_train_loader s) \<and> pred_option (\<lambda>l. fst l = 100) (k_test_loader s) \<and>
      pred_option (\<lambda>d. select_device (e_host env) = Inr d) (k_device s))"

text \<open>
  The names the epoch loop reads are bound, and the optimizer holds the
  parameters of \<open>model\<close> itself, as after running the cells in order.
\<close>

definition epochs_ready ::
  "nat \<Rightarrow> device \<Rightarrow> nat \<Rightarrow> raw_sample list \<Rightarrow> raw_sample list \<Rightarrow> nat \<Rightarrow> kstate \<Rightarrow> bool" where
  "epochs_ready m d lbs ts vs bs s =
     (k_train_fn s \<and> k_test_fn s \<and> k_model s = Some m \<and> k_device s = Some d \<and>
      k_train_loader s = Some (lbs, ts) \<and> k_test_loader s = Some (lbs, vs) \<and> k_batch_size s = Some bs \<and>
      m < length (k_heap s) \<and> (\<exists>c. k_optimizer s = Some (m, c)))"

section \<open>Lemmas\<close>

lemma lookup_simps [simp]: "lookup None = Inl NameError" "lookup (Some a) = Inr a"
  by (simp_all add: lookup_def)

lemma bound_simps [simp]: "bound True = Inr ()" "bound False = Inl NameError"
  by (simp_all add: bound_def)

lemma emit_simps [simp]:
  "k_heap (emit s x) = k_heap s" "k_model (emit s x) = k_model s" "k_optimizer (emit s x) = k_optimizer s"
  "k_device (emit s x) = k_device s" "k_imported (emit s x) = k_imported s" "k_net_class (emit s x) = k_net_class s"
  "k_batch_size (emit s x) = k_batch_size s" "k_train_loader (emit s x) = k_train_loader s"
  "k_test_loader (emit s x) = k_test_loader s" "k_train_fn (emit s x) = k_train_fn s" "k_test_fn (emit s x) = k_test_fn s"
  "k_epochs (emit s x) = k_epochs s" "k_files (emit s x) = k_files s" "k_out (emit s x) = k_out s @ [x]"
  by (simp_all add: emit_def)

lemma kinv_emit [simp]: "kinv env (emit s x) = kinv env s"
  by (simp add: kinv_def)

lemma simplenet_to_wf: "simplenet_to h net d = Inr net' \<Longrightarrow> wf_simplenet net \<Longrightarrow> wf_simplenet net'"
  by (auto simp: simplenet_to_def linear_to_def tensor_to_def res_bind_def wf_simplenet_def wf_linear_def
           split: sum.splits)

lemma obj_ok_fresh: "wf_simplenet net \<Longrightarrow> obj_ok \<lparr>onet = net, ograds = replicate 4 None\<rparr>"
  by (simp add: obj_ok_def list_all2_conv_all_nth grad_fits_def)

lemma opt_ok_new: "m < length hp \<Longrightarrow> opt_ok hp (m, adadelta_new 4)"
  by (simp add: opt_ok_def state_fits_new)

lemma opt_ok_append: "opt_ok hp rc \<Longrightarrow> opt_ok (hp @ [ob]) rc"
  by (simp add: opt_ok_def nth_append)

lemma train_call_cases:
  "fst (train_call env s) = s \<or>
   (\<exists>m d lbs ds r c bs. k_model s = Some m \<and> k_device s = Some d \<and> k_optimizer s = Some (r, c) \<and>
      k_train_loader s = Some (lbs, ds) \<and> k_batch_size s = Some bs \<and>
      fst (train_call env s) =
        (let res = k_train (e_host env) d bs (e_grad env) m r (k_heap s, c) (data_loader lbs fmnist_transform ds)
         in (emit s (ODevice d))\<lparr>k_heap := fst (fst res), k_optimizer := Some (r, snd (fst res))\<rparr>))"
  by (auto simp: train_call_def raise_or_def lookup_def bound_def Let_def split: option.splits prod.splits)

lemma train_call_inv:
  assumes gs: "grad_shapes (e_grad env)" and inv: "kinv env s"
  shows "kinv env (fst (train_call env s))"
  using train_call_cases [of env s]
proof
  assume "fst (train_call env s) = s"
  then show ?thesis using inv by simp
next
  assume "\<exists>m d lbs ds r c bs. k_model s = Some m \<and> k_device s = Some d \<and> k_optimizer s = Some (r, c) \<and>
      k_train_loader s = Some (lbs, ds) \<and> k_batch_size s = Some bs \<and>
      fst (train_call env s) =
        (let res = k_train (e_host env) d bs (e_grad env) m r (k_heap s, c) (data_loader lbs fmnist_transform ds)
         in (emit s (ODevice d))\<lparr>k_heap := fst (fst res), k_optimizer := Some (r, snd (fst res))\<rparr>)"
  then obtain m d lbs ds r c bs where v: "k_model s = Some m" "k_optimizer s = Some (r, c)"
    and st: "fst (train_call env s) =
        (let res = k_train (e_host env) d bs (e_grad env) m r (k_heap s, c) (data_loader lbs fmnist_transform ds)
         in (emit s (ODevice d))\<lparr>k_heap := fst (fst res), k_optimizer := Some (r, snd (fst res))\<rparr>)"
    by blast
  have "list_all obj_ok (k_heap s)" "opt_ok (k_heap s) (r, c)" "m < length (k_heap s)"
    using inv v by (simp_all add: kinv_def)
  from k_train_ok [OF gs this, of "e_host env" d bs "data_loader lbs fmnist_transform ds"]
  show ?thesis using inv v st by (simp add: kinv_def Let_def emit_def)
qed

lemma test_call_inv:
  assumes inv: "kinv env s"
  shows "kinv env (fst (test_call env s))"
proof (cases "k_test_fn s \<and> k_model s \<noteq> None \<and> k_device s \<noteq> None \<and> k_test_loader s \<noteq> None \<and> k_batch_size s \<noteq> None")
  case True
  then obtain m d lbs ds bs where v: "k_model s = Some m" "k_device s = Some d" "k_test_loader s = Some (lbs, ds)"
    "k_batch_size s = Some bs" "k_test_fn s" by auto
  let ?r = "k_test (e_host env) d bs m (k_heap s) (data_loader lbs fmnist_transform ds) (length ds)"
  have "list_all obj_ok (k_heap s)" "pred_option (opt_ok (k_heap s)) (k_optimizer s)" "m < length (k_heap s)"
    using inv v by (simp_all add: kinv_def)
  from k_test_ok [OF this, of "e_host env" d bs "data_loader lbs fmnist_transform ds" "length ds"]
  have "kinv env (s\<lparr>k_heap := fst ?r\<rparr>)" using inv v by (simp add: kinv_def)
  moreover obtain hp' rr where "?r = (hp', rr)" by (cases ?r)
  ultimately show ?thesis using v by (cases rr) (simp_all add: test_call_def)
next
  case False
  then show ?thesis using inv by (auto simp: test_call_def raise_or_def lookup_def bound_def split: option.splits)
qed

lemma epoch_body_inv: "grad_shapes (e_grad env) \<Longrightarrow> kinv env s \<Longrightarrow> kinv env (fst (epoch_body env s e))"
  using train_call_inv [of env "emit s (OEpoch e)"] test_call_inv
  by (auto simp: epoch_body_def split: prod.splits option.splits)

lemma run_cell_inv:
  assumes gs: "grad_shapes (e_grad env)" and inv: "kinv env s"
  shows "kinv env (fst (run_cell env s c))"
proof (cases c)
  case RunEpochs
  have "kinv env (fst (exc_for (epoch_body env) es s))" for es
    by (rule exc_for_invariant [where P = "kinv env"]) (use epoch_body_inv [OF gs] inv in auto)
  then show ?thesis using RunEpochs inv by (simp add: raise_or_def lookup_def split: option.splits)
next
  case MakeModel
  have "kinv env (s\<lparr>k_rng := Suc (k_rng s), k_heap := k_heap s @ [\<lparr>onet = net', ograds = replicate 4 None\<rparr>],
                     k_model := Some (length (k_heap s))\<rparr>)"
    if "simplenet_to (e_host env) (simplenet_new d1 d2) d = Inr net'" and "k_net_class s" for d1 d2 d net'
    using obj_ok_fresh [OF simplenet_to_wf [OF that(1) wf_simplenet_new]] inv that(2)
    by (auto simp: kinv_def opt_ok_append option.pred_set)
  then show ?thesis using MakeModel inv
    by (auto simp: kinv_def raise_or_def lookup_def bound_def Let_def split: option.splits sum.splits)
qed (use inv in \<open>auto simp: kinv_def opt_ok_new raise_or_def lookup_def bound_def Let_def split: option.splits sum.splits\<close>)

lemma reach_run_all: "reach env s \<Longrightarrow> reach env (fst (run_all env cs s))"
proof (induction cs arbitrary: s)
  case (Cons c cs)
  then show ?case
    using reach.run [OF Cons.prems, of c] by (auto simp: run_all_def split: prod.splits option.splits)
qed (simp add: run_all_def)

text \<open>
  The state a stale optimizer keeps through an epoch: the same \<open>model\<close>, an
  optimizer over the object at \<open>r\<close>, and the parameters of every object.
\<close>

lemma epoch_body_stale:
  assumes "k_model s = Some m" and "k_optimizer s = Some (r, c)" and "r \<noteq> m" and "r < length (k_heap s)"
  shows "k_model (fst (epoch_body env s e)) = Some m \<and> (\<exists>c'. k_optimizer (fst (epoch_body env s e)) = Some (r, c')) \<and>
         map (\<lambda>ob. params (onet ob)) (k_heap (fst (epoch_body env s e))) = map (\<lambda>ob. params (onet ob)) (k_heap s)"
proof -
  let ?s1 = "emit s (OEpoch e)"
  have tr: "k_model (fst (train_call env ?s1)) = Some m \<and> (\<exists>c'. k_optimizer (fst (train_call env ?s1)) = Some (r, c')) \<and>
            map (\<lambda>ob. params (onet ob)) (k_heap (fst (train_call env ?s1))) = map (\<lambda>ob. params (onet ob)) (k_heap s)"
    using train_call_cases [of env ?s1] assms k_train_stale [OF assms(3,4)] by (auto simp: Let_def)
  have "k_model (fst (test_call env s2)) = k_model s2 \<and> k_optimizer (fst (test_call env s2)) = k_optimizer s2 \<and>
        map (\<lambda>ob. params (onet ob)) (k_heap (fst (test_call env s2))) = map (\<lambda>ob. params (onet ob)) (k_heap s2)" for s2
    by (auto simp: test_call_def raise_or_def lookup_def bound_def split: option.splits prod.splits sum.splits;
        metis fst_conv k_test_params)
  with tr show ?thesis by (auto simp: epoch_body_def split: prod.splits option.splits)
qed


lemma run_epochs_cell_stale:
  assumes "k_model s = Some m" and "k_optimizer s = Some (r, c)" and "r \<noteq> m" and "r < length (k_heap s)"
  shows "map (\<lambda>ob. params (onet ob)) (k_heap (fst (run_cell env s RunEpochs))) = map (\<lambda>ob. params (onet ob)) (k_heap s)"
proof -
  let ?P = "\<lambda>s'. k_model s' = Some m \<and> (\<exists>c'. k_optimizer s' = Some (r, c')) \<and>
                 map (\<lambda>ob. params (onet ob)) (k_heap s') = map (\<lambda>ob. params (onet ob)) (k_heap s)"
  have keep: "?P (fst (epoch_body env s' e))" if "?P s'" for s' e
  proof -
    from that obtain c' where v: "k_model s' = Some m" "k_optimizer s' = Some (r, c')"
      and p: "map (\<lambda>ob. params (onet ob)) (k_heap s') = map (\<lambda>ob. params (onet ob)) (k_heap s)" by blast
    have "r < length (k_heap s')" using assms(4) p by (metis length_map)
    from epoch_body_stale [OF v assms(3) this, of env e] p show ?thesis by simp
  qed
  have "?P (fst (exc_for (epoch_body env) es s))" for es
    by (rule exc_for_invariant [where P = ?P]) (use keep assms in auto)
  then show ?thesis by (simp add: raise_or_def lookup_def split: option.splits)
qed

lemma make_model_result:
  "run_cell env s MakeModel = (s', None) \<Longrightarrow>
   k_model s' = Some (length (k_heap s)) \<and> length (k_heap s') = Suc (length (k_heap s)) \<and>
   k_optimizer s' = k_optimizer s"
  by (auto simp: raise_or_def lookup_def bound_def Let_def split: option.splits sum.splits if_splits)

lemma kinv_run_all: "grad_shapes (e_grad env) \<Longrightarrow> kinv env s \<Longrightarrow> kinv env (fst (run_all env cs s))"
proof (induction cs arbitrary: s)
  case (Cons c cs)
  then show ?case
    using run_cell_inv [OF Cons.prems, of c] by (auto simp: run_all_def split: prod.splits option.splits)
qed (simp add: run_all_def)

lemma kinv_kinit: "kinv env (kinit env)"
  by (simp add: kinv_def kinit_def)

text \<open>The two notebooks' \<open>labels_map\<close> dictionaries are the same.\<close>

lemma train_labels_map_eq: "train_labels_map = labels_map"
  by (simp add: train_labels_map_def labels_map_def)

text \<open>The panel drawn for one FashionMNIST sample.\<close>

definition sample_panel :: "raw_sample \<Rightarrow> nat \<Rightarrow> subplot" where
  "sample_panel s pos = \<lparr>sp_pos = pos, sp_title = the (labels_map (snd s)),
                         sp_image = (fmnist_transform (fst s))\<lparr>tshape := [28, 28]\<rparr>\<rparr>"

lemma plot_sample_ok:
  assumes "fmnist_sample (ds ! i)"
  shows "plot_sample ds pos i = Inr (sample_panel (ds ! i) pos)"
proof -
  obtain name where n: "labels_map (snd (ds ! i)) = Some name"
    using labels_map_defined assms by (auto simp: fmnist_sample_def)
  then show ?thesis using assms
    by (simp add: plot_sample_def sample_panel_def dict_get_def numel_def fmnist_transform_shape
                  train_labels_map_eq fmnist_sample_def)
qed

lemma sample_plot_ok:
  assumes "list_all fmnist_sample ds" and "ds \<noteq> []"
  shows "sample_plot_cell pick ds = Inr (map (\<lambda>i. sample_panel (ds ! (pick i mod length ds)) i) [1..<10])"
proof -
  have "fmnist_sample (ds ! (pick i mod length ds))" for i
    using assms by (simp add: list_all_iff)
  then show ?thesis
    using assms(2) by (simp add: sample_plot_cell_def plot_sample_ok res_map_Inr)
qed

section \<open>Properties\<close>

text \<open>
  C24. On a non-empty training set of FashionMNIST samples the sample plot
  cell displays nine panels, at positions 1 to 9 of the 3 by 3 grid: panel
  \<open>i\<close> shows the sample that the \<open>i\<close>-th random draw picks, titled with the
  name \<open>labels_map\<close> gives its label, and its normalised pixels as a
  well-formed 28 by 28 image.
\<close>

theorem sample_figure:
  assumes "list_all fmnist_sample ds" and "ds \<noteq> []"
  shows "\<exists>fig. sample_plot_cell pick ds = Inr fig \<and> map sp_pos fig = [1..<10] \<and>
           (\<forall>p \<in> set fig. labels_map (snd (ds ! (pick (sp_pos p) mod length ds))) = Some (sp_title p) \<and>
              tshape (sp_image p) = [28, 28] \<and> wf_tensor (sp_image p) \<and>
              tdata (sp_image p) = tdata (fmnist_transform (fst (ds ! (pick (sp_pos p) mod length ds)))))"
proof -
  have s: "fmnist_sample (ds ! (pick i mod length ds))" for i
    using assms by (simp add: list_all_iff)
  have t: "labels_map (snd (ds ! (pick i mod length ds))) = Some (the (labels_map (snd (ds ! (pick i mod length ds)))))" for i
    using labels_map_defined s [of i] by (auto simp: fmnist_sample_def)
  have "map sp_pos (map (\<lambda>i. sample_panel (ds ! (pick i mod length ds)) i) [1..<10]) = [1..<10]"
    by (simp add: sample_panel_def comp_def)
  moreover have "length (fst (ds ! (pick i mod length ds))) = 784" for i
    using s [of i] by (simp add: fmnist_sample_def)
  ultimately show ?thesis
    using sample_plot_ok [OF assms, of pick] t
    by (auto simp: sample_panel_def wf_tensor_def fmnist_transform_shape simp del: upt_Suc)
qed

theorem sample_figure_witness:
  "list_all fmnist_sample [(replicate 784 (0 :: u8), 3 :: int)] \<and> [(replicate 784 (0 :: u8), 3 :: int)] \<noteq> [] \<and>
   (\<exists>fig. sample_plot_cell (\<lambda>i. i) [(replicate 784 (0 :: u8), 3 :: int)] = Inr fig \<and> map sp_pos fig = [1..<10] \<and>
      (\<forall>p \<in> set fig. sp_title p = ''Dress'' \<and> tshape (sp_image p) = [28, 28]))"
proof -
  have f: "list_all fmnist_sample [(replicate 784 (0 :: u8), 3 :: int)]" by (simp add: fmnist_sample_def)
  have n: "[(replicate 784 (0 :: u8), 3 :: int)] \<noteq> []" by simp
  show ?thesis
    using sample_figure [OF f n, of "\<lambda>i. i"] f n by (auto simp: labels_map_def)
qed


text \<open>
  C9. Whatever cells the user runs, in whatever order and however often,
  the kernel stays sound: every model object is a well-formed \<open>SimpleNet\<close>
  whose gradient slots fit its parameters, \<open>model\<close> and the optimizer refer
  to objects of the heap, the optimizer's state fits the parameters it holds,
  \<open>model\<close> is bound only once \<open>SimpleNet\<close>, the imports and
  \<open>batch_size = 100\<close> are, the loaders batch by 100 and \<open>device\<close> is the
  device the selection cell picks on the host.
\<close>

theorem reach_kinv:
  assumes "grad_shapes (e_grad env)" and "reach env s"
  shows "kinv env s"
  using assms(2)
proof induction
  case start
  then show ?case by (simp add: kinv_def kinit_def)
next
  case (run s c)
  show ?case using run_cell_inv [OF assms(1) run.IH] .
qed

theorem reach_kinv_witness:
  "let env = \<lparr>e_host = \<lparr>gpu_names = [''Tesla T4'']\<rparr>, e_draw = \<lambda>_. (\<lambda>_. 0, \<lambda>_. 0), e_pick = \<lambda>_ _. 0,
               e_grad = \<lambda>net _ _. map (\<lambda>p. map (\<lambda>_. 0) (tdata p)) (params net), e_trainset = [], e_testset = [],
               e_files = Map.empty\<rparr>;
       s = fst (run_all env [Imports, SetDevice, DefineNet, MakeLoaders, RunEpochs] (kinit env))
   in grad_shapes (e_grad env) \<and> reach env s \<and> kinv env s"
  unfolding Let_def
proof (intro conjI)
  let ?env = "\<lparr>e_host = \<lparr>gpu_names = [''Tesla T4'']\<rparr>, e_draw = \<lambda>_. (\<lambda>_. 0 :: real, \<lambda>_. 0 :: real), e_pick = \<lambda>_ _. 0 :: nat,
               e_grad = \<lambda>net _ _. map (\<lambda>p. map (\<lambda>_. 0 :: real) (tdata p)) (params net), e_trainset = [], e_testset = [],
               e_files = Map.empty\<rparr>"
  let ?s = "fst (run_all ?env [Imports, SetDevice, DefineNet, MakeLoaders, RunEpochs] (kinit ?env))"
  show g: "grad_shapes (e_grad ?env)" by (simp add: grad_shapes_def comp_def)
  show r: "reach ?env ?s" by (intro reach_run_all reach.start)
  show "kinv ?env ?s" using reach_kinv [OF g r] .
qed

text \<open>
  C7. Re-running the model cell after the optimizer cell leaves a stale
  optimizer: \<open>model\<close> is a new object while \<open>optimizer\<close> still holds the
  parameters of the old one. From any sound state with an optimizer, if the
  model cell succeeds, the new \<open>model\<close> is not the object the optimizer
  holds, and running the epochs cell afterwards changes no parameter of any
  model: \<open>zero_grad\<close> empties the old model's slots, \<open>backward\<close> fills the
  new model's, and \<open>step\<close> skips every parameter without a gradient. The
  notebook then reports five epochs of a model that never learns.
\<close>

theorem stale_optimizer_trains_nothing:
  assumes "kinv env s" and "k_optimizer s = Some (r, c)" and "run_cell env s MakeModel = (s', None)"
  shows "k_model s' \<noteq> Some r \<and> k_optimizer s' = Some (r, c) \<and>
         map (\<lambda>ob. params (onet ob)) (k_heap (fst (run_cell env s' RunEpochs))) =
         map (\<lambda>ob. params (onet ob)) (k_heap s')"
proof -
  have r: "r < length (k_heap s)" using assms(1,2) by (simp add: kinv_def opt_ok_def)
  from make_model_result [OF assms(3)]
  have m: "k_model s' = Some (length (k_heap s))" and l: "length (k_heap s') = Suc (length (k_heap s))"
    and o: "k_optimizer s' = Some (r, c)" using assms(2) by simp_all
  have "r \<noteq> length (k_heap s)" "r < length (k_heap s')" using r l by simp_all
  with m o run_epochs_cell_stale [OF m o] show ?thesis by simp
qed

text \<open>
  An instance where the epochs cell does enter the training loop: the
  imports, device, class, model, loaders, \<open>train\<close>, \<open>test\<close> and optimizer
  cells ran on a training set of one full batch, then the model cell was run
  again; every name the epochs cell reads is bound.
\<close>

theorem stale_optimizer_trains_nothing_witness:
  "let env = \<lparr>e_host = \<lparr>gpu_names = []\<rparr>, e_draw = \<lambda>_. (\<lambda>_. 0, \<lambda>_. 0), e_pick = \<lambda>_ _. 0,
               e_grad = \<lambda>net _ _. map (\<lambda>p. map (\<lambda>_. 1) (tdata p)) (params net),
               e_trainset = replicate 100 (replicate 784 0, 3), e_testset = replicate 100 (replicate 784 0, 3),
               e_files = Map.empty\<rparr>;
       s = fst (run_all env [Imports, SetDevice, DefineNet, MakeModel, MakeLoaders, DefineTrain, DefineTest,
                             MakeOptimizer] (kinit env));
       s' = fst (run_cell env s MakeModel)
   in kinv env s \<and> k_optimizer s = Some (0, adadelta_new 4) \<and> run_cell env s MakeModel = (s', None) \<and>
      k_train_fn s' \<and> k_test_fn s' \<and> k_epochs s' = Some 5 \<and> k_device s' = Some cpu_device \<and>
      k_batch_size s' = Some 100 \<and> k_train_loader s' = Some (100, e_trainset env) \<and>
      k_test_loader s' = Some (100, e_testset env) \<and>
      k_model s' \<noteq> Some 0 \<and> k_optimizer s' = Some (0, adadelta_new 4) \<and>
      map (\<lambda>ob. params (onet ob)) (k_heap (fst (run_cell env s' RunEpochs))) =
      map (\<lambda>ob. params (onet ob)) (k_heap s')"
proof -
  let ?env = "\<lparr>e_host = \<lparr>gpu_names = []\<rparr>, e_draw = \<lambda>_. (\<lambda>_. 0 :: real, \<lambda>_. 0 :: real), e_pick = \<lambda>_ _. 0 :: nat,
               e_grad = \<lambda>net _ _. map (\<lambda>p. map (\<lambda>_. 1 :: real) (tdata p)) (params net),
               e_trainset = replicate 100 (replicate 784 (0 :: u8), 3 :: int),
               e_testset = replicate 100 (replicate 784 (0 :: u8), 3 :: int), e_files = Map.empty\<rparr>"
  let ?s = "fst (run_all ?env [Imports, SetDevice, DefineNet, MakeModel, MakeLoaders, DefineTrain, DefineTest,
                               MakeOptimizer] (kinit ?env))"
  let ?s' = "fst (run_cell ?env ?s MakeModel)"
  have k: "kinv ?env ?s"
    by (rule kinv_run_all [OF _ kinv_kinit]) (simp add: grad_shapes_def comp_def)
  have o: "k_optimizer ?s = Some (0, adadelta_new 4)"
    by (simp add: run_all_def kinit_def select_device_value cuda_is_available_def emit_def cpu_device_def Let_def
                  simplenet_to_def linear_to_def tensor_to_def resolve_device_def)
  have m: "run_cell ?env ?s MakeModel = (?s', None)"
    by (simp add: run_all_def kinit_def select_device_value cuda_is_available_def emit_def cpu_device_def Let_def
                  simplenet_to_def linear_to_def tensor_to_def resolve_device_def)
  have b: "k_train_fn ?s' \<and> k_test_fn ?s' \<and> k_epochs ?s' = Some 5 \<and> k_device ?s' = Some cpu_device \<and>
           k_batch_size ?s' = Some 100 \<and> k_train_loader ?s' = Some (100, e_trainset ?env) \<and>
           k_test_loader ?s' = Some (100, e_testset ?env)"
    by (simp add: run_all_def kinit_def select_device_value cuda_is_available_def emit_def cpu_device_def Let_def
                  simplenet_to_def linear_to_def tensor_to_def resolve_device_def)
  note c = stale_optimizer_trains_nothing [OF k o m]
  show ?thesis unfolding Let_def using k o m b c by blast
qed

lemma reports_append [simp]: "reports (xs @ ys) = reports xs @ reports ys"
  by (induction xs rule: reports.induct) simp_all

lemma res_fold_epoch_step:
  "res_fold (epoch_step h d bs gradf trl tel n) es (st, rs0) =
   res_bind (run_epochs h d bs gradf (length es) st trl tel n) (\<lambda>(st', rs). Inr (st', rs0 @ rs))"
proof (induction es arbitrary: st rs0)
  case (Cons e es)
  have "epoch_step h d bs gradf trl tel n (st, rs0) e =
        res_bind (train h d bs gradf st trl) (\<lambda>st1.
        res_bind (test h d bs (tnet st1) tel n) (\<lambda>(net', r). Inr (st1\<lparr>tnet := net'\<rparr>, rs0 @ [r])))"
    by (simp add: epoch_step_def)
  then show ?case by (simp add: Cons.IH res_bind_def split: sum.splits prod.splits)
qed simp

text \<open>
  The epoch loop with the optimizer over the model's own parameters: the
  names it reads are bound, and the abstraction is the training state of
  the model and optimizer together with the reports printed so far.
\<close>

lemma train_call_alias:
  assumes "k_train_fn s" "k_model s = Some m" "k_device s = Some d" "k_train_loader s = Some (lbs, ts)"
    "k_optimizer s = Some (m, c)" "k_batch_size s = Some bs"
  shows "train_call env s =
           (let res = k_train (e_host env) d bs (e_grad env) m m (k_heap s, c) (data_loader lbs fmnist_transform ts)
            in ((emit s (ODevice d))\<lparr>k_heap := fst (fst res), k_optimizer := Some (m, snd (fst res))\<rparr>, snd res))"
  using assms by (simp add: train_call_def)

lemma test_call_alias:
  assumes "k_test_fn s" "k_model s = Some m" "k_device s = Some d" "k_test_loader s = Some (lbs, vs)"
    "k_batch_size s = Some bs"
  shows "test_call env s =
           (case k_test (e_host env) d bs m (k_heap s) (data_loader lbs fmnist_transform vs) (length vs) of
              (hp', Inl e) \<Rightarrow> (s\<lparr>k_heap := hp'\<rparr>, Some e)
            | (hp', Inr rep) \<Rightarrow> (emit (s\<lparr>k_heap := hp'\<rparr>) (OReport rep), None))"
  using assms by (simp add: test_call_def)

text \<open>The \<open>test\<close> call of an epoch, from a state ready for the loop.\<close>

lemma test_call_step:
  assumes ready: "epochs_ready m d lbs ts vs bs s"
  shows "exc_res (apfst (\<lambda>s. (heap_view m (k_heap s, snd (the (k_optimizer s))), reports (k_out s))) (test_call env s)) =
           res_bind (test (e_host env) d bs (onet (k_heap s ! m)) (data_loader lbs fmnist_transform vs) (length vs))
             (\<lambda>(net', r). Inr ((heap_view m (k_heap s, snd (the (k_optimizer s))))\<lparr>tnet := net'\<rparr>, reports (k_out s) @ [r])) \<and>
         epochs_ready m d lbs ts vs bs (fst (test_call env s)) \<and>
         k_files (fst (test_call env s)) = k_files s \<and> k_imported (fst (test_call env s)) = k_imported s"
proof -
  have v: "k_test_fn s" "k_model s = Some m" "k_device s = Some d" "k_test_loader s = Some (lbs, vs)"
    "k_batch_size s = Some bs" "m < length (k_heap s)"
    using ready by (simp_all add: epochs_ready_def)
  note tc = test_call_alias [OF v(1-5), of env]
  show ?thesis
  proof (cases "test (e_host env) d bs (onet (k_heap s ! m)) (data_loader lbs fmnist_transform vs) (length vs)")
    case (Inl err)
    then show ?thesis using tc ready by (simp add: k_test_def epochs_ready_def)
  next
    case (Inr nr)
    then obtain net' r
      where t: "test (e_host env) d bs (onet (k_heap s ! m)) (data_loader lbs fmnist_transform vs) (length vs) = Inr (net', r)"
      by (cases nr) auto
    then have "net' = simplenet_eval (onet (k_heap s ! m))" by (rule test_returns_eval)
    then show ?thesis using tc ready t v(6) by (simp add: k_test_def heap_view_def epochs_ready_def)
  qed
qed

lemma epoch_body_alias:
  assumes ready: "epochs_ready m d lbs ts vs bs s"
  shows "exc_res (apfst (\<lambda>s. (heap_view m (k_heap s, snd (the (k_optimizer s))), reports (k_out s))) (epoch_body env s e)) =
           epoch_step (e_host env) d bs (e_grad env) (data_loader lbs fmnist_transform ts)
             (data_loader lbs fmnist_transform vs) (length vs)
             (heap_view m (k_heap s, snd (the (k_optimizer s))), reports (k_out s)) e \<and>
         epochs_ready m d lbs ts vs bs (fst (epoch_body env s e)) \<and>
         k_files (fst (epoch_body env s e)) = k_files s \<and> k_imported (fst (epoch_body env s e)) = k_imported s"
proof -
  obtain c where o: "k_optimizer s = Some (m, c)" using ready by (auto simp: epochs_ready_def)
  have v: "k_train_fn s" "k_model s = Some m" "k_device s = Some d" "k_train_loader s = Some (lbs, ts)"
    "k_batch_size s = Some bs" "m < length (k_heap s)"
    using ready by (simp_all add: epochs_ready_def)
  let ?trl = "data_loader lbs fmnist_transform ts"
  obtain hc eo where res: "k_train (e_host env) d bs (e_grad env) m m (k_heap s, c) ?trl = (hc, eo)"
    by (cases "k_train (e_host env) d bs (e_grad env) m m (k_heap s, c) ?trl")
  from k_train_alias [OF v(6), of "e_host env" d bs "e_grad env" c ?trl] res
  have tr: "train (e_host env) d bs (e_grad env) (heap_view m (k_heap s, c)) ?trl = exc_res (heap_view m hc, eo)"
    and l: "length (fst hc) = length (k_heap s)" by simp_all
  let ?s2 = "(emit (emit s (OEpoch e)) (ODevice d))\<lparr>k_heap := fst hc, k_optimizer := Some (m, snd hc)\<rparr>"
  have tc: "train_call env (emit s (OEpoch e)) = (?s2, eo)"
    using train_call_alias [of "emit s (OEpoch e)" m d lbs ts c bs env] v o res by (simp add: Let_def)
  have r2: "epochs_ready m d lbs ts vs bs ?s2" using ready l by (simp add: epochs_ready_def)
  show ?thesis
  proof (cases eo)
    case (Some err)
    then show ?thesis using tc tr r2 o by (simp add: epoch_body_def epoch_step_def)
  next
    case None
    then show ?thesis using tc tr o test_call_step [OF r2, of env]
      by (simp add: epoch_body_def epoch_step_def heap_view_def)
  qed
qed

lemma run_epochs_cell_alias:
  assumes "epochs_ready m d lbs ts vs bs s" and "k_epochs s = Some k"
  shows "exc_res (apfst (\<lambda>s. (heap_view m (k_heap s, snd (the (k_optimizer s))), reports (k_out s))) (run_cell env s RunEpochs)) =
           res_bind (run_epochs (e_host env) d bs (e_grad env) k (heap_view m (k_heap s, snd (the (k_optimizer s))))
                       (data_loader lbs fmnist_transform ts) (data_loader lbs fmnist_transform vs) (length vs))
             (\<lambda>(st', rs). Inr (st', reports (k_out s) @ rs)) \<and>
         epochs_ready m d lbs ts vs bs (fst (run_cell env s RunEpochs)) \<and>
         k_files (fst (run_cell env s RunEpochs)) = k_files s \<and> k_imported (fst (run_cell env s RunEpochs)) = k_imported s"
proof -
  let ?\<pi> = "\<lambda>s. (heap_view m (k_heap s, snd (the (k_optimizer s))), reports (k_out s))"
  let ?P = "\<lambda>s'. epochs_ready m d lbs ts vs bs s' \<and> k_files s' = k_files s \<and> k_imported s' = k_imported s"
  have "exc_res (apfst ?\<pi> (exc_for (epoch_body env) [1..<k + 1] s)) =
          res_fold (epoch_step (e_host env) d bs (e_grad env) (data_loader lbs fmnist_transform ts)
                      (data_loader lbs fmnist_transform vs) (length vs)) [1..<k + 1] (?\<pi> s) \<and>
        ?P (fst (exc_for (epoch_body env) [1..<k + 1] s))"
    by (rule exc_for_sim) (use epoch_body_alias assms(1) in auto)
  moreover have "length [1..<k + 1] = k" by simp
  ultimately show ?thesis using assms(2) by (simp add: res_fold_epoch_step del: upt_Suc)
qed

end
