(* ===== verification/TestKernel.thy ===== *)
theory TestKernel
  imports Kernel
begin

text \<open>
  \<open>torch-test-model.ipynb\<close> as a Jupyter kernel runs it, in the manner of
  theory \<open>Kernel\<close>: the globals the cells bind, one equation of
  \<open>run_tcell\<close> per code cell with its \<open>NameError\<close>s and the effects it
  keeps when it raises, \<open>trun_all\<close> for a sequence of cell runs, and the
  states \<open>treach\<close> that running cells in any order reaches, with their
  invariant \<open>tkinv\<close>. The
  environment is the \<open>env\<close> of theory \<open>Kernel\<close> (host, random draws, test
  set, files on disk). The model cell binds \<open>model\<close> before it loads the
  checkpoint, so a missing or bad checkpoint leaves a bound model that was
  never trained; \<open>load_state_dict\<close> copies the parameters it can before it
  raises (\<open>load_effect\<close>), and on success leaves the module it returns
  (the same module, by \<open>load_state_dict_effect\<close>).
\<close>

section \<open>Kernel state\<close>

datatype tcell_output =
    TODevice device            \<comment> \<open>\<open>print(device)\<close>\<close>
  | TOLoaded                   \<comment> \<open>\<open><All keys matched successfully>\<close>, the value of \<open>load_state_dict\<close>\<close>
  | TOModule                   \<comment> \<open>the module that \<open>model.eval()\<close> returns, displayed\<close>
  | TOShape "nat list"         \<comment> \<open>\<open>print("image shape is", image.shape)\<close>\<close>
  | TOPrediction prediction    \<comment> \<open>the two lines printed for one prediction\<close>

record tstate =
  t_imported :: bool
  t_device :: "device option"
  t_batch_size :: "nat option"
  t_net_class :: bool
  t_model :: "simplenet option"
  t_testset :: "raw_sample list option"
  t_loader :: "(nat \<times> raw_sample list) option"
  t_iter :: "(rtensor \<times> int tensor) list option"
  t_labels :: bool
  t_get_probs :: bool
  t_rng :: nat
  t_out :: "tcell_output list"

definition tkinit :: tstate where
  "tkinit =
     \<lparr>t_imported = False, t_device = None, t_batch_size = None, t_net_class = False, t_model = None,
      t_testset = None, t_loader = None, t_iter = None, t_labels = False, t_get_probs = False,
      t_rng = 0, t_out = []\<rparr>"

definition temit :: "tstate \<Rightarrow> tcell_output \<Rightarrow> tstate" where
  "temit s x = s\<lparr>t_out := t_out s @ [x]\<rparr>"

section \<open>Cells\<close>

datatype tcell =
    TImports | TSetDevice | TDefineNet | TLoadModel | TEvalModel | TMakeLoader | TDefineGetProbs | TPredict

text \<open>
  The model cell \<open>model = SimpleNet().to(device)\<close>, then
  \<open>model.load_state_dict(torch.load("mnist_fashion_SimpleNet.pt"))\<close>:
  \<open>model\<close> is bound before the file is read. The prediction cell advances
  the iterator first and prints the image shape before it calls
  \<open>get_probs\<close>; \<open>labels_map\<close> and \<open>batch_size\<close>, which it reads later, are
  bound whenever the iterator and \<open>model\<close> are (by \<open>tkinv\<close>), so they are
  read at the start. \<open>get_probs\<close> moves the model in place; it is already on
  \<open>device\<close> in every reachable state, so a later exception leaves it as it
  was.
\<close>

fun run_tcell :: "env \<Rightarrow> tstate \<Rightarrow> tcell \<Rightarrow> tstate exc" where
  "run_tcell env s TImports = (s\<lparr>t_imported := True\<rparr>, None)"
| "run_tcell env s TSetDevice =
     raise_or (bound (t_imported s)) s (\<lambda>_.
     raise_or (select_device (e_host env)) s (\<lambda>d. (temit (s\<lparr>t_device := Some d\<rparr>) (TODevice d), None)))"
| "run_tcell env s TDefineNet =
     (let s1 = s\<lparr>t_batch_size := Some 1\<rparr> in
      raise_or (bound (t_imported s1)) s1 (\<lambda>_. (s1\<lparr>t_net_class := True\<rparr>, None)))"
| "run_tcell env s TLoadModel =
     raise_or (bound (t_net_class s)) s (\<lambda>_.
     (let s1 = s\<lparr>t_rng := Suc (t_rng s)\<rparr>;
          net0 = simplenet_new (fst (e_draw env (t_rng s))) (snd (e_draw env (t_rng s)))
      in raise_or (lookup (t_device s1)) s1 (\<lambda>d.
         raise_or (simplenet_to (e_host env) net0 d) s1 (\<lambda>net.
         (let s2 = s1\<lparr>t_model := Some net\<rparr> in
          raise_or (torch_load (e_host env) (e_files env) ''mnist_fashion_SimpleNet.pt'') s2 (\<lambda>sd.
          raise_or (load_state_dict net sd) (s2\<lparr>t_model := Some (load_effect net sd)\<rparr>) (\<lambda>net'.
            (temit (s2\<lparr>t_model := Some net'\<rparr>) TOLoaded, None))))))))"
| "run_tcell env s TEvalModel =
     raise_or (lookup (t_model s)) s (\<lambda>net. (temit (s\<lparr>t_model := Some (simplenet_eval net)\<rparr>) TOModule, None))"
| "run_tcell env s TMakeLoader =
     raise_or (bound (t_imported s)) s (\<lambda>_.
     (let s1 = s\<lparr>t_testset := Some (e_testset env)\<rparr> in
      raise_or (lookup (t_batch_size s1)) s1 (\<lambda>bs.
        (s1\<lparr>t_loader := Some (bs, e_testset env), t_iter := Some (data_loader bs fmnist_transform (e_testset env)),
            t_labels := True\<rparr>, None))))"
| "run_tcell env s TDefineGetProbs = (s\<lparr>t_get_probs := True\<rparr>, None)"
| "run_tcell env s TPredict =
     raise_or (lookup (t_iter s)) s (\<lambda>it.
     raise_or (loader_next it) s (\<lambda>(b, it').
     (let s1 = temit (s\<lparr>t_iter := Some it'\<rparr>) (TOShape (tshape (tensor_squeeze0 (fst b)))) in
      raise_or (bound (t_get_probs s1)) s1 (\<lambda>_.
      raise_or (lookup (t_model s1)) s1 (\<lambda>net.
      raise_or (lookup (t_device s1)) s1 (\<lambda>d.
      raise_or (bound (t_labels s1)) s1 (\<lambda>_.
      raise_or (predict_batch (e_host env) d net b) s1 (\<lambda>(p, net').
        (temit (s1\<lparr>t_model := Some net'\<rparr>) (TOPrediction p), None)))))))))"

definition trun_all :: "env \<Rightarrow> tcell list \<Rightarrow> tstate \<Rightarrow> tstate exc" where
  "trun_all env cs s = exc_for (run_tcell env) cs s"

definition test_cells :: "tcell list" where
  "test_cells = [TImports, TSetDevice, TDefineNet, TLoadModel, TEvalModel, TMakeLoader, TDefineGetProbs]"

text \<open>The predictions printed so far, and what the notebook-level model returns.\<close>

fun predictions :: "tcell_output list \<Rightarrow> prediction list" where
  "predictions [] = []"
| "predictions (TOPrediction p # os) = p # predictions os"
| "predictions (_ # os) = predictions os"

definition tkernel_result :: "tstate \<Rightarrow> (simplenet \<times> prediction list \<times> (rtensor \<times> int tensor) list) res" where
  "tkernel_result s =
     res_bind (lookup (t_model s)) (\<lambda>m. res_bind (lookup (t_iter s)) (\<lambda>it. Inr (m, predictions (t_out s), it)))"

section \<open>Reachable states\<close>

text \<open>The states some sequence of cell runs reaches from a fresh kernel.\<close>

inductive treach :: "env \<Rightarrow> tstate \<Rightarrow> bool" for env where
  start: "treach env tkinit"
| run: "treach env s \<Longrightarrow> treach env (fst (run_tcell env s c))"

text \<open>
  What every reachable state satisfies: a bound \<open>model\<close> means
  \<open>SimpleNet\<close> is bound, which means the imports ran and \<open>batch_size\<close> is
  bound; \<open>batch_size\<close> is 1 and the loader batches by 1; a bound iterator
  means \<open>labels_map\<close> and the loader are bound; \<open>device\<close> is what the
  selection cell picks on the host; and \<open>model\<close> is well formed and resident
  on the device \<open>device\<close> resolves to.
\<close>

definition tkinv :: "env \<Rightarrow> tstate \<Rightarrow> bool" where
  "tkinv env s =
     ((t_model s = None \<or> t_net_class s) \<and>
      (\<not> t_net_class s \<or> t_imported s \<and> t_batch_size s \<noteq> None) \<and>
      pred_option (\<lambda>b. b = 1) (t_batch_size s) \<and>
      pred_option (\<lambda>l. fst l = 1) (t_loader s) \<and>
      (t_iter s = None \<or> t_labels s \<and> t_loader s \<noteq> None) \<and>
      pred_option (\<lambda>d. select_device (e_host env) = Inr d) (t_device s) \<and>
      pred_option (\<lambda>m. wf_simplenet m \<and>
                       (\<exists>d. t_device s = Some d \<and> resolve_device (e_host env) d = Inr (net_device m))) (t_model s))"

section \<open>Lemmas\<close>

lemma predictions_append [simp]: "predictions (xs @ ys) = predictions xs @ predictions ys"
  by (induction xs rule: predictions.induct) simp_all

lemma temit_simps [simp]:
  "t_model (temit s x) = t_model s" "t_iter (temit s x) = t_iter s" "t_device (temit s x) = t_device s"
  "t_get_probs (temit s x) = t_get_probs s" "t_labels (temit s x) = t_labels s" "t_out (temit s x) = t_out s @ [x]"
  by (simp_all add: temit_def)

text \<open>The prediction cell run \<open>k\<close> times from a state where the names it reads are bound.\<close>

lemma tpredict_runs:
  assumes "t_iter s = Some it" "t_model s = Some net" "t_device s = Some d" "t_get_probs s" "t_labels s"
  shows "res_bind (exc_res (trun_all env (replicate k TPredict) s)) tkernel_result =
           res_bind (run_cells (e_host env) d k net it) (\<lambda>(ps, m, it'). Inr (m, predictions (t_out s) @ ps, it'))"
  using assms
proof (induction k arbitrary: s net it)
  case 0
  then show ?case by (simp add: trun_all_def tkernel_result_def)
next
  case (Suc k)
  show ?case
  proof (cases "loader_next it")
    case (Inl e)
    then show ?thesis using Suc.prems by (simp add: trun_all_def predict_cell_def)
  next
    case (Inr bi)
    then obtain b it' where n: "loader_next it = Inr (b, it')" by (cases bi) auto
    let ?s1 = "temit (s\<lparr>t_iter := Some it'\<rparr>) (TOShape (tshape (tensor_squeeze0 (fst b))))"
    show ?thesis
    proof (cases "predict_batch (e_host env) d net b")
      case (Inl e)
      then show ?thesis using Suc.prems n by (simp add: trun_all_def predict_cell_def)
    next
      case (Inr pn)
      then obtain p net' where pb: "predict_batch (e_host env) d net b = Inr (p, net')" by (cases pn) auto
      let ?s2 = "temit (?s1\<lparr>t_model := Some net'\<rparr>) (TOPrediction p)"
      have "res_bind (exc_res (trun_all env (replicate k TPredict) ?s2)) tkernel_result =
              res_bind (run_cells (e_host env) d k net' it') (\<lambda>(ps, m, it''). Inr (m, predictions (t_out ?s2) @ ps, it''))"
        by (rule Suc.IH) (use Suc.prems in simp_all)
      then show ?thesis using Suc.prems n pb
        by (simp add: trun_all_def predict_cell_def res_bind_def split: sum.splits prod.splits)
    qed
  qed
qed

lemma tpredict_runs_bound:
  assumes "t_iter s \<noteq> None" "t_model s \<noteq> None" "t_device s \<noteq> None" "t_get_probs s" "t_labels s"
  shows "res_bind (exc_res (trun_all env (replicate k TPredict) s)) tkernel_result =
           res_bind (run_cells (e_host env) (the (t_device s)) k (the (t_model s)) (the (t_iter s)))
             (\<lambda>(ps, m, it'). Inr (m, predictions (t_out s) @ ps, it'))"
  using assms tpredict_runs [of s "the (t_iter s)" "the (t_model s)" "the (t_device s)"] by auto

lemma tkernel_chain:
  "res_bind (exc_res (trun_all env (test_cells @ replicate k TPredict) tkinit)) tkernel_result =
   res_bind (select_device (e_host env)) (\<lambda>d.
   res_bind (simplenet_to (e_host env) (simplenet_new (fst (e_draw env 0)) (snd (e_draw env 0))) d) (\<lambda>net.
   res_bind (torch_load (e_host env) (e_files env) ''mnist_fashion_SimpleNet.pt'') (\<lambda>sd.
   res_bind (load_state_dict net sd) (\<lambda>net'.
   res_bind (run_cells (e_host env) d k (simplenet_eval net') (data_loader 1 fmnist_transform (e_testset env)))
     (\<lambda>(ps, m, it). Inr (m, ps, it))))))"
  unfolding trun_all_def exc_for_append
  by (auto simp: test_cells_def tkinit_def select_device_value Let_def temit_def raise_or_def
           trun_all_def [symmetric] tpredict_runs_bound split: sum.splits)

lemma tkernel_chain_no_eval:
  "res_bind (exc_res (trun_all env (remove1 TEvalModel test_cells @ replicate k TPredict) tkinit)) tkernel_result =
   res_bind (select_device (e_host env)) (\<lambda>d.
   res_bind (simplenet_to (e_host env) (simplenet_new (fst (e_draw env 0)) (snd (e_draw env 0))) d) (\<lambda>net.
   res_bind (torch_load (e_host env) (e_files env) ''mnist_fashion_SimpleNet.pt'') (\<lambda>sd.
   res_bind (load_state_dict net sd) (\<lambda>net'.
   res_bind (run_cells (e_host env) d k net' (data_loader 1 fmnist_transform (e_testset env)))
     (\<lambda>(ps, m, it). Inr (m, ps, it))))))"
  unfolding trun_all_def exc_for_append
  by (auto simp: test_cells_def tkinit_def select_device_value Let_def temit_def raise_or_def
           trun_all_def [symmetric] tpredict_runs_bound split: sum.splits)

lemma selected_model_moves:
  "\<exists>d net. select_device (e_host env) = Inr d \<and> simplenet_to (e_host env) net0 d = Inr net"
  using cuda_is_available_count [of "e_host env"]
  by (auto simp: select_device_value simplenet_to_def linear_to_def tensor_to_def resolve_device_def cuda_device_def cpu_device_def)

lemma tkinv_temit [simp]: "tkinv env (temit s x) = tkinv env s"
  by (simp add: tkinv_def temit_def)

text \<open>The model cell keeps the invariant on each of its five exits.\<close>

lemma load_model_tkinv:
  assumes fw: "files_wf (e_files env)" and inv: "tkinv env s"
  shows "tkinv env (fst (run_tcell env s TLoadModel))"
proof (cases "t_net_class s \<and> t_device s \<noteq> None")
  case False
  then show ?thesis using inv by (cases "t_net_class s") (auto simp: tkinv_def Let_def)
next
  case True
  then obtain d where nc: "t_net_class s" and d: "t_device s = Some d" by auto
  let ?net0 = "simplenet_new (fst (e_draw env (t_rng s))) (snd (e_draw env (t_rng s)))"
  show ?thesis
  proof (cases "simplenet_to (e_host env) ?net0 d")
    case (Inl e)
    then show ?thesis using inv nc d by (simp add: tkinv_def Let_def)
  next
    case to: (Inr net)
    have w: "wf_simplenet net" using simplenet_to_wf [OF to wf_simplenet_new] .
    have ok: "tkinv env (s\<lparr>t_rng := Suc (t_rng s), t_model := Some m\<rparr>)"
      if "wf_simplenet m" "net_device m = net_device net" for m
      using inv nc d simplenet_to_device [OF to] that by (auto simp: tkinv_def)
    show ?thesis
    proof (cases "torch_load (e_host env) (e_files env) ''mnist_fashion_SimpleNet.pt''")
      case (Inl e)
      then show ?thesis using nc d to ok [OF w refl] by (simp add: Let_def)
    next
      case ld: (Inr sd)
      have lw: "wf_simplenet (load_effect net sd)" using load_effect_wf [OF w torch_load_wf [OF ld fw]] .
      show ?thesis
      proof (cases "load_state_dict net sd")
        case (Inl e)
        then show ?thesis using nc d to ld ok [OF lw] by (simp add: Let_def)
      next
        case (Inr net')
        then show ?thesis using nc d to ld ok [OF lw] load_state_dict_effect [OF Inr] by (simp add: Let_def)
      qed
    qed
  qed
qed

lemma run_tcell_tkinv:
  assumes fw: "files_wf (e_files env)" and inv: "tkinv env s"
  shows "tkinv env (fst (run_tcell env s c))"
proof (cases c)
  case TLoadModel
  then show ?thesis using load_model_tkinv [OF fw inv] by simp
next
  case TPredict
  have keep: "net' = net"
    if "predict_batch (e_host env) d net b = Inr (p, net')" "t_model s = Some net" "t_device s = Some d" for d net b p net'
    using inv that predict_batch_keeps_model [OF that(1)] by (auto simp: tkinv_def)
  show ?thesis using inv TPredict
    by (auto simp: tkinv_def temit_def raise_or_def Let_def lookup_def bound_def
             split: option.splits sum.splits prod.splits dest: keep)
qed (use inv in \<open>auto simp: tkinv_def temit_def raise_or_def Let_def lookup_def bound_def option.pred_set
                   split: option.splits sum.splits\<close>)

lemma treach_trun_all: "treach env s \<Longrightarrow> treach env (fst (trun_all env cs s))"
proof (induction cs arbitrary: s)
  case (Cons c cs)
  then show ?case
    using treach.run [OF Cons.prems, of c] by (auto simp: trun_all_def split: prod.splits option.splits)
qed (simp add: trun_all_def)

section \<open>Properties\<close>

text \<open>
  C8. If the checkpoint cannot be loaded (the file is missing, or it holds
  CUDA tensors and the host has no GPU), \<open>Run All\<close> stops at the model
  cell with the exception \<open>torch.load\<close> raises, but \<open>model\<close> is already
  bound to the freshly initialised network. Running the remaining cells by
  hand then raises nothing new: every prediction the notebook prints comes
  from the untrained model, as if no checkpoint had been meant to be loaded.
\<close>

theorem failed_load_predicts_untrained:
  assumes "torch_load (e_host env) (e_files env) ''mnist_fashion_SimpleNet.pt'' = Inl e"
  shows "snd (trun_all env test_cells tkinit) = Some e \<and>
         res_bind (exc_res (trun_all env ([TEvalModel, TMakeLoader, TDefineGetProbs] @ replicate k TPredict)
                                        (fst (trun_all env test_cells tkinit)))) tkernel_result =
         res_bind (select_device (e_host env)) (\<lambda>d.
         res_bind (simplenet_to (e_host env) (simplenet_new (fst (e_draw env 0)) (snd (e_draw env 0))) d) (\<lambda>net.
         res_bind (run_cells (e_host env) d k (simplenet_eval net) (data_loader 1 fmnist_transform (e_testset env)))
           (\<lambda>(ps, m, it). Inr (m, ps, it))))"
proof -
  obtain d net where d: "select_device (e_host env) = Inr d"
    and n: "simplenet_to (e_host env) (simplenet_new (fst (e_draw env 0)) (snd (e_draw env 0))) d = Inr net"
    using selected_model_moves by blast
  show ?thesis
    unfolding trun_all_def exc_for_append
    using assms d n
    by (simp add: test_cells_def tkinit_def Let_def temit_def raise_or_def
                  trun_all_def [symmetric] tpredict_runs_bound)
qed

text \<open>
  An instance: a checkpoint saved on \<open>cuda:0\<close>, read on a host without a
  GPU.
\<close>

theorem failed_load_predicts_untrained_witness:
  "let env = \<lparr>e_host = \<lparr>gpu_names = []\<rparr>, e_draw = \<lambda>_. (\<lambda>_. 0, \<lambda>_. 0), e_pick = \<lambda>_ _. 0,
               e_grad = \<lambda>_ _ _. [], e_trainset = [], e_testset = [],
               e_files = [''mnist_fashion_SimpleNet.pt'' \<mapsto>
                            [(''fc1.weight'', \<lparr>tdata = [], tshape = [0], tdevice = cuda_device 0\<rparr>)]]\<rparr>
   in torch_load (e_host env) (e_files env) ''mnist_fashion_SimpleNet.pt'' = Inl NoCuda \<and>
      snd (trun_all env test_cells tkinit) = Some NoCuda \<and>
      res_bind (exc_res (trun_all env ([TEvalModel, TMakeLoader, TDefineGetProbs] @ replicate 2 TPredict)
                                     (fst (trun_all env test_cells tkinit)))) tkernel_result =
      res_bind (select_device (e_host env)) (\<lambda>d.
      res_bind (simplenet_to (e_host env) (simplenet_new (fst (e_draw env 0)) (snd (e_draw env 0))) d) (\<lambda>net.
      res_bind (run_cells (e_host env) d 2 (simplenet_eval net) (data_loader 1 fmnist_transform (e_testset env)))
        (\<lambda>(ps, m, it). Inr (m, ps, it))))"
  unfolding Let_def
proof (rule conjI)
  let ?env = "\<lparr>e_host = \<lparr>gpu_names = []\<rparr>, e_draw = \<lambda>_. (\<lambda>_. 0 :: real, \<lambda>_. 0 :: real), e_pick = \<lambda>_ _. 0 :: nat,
               e_grad = (\<lambda>_ _ _. []) :: grad_fn, e_trainset = [], e_testset = [],
               e_files = [''mnist_fashion_SimpleNet.pt'' \<mapsto>
                            [(''fc1.weight'', \<lparr>tdata = [], tshape = [0], tdevice = cuda_device 0\<rparr>)]]\<rparr>"
  show h: "torch_load (e_host ?env) (e_files ?env) ''mnist_fashion_SimpleNet.pt'' = Inl NoCuda"
    by (simp add: torch_load_def restore_tensor_def resolve_device_def cuda_device_def cuda_is_available_def
                  cuda_device_count_def)
  show "snd (trun_all ?env test_cells tkinit) = Some NoCuda \<and>
      res_bind (exc_res (trun_all ?env ([TEvalModel, TMakeLoader, TDefineGetProbs] @ replicate 2 TPredict)
                                     (fst (trun_all ?env test_cells tkinit)))) tkernel_result =
      res_bind (select_device (e_host ?env)) (\<lambda>d.
      res_bind (simplenet_to (e_host ?env) (simplenet_new (fst (e_draw ?env 0)) (snd (e_draw ?env 0))) d) (\<lambda>net.
      res_bind (run_cells (e_host ?env) d 2 (simplenet_eval net) (data_loader 1 fmnist_transform (e_testset ?env)))
        (\<lambda>(ps, m, it). Inr (m, ps, it))))"
    using failed_load_predicts_untrained [OF h, of 2] .
qed

text \<open>
  C22. The \<open>model.eval()\<close> cell changes no prediction: running the cells
  in order without it prints the same predictions, leaves the same iterator
  and raises the same exceptions, because \<open>SimpleNet\<close> has no layer whose
  behaviour depends on the mode.
\<close>

theorem eval_cell_changes_no_prediction:
  "res_bind (res_bind (exc_res (trun_all env (remove1 TEvalModel test_cells @ replicate k TPredict) tkinit)) tkernel_result)
     (\<lambda>(m, ps, it). Inr (ps, it)) =
   res_bind (res_bind (exc_res (trun_all env (test_cells @ replicate k TPredict) tkinit)) tkernel_result)
     (\<lambda>(m, ps, it). Inr (ps, it))"
  unfolding tkernel_chain tkernel_chain_no_eval
  by (simp add: simplenet_eval_def run_cells_mode_ignoring)

text \<open>
  C10. Whatever cells of \<open>torch-test-model.ipynb\<close> the user runs, in
  whatever order and however often, as long as the files on disk hold
  well-formed tensors: \<open>model\<close> is bound only after \<open>SimpleNet\<close>, the
  imports and \<open>batch_size\<close>, which is 1; the loader batches by 1; the
  iterator is bound only with \<open>labels_map\<close>; \<open>device\<close> is what the
  selection cell picks; and \<open>model\<close> is well formed and resident on that
  device, so the \<open>model.to(device)\<close> of \<open>get_probs\<close> never moves it.
\<close>

theorem treach_tkinv:
  assumes "files_wf (e_files env)" and "treach env s"
  shows "tkinv env s"
  using assms(2)
proof induction
  case start
  then show ?case by (simp add: tkinv_def tkinit_def)
next
  case (run s c)
  show ?case using run_tcell_tkinv [OF assms(1) run.IH] .
qed

theorem treach_tkinv_witness:
  "let env = \<lparr>e_host = \<lparr>gpu_names = [''Tesla T4'']\<rparr>, e_draw = \<lambda>_. (\<lambda>_. 0, \<lambda>_. 0), e_pick = \<lambda>_ _. 0,
               e_grad = \<lambda>_ _ _. [], e_trainset = [], e_testset = [], e_files = Map.empty\<rparr>;
       s = fst (trun_all env (test_cells @ [TPredict, TLoadModel]) tkinit)
   in files_wf (e_files env) \<and> treach env s \<and> tkinv env s"
  unfolding Let_def
proof (intro conjI)
  let ?env = "\<lparr>e_host = \<lparr>gpu_names = [''Tesla T4'']\<rparr>, e_draw = \<lambda>_. (\<lambda>_. 0 :: real, \<lambda>_. 0 :: real),
               e_pick = \<lambda>_ _. 0 :: nat, e_grad = (\<lambda>_ _ _. []) :: grad_fn, e_trainset = [], e_testset = [],
               e_files = Map.empty\<rparr>"
  let ?s = "fst (trun_all ?env (test_cells @ [TPredict, TLoadModel]) tkinit)"
  show f: "files_wf (e_files ?env)" by (simp add: files_wf_def)
  show r: "treach ?env ?s" by (intro treach_trun_all treach.start)
  show "tkinv ?env ?s" using treach_tkinv [OF f r] .
qed

end
