(* ===== verification/TF.thy ===== *)
theory TF
  imports Tensor
begin

text \<open>
  The notebook \<open>tf-use-gpu.ipynb\<close>: counting the GPUs TensorFlow sees,
  creating constant tensors, \<open>tf.math.add\<close> (with TensorFlow's
  broadcasting) and \<open>tf.matmul\<close>, and where each operation runs. Without a
  device scope TensorFlow places an operation on the first GPU when there is
  one and on the CPU otherwise; inside \<open>with tf.device(...)\<close> it uses the
  named device, falling back to the CPU when the device does not exist (soft
  placement, on by default in eager mode). Values are real numbers standing
  for float32.
\<close>

section \<open>Devices\<close>

text \<open>\<open>tf.config.list_physical_devices('GPU')\<close>: one entry per GPU of the host.\<close>

definition tf_list_gpus :: "host \<Rightarrow> string list" where
  "tf_list_gpus h = map (\<lambda>i. ''/physical_device:GPU:'' @ string_of_nat i) [0..<cuda_device_count h]"

text \<open>The device strings \<open>'/CPU:0'\<close> and \<open>'/GPU:i'\<close> of \<open>tf.device\<close>.\<close>

definition tf_parse_device :: "string \<Rightarrow> device res" where
  "tf_parse_device s =
     (if s = ''/CPU:0'' then Inr cpu_device
      else if take 5 s = ''/GPU:'' then
        (case nat_of_string (drop 5 s) of Some i \<Rightarrow> Inr (cuda_device i) | None \<Rightarrow> Inl InvalidDeviceString)
      else Inl InvalidDeviceString)"

definition tf_default_device :: "host \<Rightarrow> device" where
  "tf_default_device h = (if 0 < cuda_device_count h then cuda_device 0 else cpu_device)"

text \<open>The device an operation runs on, given the enclosing \<open>tf.device\<close> scope if any.\<close>

definition tf_place :: "host \<Rightarrow> device option \<Rightarrow> device" where
  "tf_place h scope =
     (case scope of
        None \<Rightarrow> tf_default_device h
      | Some d \<Rightarrow> (case resolve_device h d of Inr d' \<Rightarrow> d' | Inl _ \<Rightarrow> cpu_device))"

text \<open>\<open>t.device\<close> as TensorFlow prints it.\<close>

definition tf_device_name :: "device \<Rightarrow> string" where
  "tf_device_name d =
     ''/job:localhost/replica:0/task:0/device:'' @
     (case dev_type d of
        CPU \<Rightarrow> ''CPU:0''
      | CUDA \<Rightarrow> ''GPU:'' @ string_of_nat (case dev_index d of Some i \<Rightarrow> i | None \<Rightarrow> 0))"

section \<open>Tensors and operations\<close>

text \<open>\<open>tf.constant\<close> of a nested Python list: the rows must have one length.\<close>

definition tf_constant :: "real list list \<Rightarrow> device \<Rightarrow> real tensor res" where
  "tf_constant rows d =
     (case rows of
        [] \<Rightarrow> Inr \<lparr>tdata = [], tshape = [0], tdevice = d\<rparr>
      | r # _ \<Rightarrow>
          if list_all (\<lambda>r'. length r' = length r) rows
          then Inr \<lparr>tdata = concat rows, tshape = [length rows, length r], tdevice = d\<rparr>
          else Inl ShapeError)"

text \<open>
  Broadcasting: shapes are aligned at their last dimension; two dimensions
  are compatible when they are equal or one of them is 1.
\<close>

fun bcast_rev :: "nat list \<Rightarrow> nat list \<Rightarrow> nat list option" where
  "bcast_rev [] ys = Some ys"
| "bcast_rev xs [] = Some xs"
| "bcast_rev (x # xs) (y # ys) =
     (if x = y then map_option (Cons x) (bcast_rev xs ys)
      else if x = 1 then map_option (Cons y) (bcast_rev xs ys)
      else if y = 1 then map_option (Cons x) (bcast_rev xs ys)
      else None)"

definition broadcast_shape :: "nat list \<Rightarrow> nat list \<Rightarrow> nat list option" where
  "broadcast_shape s1 s2 = map_option rev (bcast_rev (rev s1) (rev s2))"

text \<open>Row-major multi-indices: \<open>unravel\<close> a flat index, \<open>ravel\<close> it back.\<close>

fun unravel :: "nat list \<Rightarrow> nat \<Rightarrow> nat list" where
  "unravel [] k = []"
| "unravel (d # ds) k = k div prod_list ds # unravel ds (k mod prod_list ds)"

fun ravel :: "nat list \<Rightarrow> nat list \<Rightarrow> nat" where
  "ravel (d # ds) (i # is) = i * prod_list ds + ravel ds is"
| "ravel _ _ = 0"

text \<open>The index into an operand of shape \<open>s\<close> that a result multi-index reads.\<close>

definition bcast_index :: "nat list \<Rightarrow> nat list \<Rightarrow> nat" where
  "bcast_index s ix = ravel s (map2 (\<lambda>d i. if d = 1 then 0 else i) s (drop (length ix - length s) ix))"

definition tf_binop :: "(real \<Rightarrow> real \<Rightarrow> real) \<Rightarrow> real tensor \<Rightarrow> real tensor \<Rightarrow> device \<Rightarrow> real tensor res" where
  "tf_binop f x y d =
     (case broadcast_shape (tshape x) (tshape y) of
        None \<Rightarrow> Inl ShapeError
      | Some s \<Rightarrow>
          Inr \<lparr>tdata = map (\<lambda>k. f (tdata x ! bcast_index (tshape x) (unravel s k))
                                 (tdata y ! bcast_index (tshape y) (unravel s k))) [0..<prod_list s],
               tshape = s, tdevice = d\<rparr>)"

definition tf_add :: "real tensor \<Rightarrow> real tensor \<Rightarrow> device \<Rightarrow> real tensor res" where
  "tf_add x y d = tf_binop (+) x y d"

text \<open>\<open>tf.matmul\<close> of two matrices (the notebook's case; batched operands are not modelled).\<close>

definition tf_matmul :: "real tensor \<Rightarrow> real tensor \<Rightarrow> device \<Rightarrow> real tensor res" where
  "tf_matmul a b d =
     (case (tshape a, tshape b) of
        ([n, m], [m', p]) \<Rightarrow>
          if m \<noteq> m' then Inl ShapeError
          else Inr \<lparr>tdata = concat (map (\<lambda>i. map (\<lambda>j.
                                 sum_list (map (\<lambda>k. tdata a ! (i * m + k) * tdata b ! (k * p + j)) [0..<m]))
                               [0..<p]) [0..<n]),
                    tshape = [n, p], tdevice = d\<rparr>
      | _ \<Rightarrow> Inl ShapeError)"

section \<open>The cells\<close>

text \<open>\<open>x = tf.constant(...)\<close>, \<open>y = tf.constant(...)\<close>, \<open>z = tf.math.add(x, y)\<close>, without a device scope.\<close>

definition tf_add_cell :: "host \<Rightarrow> real tensor res" where
  "tf_add_cell h =
     res_bind (tf_constant [[4.5, 4.0, 3.0], [1.0, 1.0, 1.0]] (tf_place h None)) (\<lambda>x.
     res_bind (tf_constant [[10.0, 20.0, 55.0], [1.0, 1.0, 1.0]] (tf_place h None)) (\<lambda>y.
     tf_add x y (tf_place h None)))"

text \<open>
  \<open>a\<close> and \<open>b\<close> created inside \<open>with tf.device('/CPU:0')\<close>, then
  \<open>c = tf.matmul(a, b)\<close> outside it.
\<close>

definition tf_matmul_cell :: "host \<Rightarrow> (real tensor \<times> real tensor \<times> real tensor) res" where
  "tf_matmul_cell h =
     res_bind (tf_parse_device ''/CPU:0'') (\<lambda>d.
     res_bind (tf_constant [[1.0, 2.0, 3.0], [4.0, 5.0, 6.0]] (tf_place h (Some d))) (\<lambda>a.
     res_bind (tf_constant [[1.0, 2.0], [3.0, 4.0], [5.0, 6.0]] (tf_place h (Some d))) (\<lambda>b.
     res_bind (tf_matmul a b (tf_place h None)) (\<lambda>c. Inr (a, b, c)))))"

section \<open>Lemmas\<close>

lemma bcast_rev_same: "bcast_rev xs xs = Some xs"
  by (induction xs) simp_all

lemma unravel_bounds: "k < prod_list s \<Longrightarrow> list_all2 (<) (unravel s k) s"
proof (induction s arbitrary: k)
  case Nil
  then show ?case by simp
next
  case (Cons d ds)
  then have p: "0 < prod_list ds" by (cases "prod_list ds") simp_all
  have "k div prod_list ds < d" using Cons.prems by (simp add: less_mult_imp_div_less mult.commute)
  moreover have "k mod prod_list ds < prod_list ds" using p by simp
  ultimately show ?case using Cons.IH by simp
qed

lemma ravel_unravel: "k < prod_list s \<Longrightarrow> ravel s (unravel s k) = k"
proof (induction s arbitrary: k)
  case Nil
  then show ?case by simp
next
  case (Cons d ds)
  then have p: "0 < prod_list ds" by (cases "prod_list ds") simp_all
  then have "ravel ds (unravel ds (k mod prod_list ds)) = k mod prod_list ds" by (simp add: Cons.IH)
  then show ?case by simp
qed

lemma map2_unit_dims: "list_all2 (<) ix (s :: nat list) \<Longrightarrow> map2 (\<lambda>d i. if d = 1 then 0 else i) s ix = ix"
  by (induction rule: list_all2_induct) auto

lemma length_unravel [simp]: "length (unravel s k) = length s"
  by (induction s arbitrary: k) simp_all

lemma bcast_index_same:
  assumes "k < prod_list s"
  shows "bcast_index s (unravel s k) = k"
proof -
  have "map2 (\<lambda>d i. if d = 1 then 0 else i) s (unravel s k) = unravel s k"
    using unravel_bounds [OF assms] by (rule map2_unit_dims)
  then show ?thesis
    unfolding bcast_index_def length_unravel diff_self_eq_0 drop_0 using ravel_unravel [OF assms] by simp
qed

lemma tf_binop_same_shape:
  assumes "wf_tensor x" and "wf_tensor y" and "tshape x = tshape y"
  shows "tf_binop f x y d = Inr \<lparr>tdata = map2 f (tdata x) (tdata y), tshape = tshape x, tdevice = d\<rparr>"
proof -
  have lx: "length (tdata x) = prod_list (tshape x)" and ly: "length (tdata y) = prod_list (tshape x)"
    using assms by (simp_all add: wf_tensor_def numel_def)
  have "map (\<lambda>k. f (tdata x ! bcast_index (tshape x) (unravel (tshape x) k))
                   (tdata y ! bcast_index (tshape y) (unravel (tshape x) k))) [0..<prod_list (tshape x)] =
        map2 f (tdata x) (tdata y)"
    using lx ly assms(3) by (intro nth_equalityI) (simp_all add: bcast_index_same)
  then show ?thesis
    using assms(3) by (simp add: tf_binop_def broadcast_shape_def bcast_rev_same)
qed

lemma inj_string_of_nat: "inj string_of_nat"
  by (rule inj_on_inverseI [where g = "\<lambda>s. the (nat_of_string s)"]) simp

lemma tf_add_cell_eq:
  "tf_add_cell h = Inr \<lparr>tdata = [14.5, 24, 58, 2, 2, 2], tshape = [2, 3], tdevice = tf_default_device h\<rparr>"
proof -
  let ?x = "\<lparr>tdata = [4.5, 4, 3, 1, 1, 1], tshape = [2, 3], tdevice = tf_default_device h\<rparr> :: real tensor"
  let ?y = "\<lparr>tdata = [10, 20, 55, 1, 1, 1], tshape = [2, 3], tdevice = tf_default_device h\<rparr> :: real tensor"
  have p: "tf_place h None = tf_default_device h" by (simp add: tf_place_def)
  have c: "tf_constant [[4.5, 4.0, 3.0], [1.0, 1.0, 1.0]] (tf_default_device h) = Inr ?x"
    "tf_constant [[10.0, 20.0, 55.0], [1.0, 1.0, 1.0]] (tf_default_device h) = Inr ?y"
    by (simp_all add: tf_constant_def)
  have w: "wf_tensor ?x" "wf_tensor ?y" by (simp_all add: wf_tensor_def numel_def)
  have e: "tf_binop (+) ?x ?y (tf_default_device h) =
             Inr \<lparr>tdata = map2 (+) (tdata ?x) (tdata ?y), tshape = tshape ?x, tdevice = tf_default_device h\<rparr>"
    using w by (rule tf_binop_same_shape) simp
  show ?thesis
    unfolding tf_add_cell_def p c res_bind_Inr tf_add_def e by simp
qed

lemma tf_device_name_default:
  "tf_device_name (tf_default_device h) =
     ''/job:localhost/replica:0/task:0/device:'' @ (if cuda_device_count h = 0 then ''CPU:0'' else ''GPU:0'')"
  by (simp add: tf_device_name_def tf_default_device_def cpu_device_def cuda_device_def string_of_nat_0)

lemma tf_matmul_cell_eq:
  "tf_matmul_cell h =
     Inr (\<lparr>tdata = [1, 2, 3, 4, 5, 6], tshape = [2, 3], tdevice = cpu_device\<rparr>,
          \<lparr>tdata = [1, 2, 3, 4, 5, 6], tshape = [3, 2], tdevice = cpu_device\<rparr>,
          \<lparr>tdata = [22, 28, 49, 64], tshape = [2, 2], tdevice = tf_default_device h\<rparr>)"
  by (simp add: tf_matmul_cell_def tf_parse_device_def tf_place_def resolve_device_def cpu_device_def
                tf_constant_def tf_matmul_def upt_rec)

lemma tf_list_gpus_length [simp]: "length (tf_list_gpus h) = cuda_device_count h"
  by (simp add: tf_list_gpus_def)

section \<open>Properties\<close>

text \<open>
  TensorFlow lists one physical GPU device per GPU of the host, with
  distinct names: the count the notebook prints is the count PyTorch's
  \<open>torch.cuda.device_count()\<close> reports on the same host.
\<close>

theorem tf_gpu_count: "length (tf_list_gpus h) = cuda_device_count h \<and> distinct (tf_list_gpus h)"
  by (simp add: tf_list_gpus_def distinct_map inj_on_def inj_string_of_nat [THEN injD])

text \<open>
  The addition cell computes \<open>[[14.5, 24, 58], [2, 2, 2]]\<close>, on the
  first GPU when the host has one and on the CPU otherwise.
\<close>

theorem tf_add_cell_value:
  "tf_add_cell h = Inr \<lparr>tdata = [14.5, 24, 58, 2, 2, 2], tshape = [2, 3], tdevice = tf_default_device h\<rparr>"
  by (rule tf_add_cell_eq)

text \<open>
  The placement cell creates \<open>a\<close> and \<open>b\<close> on the CPU and computes
  \<open>c = [[22, 28], [49, 64]]\<close> with \<open>matmul\<close> outside the scope, on the
  first GPU when there is one; \<open>print(c.device)\<close> names that device.
\<close>

theorem tf_matmul_cell_value:
  "tf_device_name (tf_default_device h) =
     ''/job:localhost/replica:0/task:0/device:'' @ (if cuda_device_count h = 0 then ''CPU:0'' else ''GPU:0'') \<and>
   tf_matmul_cell h =
     Inr (\<lparr>tdata = [1, 2, 3, 4, 5, 6], tshape = [2, 3], tdevice = cpu_device\<rparr>,
          \<lparr>tdata = [1, 2, 3, 4, 5, 6], tshape = [3, 2], tdevice = cpu_device\<rparr>,
          \<lparr>tdata = [22, 28, 49, 64], tshape = [2, 2], tdevice = tf_default_device h\<rparr>)"
  using tf_device_name_default tf_matmul_cell_eq by (rule conjI)

text \<open>
  \<open>tf.math.add\<close> of two tensors of the same shape is element-wise
  addition: broadcasting reads each operand at the result's own index.
\<close>

theorem tf_add_elementwise:
  assumes "wf_tensor x" and "wf_tensor y" and "tshape x = tshape y"
  shows "tf_add x y d = Inr \<lparr>tdata = map2 (+) (tdata x) (tdata y), tshape = tshape x, tdevice = d\<rparr>"
  unfolding tf_add_def using assms by (rule tf_binop_same_shape)

theorem tf_add_elementwise_witness:
  "wf_tensor \<lparr>tdata = [1, 2 :: real], tshape = [2], tdevice = cpu_device\<rparr> \<and>
   tf_add \<lparr>tdata = [1, 2], tshape = [2], tdevice = cpu_device\<rparr> \<lparr>tdata = [10, 20], tshape = [2], tdevice = cpu_device\<rparr>
     cpu_device = Inr \<lparr>tdata = [11, 22], tshape = [2], tdevice = cpu_device\<rparr>"
proof -
  have w: "wf_tensor \<lparr>tdata = [1, 2 :: real], tshape = [2], tdevice = cpu_device\<rparr>"
    "wf_tensor \<lparr>tdata = [10, 20 :: real], tshape = [2], tdevice = cpu_device\<rparr>"
    by (simp_all add: wf_tensor_def numel_def)
  show ?thesis using tf_add_elementwise [OF w, of cpu_device] w by simp
qed

end
