(* ===== verification/TFKernel.thy ===== *)
theory TFKernel
  imports Kernel TF
begin

text \<open>
  \<open>tf-use-gpu.ipynb\<close> as a Jupyter kernel runs it: the shell cells
  \<open>!nvidia-smi\<close> (which prints the GPUs of the host) and
  \<open>!pip install tensorflow\<close> (which installs the package), the import cell,
  which raises \<open>ModuleNotFoundError\<close> unless the package is installed,
  the GPU count, and the two computing cells, which switch the placement log
  on at their start and off at their end. The state is whether the package
  is installed, whether \<open>tf\<close> is bound, the log switch and the output. The
  cells also bind \<open>x\<close>, \<open>y\<close>, \<open>z\<close>, \<open>a\<close>, \<open>b\<close>, \<open>c\<close>, which no other cell
  reads; the model keeps what they print. \<open>tfreach\<close> is the set of
  states that running cells in any order reaches.
\<close>

section \<open>Kernel state\<close>

datatype tf_output =
    FSmi "string list"          \<comment> \<open>the GPU table of \<open>!nvidia-smi\<close>, by GPU name (empty: no driver)\<close>
  | FCount nat                  \<comment> \<open>\<open>print("Num GPUs Available: ", ...)\<close>\<close>
  | FTensor "real tensor"       \<comment> \<open>\<open>print(z)\<close>, \<open>print(c)\<close>\<close>
  | FDevice string              \<comment> \<open>\<open>print(a.device)\<close>, \<open>print(c.device)\<close>\<close>

record tfstate =
  f_installed :: bool
  f_tf :: bool
  f_log :: bool
  f_out :: "tf_output list"

definition tfinit :: "bool \<Rightarrow> tfstate" where
  "tfinit inst = \<lparr>f_installed = inst, f_tf = False, f_log = False, f_out = []\<rparr>"

definition femit :: "tfstate \<Rightarrow> tf_output list \<Rightarrow> tfstate" where
  "femit s xs = s\<lparr>f_out := f_out s @ xs\<rparr>"

section \<open>Cells\<close>

datatype tfcell = TFSmi | TFPip | TFImport | TFCount | TFAdd | TFMatmul

text \<open>
  A computing cell runs \<open>tf.debugging.set_log_device_placement(True)\<close>
  first, which needs \<open>tf\<close>, and switches the log off as its last statement;
  an exception in between would leave the log on. In the matmul cell
  \<open>a.device\<close> is printed inside the \<open>with\<close> block, before the product.
\<close>

fun run_tfcell :: "host \<Rightarrow> tfstate \<Rightarrow> tfcell \<Rightarrow> tfstate exc" where
  "run_tfcell h s TFSmi = (femit s [FSmi (gpu_names h)], None)"
| "run_tfcell h s TFPip = (s\<lparr>f_installed := True\<rparr>, None)"
| "run_tfcell h s TFImport = (if f_installed s then (s\<lparr>f_tf := True\<rparr>, None) else (s, Some ModuleNotFoundError))"
| "run_tfcell h s TFCount =
     raise_or (bound (f_tf s)) s (\<lambda>_. (femit s [FCount (length (tf_list_gpus h))], None))"
| "run_tfcell h s TFAdd =
     raise_or (bound (f_tf s)) s (\<lambda>_.
     (let s1 = s\<lparr>f_log := True\<rparr> in
      raise_or (tf_add_cell h) s1 (\<lambda>z. (femit (s1\<lparr>f_log := False\<rparr>) [FTensor z], None))))"
| "run_tfcell h s TFMatmul =
     raise_or (bound (f_tf s)) s (\<lambda>_.
     (let s1 = s\<lparr>f_log := True\<rparr> in
      raise_or (tf_matmul_cell h) s1 (\<lambda>(a, b, c).
        (femit (s1\<lparr>f_log := False\<rparr>) [FDevice (tf_device_name (tdevice a)), FTensor c, FDevice (tf_device_name (tdevice c))],
         None))))"

definition tfrun_all :: "host \<Rightarrow> tfcell list \<Rightarrow> tfstate \<Rightarrow> tfstate exc" where
  "tfrun_all h cs s = exc_for (run_tfcell h) cs s"

definition tf_cells :: "tfcell list" where
  "tf_cells = [TFSmi, TFPip, TFImport, TFCount, TFAdd, TFMatmul]"

section \<open>Reachable states\<close>

text \<open>
  The states some sequence of cell runs reaches from a fresh kernel, on an
  environment where the package is or is not installed yet.
\<close>

inductive tfreach :: "host \<Rightarrow> bool \<Rightarrow> tfstate \<Rightarrow> bool" for h inst where
  start: "tfreach h inst (tfinit inst)"
| run: "tfreach h inst s \<Longrightarrow> tfreach h inst (fst (run_tfcell h s c))"

section \<open>Lemmas\<close>

lemma femit_simps [simp]:
  "f_installed (femit s xs) = f_installed s" "f_tf (femit s xs) = f_tf s"
  "f_log (femit s xs) = f_log s" "f_out (femit s xs) = f_out s @ xs"
  by (simp_all add: femit_def)

lemma tf_device_name_cpu: "tf_device_name cpu_device = ''/job:localhost/replica:0/task:0/device:CPU:0''"
  by (simp add: tf_device_name_def cpu_device_def string_of_nat_0)

lemma tfreach_tfrun_all: "tfreach h inst s \<Longrightarrow> tfreach h inst (fst (tfrun_all h cs s))"
proof (induction cs arbitrary: s)
  case (Cons c cs)
  then show ?case
    using tfreach.run [OF Cons.prems, of c] by (auto simp: tfrun_all_def split: prod.splits option.splits)
qed (simp add: tfrun_all_def)

lemma run_tfcell_state:
  "\<not> f_log s \<Longrightarrow> (f_tf s \<longrightarrow> f_installed s) \<Longrightarrow>
   \<not> f_log (fst (run_tfcell h s c)) \<and> (f_tf (fst (run_tfcell h s c)) \<longrightarrow> f_installed (fst (run_tfcell h s c)))"
  by (cases c) (auto simp: raise_or_def bound_def femit_def tf_add_cell_eq tf_matmul_cell_eq)

section \<open>Properties\<close>

text \<open>
  Run top to bottom, the TensorFlow notebook completes on every host,
  whether or not the package was installed before: \<open>!nvidia-smi\<close> lists
  the host's GPUs, the count cell prints their number, the addition cell
  prints \<open>[[14.5, 24, 58], [2, 2, 2]]\<close> on the default device, the placement
  cell prints the CPU as the device of \<open>a\<close> and the product
  \<open>[[22, 28], [49, 64]]\<close> on the default device, and the placement log is off
  at the end. Skipping \<open>!pip install\<close> on an environment without the package
  stops the notebook at the import with \<open>ModuleNotFoundError\<close>.
\<close>

theorem tf_notebook_kernel_run:
  "tfrun_all h tf_cells (tfinit inst) =
     (\<lparr>f_installed = True, f_tf = True, f_log = False,
       f_out = [FSmi (gpu_names h), FCount (cuda_device_count h),
                FTensor \<lparr>tdata = [14.5, 24, 58, 2, 2, 2], tshape = [2, 3], tdevice = tf_default_device h\<rparr>,
                FDevice ''/job:localhost/replica:0/task:0/device:CPU:0'',
                FTensor \<lparr>tdata = [22, 28, 49, 64], tshape = [2, 2], tdevice = tf_default_device h\<rparr>,
                FDevice (tf_device_name (tf_default_device h))]\<rparr>, None) \<and>
   tfrun_all h (removeAll TFPip tf_cells) (tfinit False) =
     (\<lparr>f_installed = False, f_tf = False, f_log = False, f_out = [FSmi (gpu_names h)]\<rparr>, Some ModuleNotFoundError)"
  by (simp add: tfrun_all_def tf_cells_def tfinit_def raise_or_def bound_def femit_def
                tf_add_cell_eq tf_matmul_cell_eq tf_device_name_cpu)

text \<open>
  C25. Whatever cells of \<open>tf-use-gpu.ipynb\<close> the user runs, in whatever
  order and however often: \<open>tf\<close> is bound only once the package is
  installed, the placement log is never left on after a cell, and once
  \<open>tf\<close> is bound every cell of the notebook runs without an exception.
\<close>

theorem tfreach_safe:
  assumes "tfreach h inst s"
  shows "(f_tf s \<longrightarrow> f_installed s) \<and> \<not> f_log s \<and> (f_tf s \<longrightarrow> (\<forall>c. snd (run_tfcell h s c) = None))"
proof -
  have inv: "(f_tf s \<longrightarrow> f_installed s) \<and> \<not> f_log s"
    using assms by induction (auto simp: tfinit_def dest: run_tfcell_state)
  have "f_tf s \<Longrightarrow> snd (run_tfcell h s c) = None" for c
    using inv by (cases c) (simp_all add: raise_or_def bound_def tf_add_cell_eq tf_matmul_cell_eq)
  then show ?thesis using inv by blast
qed

theorem tfreach_safe_witness:
  "let h = \<lparr>gpu_names = []\<rparr>; s = fst (tfrun_all h [TFSmi, TFPip, TFImport, TFAdd] (tfinit False))
   in tfreach h False s \<and>
      (f_tf s \<longrightarrow> f_installed s) \<and> \<not> f_log s \<and> (f_tf s \<longrightarrow> (\<forall>c. snd (run_tfcell h s c) = None))"
  unfolding Let_def
proof (rule conjI)
  let ?h = "\<lparr>gpu_names = []\<rparr>"
  let ?s = "fst (tfrun_all ?h [TFSmi, TFPip, TFImport, TFAdd] (tfinit False))"
  show r: "tfreach ?h False ?s" by (intro tfreach_tfrun_all tfreach.start)
  show "(f_tf ?s \<longrightarrow> f_installed ?s) \<and> \<not> f_log ?s \<and> (f_tf ?s \<longrightarrow> (\<forall>c. snd (run_tfcell ?h ?s c) = None))"
    using tfreach_safe [OF r] .
qed

end
