(* ===== verification/Spec2Isabelle.thy ===== *)
theory Spec2Isabelle
  imports TestKernel TFKernel
begin

text \<open>
  \<^bold>\<open>A verification development for the getting-started-with-gpus notebooks.\<close>

  \<^bold>\<open>The program.\<close> The repository holds three Jupyter notebooks under
  \<open>src/\<close>. \<open>torch-use-gpu.ipynb\<close> queries the CUDA devices, selects a
  device (\<open>cuda:0\<close> or \<open>cpu\<close>), creates integer tensors and moves them to
  the GPU, defines \<open>SimpleNet\<close> (784-784-10, ReLU, softmax), moves it to the
  device, builds FashionMNIST loaders with \<open>batch_size = 100\<close>, trains it
  with Adadelta for five epochs, evaluating after each epoch with
  \<open>test\<close>, and saves its \<open>state_dict\<close>. \<open>torch-test-model.ipynb\<close>
  rebuilds the model, loads that file, and classifies test images one at a
  time. \<open>tf-use-gpu.ipynb\<close> counts the GPUs TensorFlow sees and runs an
  addition and a matrix product, one of them with explicit placement. The
  notebooks are glue around library calls, so the model gives each call the
  library's semantics (its result, its device and every exception it raises)
  and composes them in cell order.

  \<^bold>\<open>Theories and what they model.\<close>
  \<^item> \<open>Prelude\<close>: the \<open>error\<close> type of the exceptions raised, the result
    type \<open>'a res = error + 'a\<close> with \<open>res_bind\<close>, \<open>res_fold\<close> (a \<open>for\<close>
    loop whose body can raise) and \<open>res_map\<close>, the \<open>for\<close> statement
    itself as a \<open>while_option\<close> loop over an iterator (\<open>py_for\<close>),
    computations that keep their effects when they raise (\<open>'s exc\<close>,
    \<open>raise_or\<close>, \<open>exc_for\<close>), \<open>chunks\<close> (DataLoader
    batching and row-major rows), decimal strings of device indices.
  \<^item> \<open>Device\<close>: \<open>torch.device\<close> parsing and printing, the host (its GPU
    names), \<open>torch.cuda.is_available\<close>, \<open>device_count\<close>,
    \<open>get_device_name\<close>, the device-selection cell (\<open>select_device\<close>) and
    the device checks every transfer makes (\<open>resolve_device\<close>).
  \<^item> \<open>Tensor\<close>: tensors as buffer, shape and device; \<open>.to\<close>, \<open>.cuda()\<close>,
    \<open>torch.IntTensor\<close> with int32 elements as \<open>32 word\<close>,
    \<open>torch.cuda.IntTensor\<close>, \<open>view\<close>, \<open>squeeze\<close>, \<open>argmax\<close>.
  \<^item> \<open>Net\<close>: \<open>nn.Linear\<close>, ReLU, softmax, \<open>SimpleNet\<close> with
    \<open>__init__\<close>, \<open>to\<close>, \<open>train()\<close>, \<open>eval()\<close> and \<open>forward\<close>, and
    \<open>F.nll_loss\<close> with its checks.
  \<^item> \<open>Data\<close>: \<open>ToTensor\<close>, \<open>Normalize\<close>, the FashionMNIST samples and
    the loader with \<open>shuffle=False\<close> and the default collate.
  \<^item> \<open>Optim\<close>: Adadelta (lr 0.01, rho 0.9, eps 1e-6) with its lazily created
    per-parameter state, \<open>zero_grad\<close> (set to \<open>None\<close>) and gradient
    accumulation by \<open>backward\<close>.
  \<^item> \<open>Train\<close>: \<open>train(model, device, train_loader, optimizer, epoch)\<close> as its
    \<open>for\<close> statement (\<open>py_for\<close>) over the loader, and the abstract algorithm
    \<open>abstract_epoch\<close> it refines.
  \<^item> \<open>Eval\<close>: \<open>test(model, device, test_loader)\<close>.
  \<^item> \<open>Objects\<close>: the Python objects the training cells share. A heap of
    model objects (\<open>kobj\<close>: module and \<open>.grad\<close> slots), the optimizer as the
    reference of the model whose parameters it holds, \<open>train\<close> and
    \<open>test\<close> on the heap (\<open>k_train\<close>, \<open>k_test\<close>) keeping their effects when
    they raise, and the epoch loop \<open>run_epochs\<close>.
  \<^item> \<open>Kernel\<close>: \<open>torch-use-gpu.ipynb\<close> as a Jupyter kernel runs it. The
    globals (\<open>kstate\<close>), one equation of \<open>run_cell\<close> per code cell with its
    \<open>NameError\<close>s and partial effects, the printed output, \<open>Run All\<close>
    (\<open>run_all\<close>), the states reachable by running cells in any order
    (\<open>reach\<close>), and the sample figure of the plot cell as data: nine
    panels (\<open>subplot\<close>), each with its grid position, its title from the
    notebook's own \<open>labels_map\<close> and its 28 by 28 image.
  \<^item> \<open>Checkpoint\<close>: \<open>state_dict\<close>, \<open>torch.save\<close> into a file map,
    \<open>torch.load\<close> and the strict \<open>load_state_dict\<close>.
  \<^item> \<open>Inference\<close>: \<open>labels_map\<close>, the test iterator, \<open>get_probs\<close> and the
    prediction cell, run once or repeatedly (\<open>run_cells\<close>).
  \<^item> \<open>TF\<close>: \<open>list_physical_devices\<close>, \<open>tf.constant\<close>, \<open>tf.math.add\<close>
    with broadcasting, \<open>tf.matmul\<close>, placement with and without
    \<open>tf.device\<close>, and the two computing cells.
  \<^item> \<open>TestKernel\<close>: \<open>torch-test-model.ipynb\<close> as a Jupyter kernel runs
    it: its globals (\<open>tstate\<close>), one equation of \<open>run_tcell\<close> per code cell
    (imports, device, class, model and checkpoint, \<open>eval()\<close>, loader,
    \<open>get_probs\<close>, prediction), \<open>Run All\<close> (\<open>trun_all\<close>), the
    predictions printed, and the states reachable by running cells in any
    order (\<open>treach\<close>) with their invariant \<open>tkinv\<close>.
  \<^item> \<open>TFKernel\<close>: \<open>tf-use-gpu.ipynb\<close> as a Jupyter kernel runs it: the
    shell cells (\<open>!nvidia-smi\<close>, \<open>!pip install tensorflow\<close>), the import
    with its \<open>ModuleNotFoundError\<close>, the GPU count, the two computing cells
    with the placement-log switch, what they print, and the states
    reachable by running cells in any order (\<open>tfreach\<close>).
  \<^item> This theory: \<open>torch_use_gpu_nb\<close> and \<open>torch_test_model_nb\<close>, each
    notebook run from top to bottom, the first raising cell ending the run,
    the links between the kernels and these runs, and the handoff from the
    training kernel to the test kernel through the file it saves.

  \<^bold>\<open>State.\<close> Every function passes its state explicitly: the training
  state is the record \<open>train_state\<close> (model, gradient slots, optimizer), the
  evaluation state the pair \<open>(test_loss, correct)\<close>, the file system a map
  from paths to saved dictionaries, the test iterator the list of remaining
  batches. \<open>Module.to\<close> and \<open>load_state_dict\<close>, which mutate the model in
  place, return the updated model. Where aliasing matters (the optimizer
  holds the parameters of one model object; the notebook rebinds
  \<open>model\<close>), the kernel model keeps an explicit heap of model objects and
  references into it.

  \<^bold>\<open>What is proved.\<close> The claims, most important first, are
  properties of the notebooks; facts of the libraries alone (softmax,
  \<open>argmax\<close>, Adadelta, broadcasting, \<open>IntTensor\<close>, the loader's order)
  are lemmas of their theories, used by the claims.
  \<^item> Whole notebooks (this theory): on a GPU host with datasets of full
    batches the training notebook completes, keeps a well-formed model on
    \<open>cuda:0\<close>, reports bounded results for five epochs and saves the trained
    weights (C1); the test notebook then runs exactly those weights (C3),
    and so does the test notebook's kernel after the training kernel's
    \<open>Run All\<close>, reading the file it left (C6); on a host without CUDA the
    training notebook stops (C15); a training set whose size is not a
    multiple of 100 makes training raise (C16).
  \<^item> The kernels (\<open>Kernel\<close>, \<open>TestKernel\<close>, \<open>TFKernel\<close>, this theory):
    running the cells of \<open>torch-use-gpu.ipynb\<close> (C4) and of
    \<open>torch-test-model.ipynb\<close> (C5) in order refines the whole-notebook
    model exactly, exceptions included; re-running the model cell after the
    optimizer cell makes training change no parameter (C7); a checkpoint
    that cannot be loaded (missing, or saved on a GPU and read on a host
    without one) leaves \<open>model\<close> bound to the untrained network, which the
    prediction cell then uses (C8); every state reachable by running the
    training notebook's cells in any order is sound (C9), and so is every
    state of the test notebook's kernel, whose model stays resident on the
    selected device (C10); the \<open>eval()\<close> cell changes no prediction (C22);
    the sample plot cell displays nine panels, each titled with the class
    of the image it shows (C24); every state of the TensorFlow kernel keeps
    the placement log off and runs every cell without an exception once
    \<open>tf\<close> is bound (C25).
  \<^item> Training (\<open>Train\<close>): one epoch of \<open>train\<close> computes one Adadelta
    update per batch with that batch's gradient (C2).
  \<^item> The model (\<open>Net\<close>): \<open>forward\<close> returns one probability distribution
    per image (C11) and raises on a batch of any other size than the
    global \<open>batch_size\<close> (C17).
  \<^item> Evaluation (\<open>Eval\<close>): accuracy in \<open>[0, 100]\<close> and average loss in
    \<open>[-1, 0]\<close> (C12).
  \<^item> Checkpoints (\<open>Checkpoint\<close>): save/load round trip (C13), a CUDA
    checkpoint on a CPU-only host (C20).
  \<^item> Inference (\<open>Inference\<close>): the prediction cell (C14) and its repetition
    until \<open>StopIteration\<close> (C21).
  \<^item> Devices and data (\<open>Device\<close>, \<open>Data\<close>): the selected device is usable
    (C18); full batches are well-formed (C19); the notebook's normalised
    values are bounded (C23).

  \<^bold>\<open>Modelling choices.\<close> Tensor values are real numbers standing for
  float32 (no rounding); int32 tensors are \<open>32 word\<close>, bytes \<open>8 word\<close>.
  Automatic differentiation is a parameter \<open>gradf\<close> (the gradient of the
  batch loss at the current parameters), constrained only to give one
  gradient per parameter of its size, so every theorem holds for any
  gradient. Initial weights are parameters \<open>draw1\<close>, \<open>draw2\<close>; in the kernel
  the random draws come from the environment indexed by a counter of the
  cells that drew so far (the model cell and the plot cell each draw once
  per run), so a re-run draws afresh. Inside a kernel an exception keeps
  the effects made before it (\<open>exc_for\<close>, \<open>raise_or\<close>). Exceptions
  are values of \<open>error\<close>; a library error with no finer meaning for the
  notebook (\<open>RuntimeError\<close> on shapes, \<open>ValueError\<close> of \<open>.item()\<close>) is
  \<open>ShapeError\<close>. No loop needs fuel: every loop runs over a finite list, and the
  \<open>while_option\<close> loop of the \<open>for\<close> statement is proved to stop
  (\<open>py_for_terminates\<close>).

  \<^bold>\<open>Not modelled.\<close> The table \<open>!nvidia-smi\<close> prints beyond the
  GPU names (the TensorFlow kernel prints the names; the training kernel
  runs the cell without effect on its globals), the text of
  \<open>pip install\<close> (modelled as the package becoming importable), the
  text \<open>print\<close> writes inside \<open>train\<close> and \<open>test\<close> beyond the device and
  the report, \<open>tqdm\<close>, the rendering of figures (the sample figure is
  modelled as its panels: position, title and image; the image the
  prediction cell of the test notebook shows is modelled only by its
  reshape to 28 by 28, which can raise), the
  dataset download, \<open>num_workers\<close> and asynchronous CUDA execution, the
  lines TensorFlow's placement log writes (the switch itself is state of
  the TensorFlow kernel), and batched \<open>tf.matmul\<close>, which the notebook
  does not use.
\<close>

section \<open>Whole notebooks\<close>

record nb_result =
  nb_device :: device
  nb_model :: simplenet
  nb_reports :: "test_report list"
  nb_files :: files

text \<open>
  \<open>torch-use-gpu.ipynb\<close> run from top to bottom: the device cell, the device
  name of GPU 0, the integer tensors moved to and created on the GPU, the
  model moved to the device, the two loaders with \<open>batch_size = 100\<close>, the
  optimizer, five epochs, and the saved weights. \<open>draw1\<close> and \<open>draw2\<close> are
  the initial parameter values, \<open>pick\<close> the random draws of the plot cell,
  \<open>gradf\<close> the gradients autograd computes.
  The first cell that raises stops the run.
\<close>

definition torch_use_gpu_nb ::
  "host \<Rightarrow> (nat \<Rightarrow> real) \<Rightarrow> (nat \<Rightarrow> real) \<Rightarrow> (nat \<Rightarrow> nat) \<Rightarrow> grad_fn \<Rightarrow> raw_sample list \<Rightarrow>
   raw_sample list \<Rightarrow> files \<Rightarrow> nb_result res" where
  "torch_use_gpu_nb h draw1 draw2 pick gradf trainset testset fs =
     res_bind (select_device h) (\<lambda>device.
     res_bind (get_device_name h 0) (\<lambda>_.
     res_bind (int_tensor [0, 30, 50, 75, 70]) (\<lambda>X_train.
     res_bind (tensor_cuda h X_train) (\<lambda>_.
     res_bind (cuda_int_tensor h [30, 40, 50] device) (\<lambda>_.
     res_bind (simplenet_to h (simplenet_new draw1 draw2) device) (\<lambda>model.
     (let batch_size = 100;
          train_loader = data_loader batch_size fmnist_transform trainset;
          test_loader = data_loader batch_size fmnist_transform testset;
          st = \<lparr>tnet = model, grads = replicate 4 None, topt = adadelta_new 4\<rparr>
      in res_bind (sample_plot_cell pick trainset) (\<lambda>_.
         res_bind (run_epochs h device batch_size gradf 5 st train_loader test_loader (length testset))
           (\<lambda>(st', reports).
              Inr \<lparr>nb_device = device, nb_model = tnet st', nb_reports = reports,
                   nb_files = torch_save (state_dict (tnet st')) ''mnist_fashion_SimpleNet.pt'' fs\<rparr>)))))))))"

text \<open>
  \<open>torch-test-model.ipynb\<close>: the device cell, a new model moved to the
  device, the saved weights loaded into it, evaluation mode, the test loader
  with \<open>batch_size = 1\<close>, and the prediction cell run \<open>k\<close> times.
\<close>

definition torch_test_model_nb ::
  "host \<Rightarrow> (nat \<Rightarrow> real) \<Rightarrow> (nat \<Rightarrow> real) \<Rightarrow> files \<Rightarrow> raw_sample list \<Rightarrow> nat \<Rightarrow>
   (simplenet \<times> prediction list \<times> (rtensor \<times> int tensor) list) res" where
  "torch_test_model_nb h draw1 draw2 fs testset k =
     res_bind (select_device h) (\<lambda>device.
     res_bind (simplenet_to h (simplenet_new draw1 draw2) device) (\<lambda>model.
     res_bind (torch_load h fs ''mnist_fashion_SimpleNet.pt'') (\<lambda>sd.
     res_bind (load_state_dict model sd) (\<lambda>model'.
     (let model'' = simplenet_eval model';
          test_loader = data_loader 1 fmnist_transform testset
      in res_bind (run_cells h device k model'' test_loader) (\<lambda>(ps, m, it). Inr (m, ps, it)))))))"

text \<open>
  What the kernel holds for the notebook-level result after its cells ran:
  the device, the model object, the printed reports and the files.
\<close>

definition kernel_result :: "kstate \<Rightarrow> nb_result res" where
  "kernel_result s =
     res_bind (lookup (k_device s)) (\<lambda>d. res_bind (lookup (k_model s)) (\<lambda>m.
       Inr \<lparr>nb_device = d, nb_model = onet (k_heap s ! m), nb_reports = reports (k_out s), nb_files = k_files s\<rparr>))"

section \<open>Lemmas\<close>

lemma loader_batches_ok:
  assumes "0 < bs" and "bs dvd length ds" and "list_all fmnist_sample ds"
  shows "list_all (batch_ok bs) (data_loader bs fmnist_transform ds) \<and>
         length (data_loader bs fmnist_transform ds) = length ds div bs"
proof
  let ?xs = "map (\<lambda>(img, y). (fmnist_transform img, y)) ds"
  have "length ?xs = (length ds div bs) * bs" using assms(2) by simp
  then show "length (data_loader bs fmnist_transform ds) = length ds div bs"
    using chunks_of_multiple [of ?xs "length ds div bs" bs] assms(1) by (simp add: data_loader_def)
  show "list_all (batch_ok bs) (data_loader bs fmnist_transform ds)"
    unfolding list_all_iff
  proof
    fix b assume "b \<in> set (data_loader bs fmnist_transform ds)"
    then obtain c where c: "c \<in> set (chunks bs ?xs)" and b: "b = collate c"
      by (auto simp: data_loader_def)
    have "length c = bs" using assms(2) c by (intro chunks_dvd_length) simp_all
    moreover have "numel (fst (collate c)) = length c * 784"
      using fmnist_batch_shape [OF c assms(3)] by (simp add: numel_def wf_tensor_def)
    ultimately show "batch_ok bs b"
      using fmnist_batch_shape [OF c assms(3)] b by (simp add: batch_ok_def)
  qed
qed

lemma gpu_host_setup:
  assumes "cuda_is_available h"
  shows "select_device h = Inr (cuda_device 0) \<and> resolve_device h (cuda_device 0) = Inr (cuda_device 0) \<and>
         (\<exists>n. get_device_name h 0 = Inr n) \<and>
         (\<exists>t. res_bind (int_tensor [0, 30, 50, 75, 70]) (tensor_cuda h) = Inr t) \<and>
         (\<exists>t. cuda_int_tensor h [30, 40, 50] (cuda_device 0) = Inr t)"
  using assms cuda_is_available_count [of h]
  by (simp add: select_device_value get_device_name_def resolve_device_def cuda_device_def int_tensor_def
                int32_list_def int32_range_def tensor_cuda_def tensor_to_def cuda_int_tensor_def)

lemma nb1_result:
  assumes "cuda_is_available h" and "grad_shapes gradf"
    and "100 dvd length trainset" and "trainset \<noteq> []" and "100 dvd length testset" and "testset \<noteq> []"
    and "list_all fmnist_sample trainset" and "list_all fmnist_sample testset"
  shows "\<exists>out. torch_use_gpu_nb h draw1 draw2 pick gradf trainset testset fs = Inr out \<and>
              nb_device out = cuda_device 0 \<and> wf_simplenet (nb_model out) \<and>
              net_device (nb_model out) = cuda_device 0 \<and> length (nb_reports out) = 5 \<and>
              list_all report_ok (nb_reports out) \<and>
              nb_files out ''mnist_fashion_SimpleNet.pt'' = Some (state_dict (nb_model out))"
proof -
  have s: "select_device h = Inr (cuda_device 0)" and r: "resolve_device h (cuda_device 0) = Inr (cuda_device 0)"
    and g: "\<exists>n. get_device_name h 0 = Inr n"
    and x: "\<exists>t. res_bind (int_tensor [0, 30, 50, 75, 70]) (tensor_cuda h) = Inr t"
    and c: "\<exists>t. cuda_int_tensor h [30, 40, 50] (cuda_device 0) = Inr t"
    using gpu_host_setup [OF assms(1)] by blast+
  obtain m where m: "simplenet_to h (simplenet_new draw1 draw2) (cuda_device 0) = Inr m"
    and mw: "wf_simplenet m" "net_device m = cuda_device 0" "map tdata (params m) = map tdata (params (simplenet_new draw1 draw2))"
    using simplenet_to_moves [OF r wf_simplenet_new] by blast
  let ?trl = "data_loader 100 fmnist_transform trainset" and ?tel = "data_loader 100 fmnist_transform testset"
  have trl: "list_all (batch_ok 100) ?trl" using loader_batches_ok [OF _ assms(3,7)] by simp
  have tel: "list_all (batch_ok 100) ?tel" "length ?tel = length testset div 100"
    using loader_batches_ok [OF _ assms(5,8)] by simp_all
  have ne: "?tel \<noteq> []" using tel(2) assms(5,6) by (auto elim: dvdE)
  have n: "length testset = 100 * length ?tel" using tel(2) assms(5) by simp
  have b100: "(0::nat) < 100" by simp
  have i0: "train_inv (cuda_device 0) \<lparr>tnet = m, grads = replicate 4 None, topt = adadelta_new 4\<rparr>"
    using mw by (simp add: state_fits_new)
  obtain st' rs where e: "run_epochs h (cuda_device 0) 100 gradf 5 \<lparr>tnet = m, grads = replicate 4 None, topt = adadelta_new 4\<rparr>
                            ?trl ?tel (length testset) = Inr (st', rs)"
    and l: "length rs = 5" and oks: "list_all report_ok rs" and i': "train_inv (cuda_device 0) st'"
    using run_epochs_result [OF r assms(2) b100 trl tel(1) ne n i0, where k = 5] by blast
  from x obtain t1 where x1: "res_bind (int_tensor [0, 30, 50, 75, 70]) (tensor_cuda h) = Inr t1" by blast
  from x1 obtain t0 where x0: "int_tensor [0, 30, 50, 75, 70] = Inr t0" "tensor_cuda h t0 = Inr t1"
    by (cases "int_tensor [0, 30, 50, 75, 70]") auto
  have pl: "sample_plot_cell pick trainset = Inr (map (\<lambda>i. sample_panel (trainset ! (pick i mod length trainset)) i) [1..<10])"
    using assms(7,4) by (rule sample_plot_ok)
  show ?thesis using s g x0 c m pl e l oks i'
    by (auto simp: torch_use_gpu_nb_def torch_save_def Let_def)
qed

lemma train_batch_partial_fails:
  assumes "wf_simplenet (tnet s)" and "numel (fst b) = k * 784" and "k \<noteq> bs"
  shows "\<exists>e. train_batch h dev bs gradf s b = Inl e"
proof (cases "resolve_device h dev")
  case (Inl e)
  then show ?thesis by (simp add: train_batch_def tensor_to_def)
next
  case (Inr d')
  have "numel ((fst b)\<lparr>tdevice := d'\<rparr>) = k * 784" using assms(2) by simp
  then obtain e where "simplenet_forward bs (tnet s) ((fst b)\<lparr>tdevice := d'\<rparr>) = Inl e"
    using forward_batch_mismatch [OF assms(1) _ assms(3)] by blast
  then show ?thesis using Inr by (simp add: train_batch_def tensor_to_def Let_def)
qed

lemma train_batch_inv:
  assumes dev: "resolve_device h dev = Inr dev'" and gs: "grad_shapes gradf" and bs: "0 < bs"
    and b: "batch_ok bs b" and inv: "train_inv dev' s" and r: "train_batch h dev bs gradf s b = Inr s'"
  shows "train_inv dev' s'"
proof -
  let ?g = "gradf (tnet s) (fst (move_batch dev' b)) (snd (move_batch dev' b))"
  have s': "s' = s\<lparr>tnet := fst (ada_update (topt s) (tnet s) ?g), grads := map Some ?g,
                   topt := snd (ada_update (topt s) (tnet s) ?g)\<rparr>"
    using train_batch_result [OF dev _ _ _ gs, of s b bs] inv b bs r by (simp add: batch_ok_def)
  have shapes: "map length ?g = map (\<lambda>p. length (tdata p)) (params (tnet s))"
    using gs by (simp add: grad_shapes_def)
  from ada_update_props [OF _ shapes] inv have "train_inv dev' (s\<lparr>tnet := fst (ada_update (topt s) (tnet s) ?g),
      topt := snd (ada_update (topt s) (tnet s) ?g)\<rparr>)" by simp
  moreover have "length (map Some ?g) = 4" using shapes by (simp add: map_eq_imp_length_eq [of length ?g])
  ultimately show ?thesis using s' by simp
qed

lemma train_partial_fails:
  assumes dev: "resolve_device h dev = Inr dev'" and gs: "grad_shapes gradf" and bs: "0 < bs"
    and ds: "list_all fmnist_sample ds" and nd: "\<not> bs dvd length ds"
    and inv: "train_inv dev' st"
  shows "\<exists>e. train h dev bs gradf st (data_loader bs fmnist_transform ds) = Inl e"
proof -
  let ?xs = "map (\<lambda>(img, y). (fmnist_transform img, y)) ds"
  let ?st0 = "st\<lparr>tnet := simplenet_train (tnet st)\<rparr>"
  have shape: "numel (fst (collate c)) = length c * 784" if "c \<in> set (chunks bs ?xs)" for c
    using fmnist_batch_shape [OF that ds] by (simp add: numel_def wf_tensor_def)
  have "\<not> bs dvd length ?xs" using nd by simp
  then obtain c where c: "c \<in> set (chunks bs ?xs)" and lc: "length c \<noteq> bs"
    using chunks_partial [OF bs] by blast
  have i0: "train_inv dev' ?st0" using inv by simp
  have pres: "train_inv dev' s'"
    if si: "train_inv dev' s" and yi: "y \<in> set (data_loader bs fmnist_transform ds)"
      and ri: "train_batch h dev bs gradf s y = Inr s'"
    for s y s'
  proof -
    from yi obtain c' where c': "c' \<in> set (chunks bs ?xs)" and y: "y = collate c'"
      by (auto simp: data_loader_def)
    show ?thesis
    proof (cases "length c' = bs")
      case True
      then have "batch_ok bs y" using fmnist_batch_shape [OF c' ds] shape [OF c'] y by (simp add: batch_ok_def)
      then show ?thesis using train_batch_inv [OF dev gs bs _ si ri] by simp
    next
      case False
      then obtain e where "train_batch h dev bs gradf s y = Inl e"
        using train_batch_partial_fails [of s y "length c'" bs] si shape [OF c'] y by blast
      then show ?thesis using ri by simp
    qed
  qed
  have x: "collate c \<in> set (data_loader bs fmnist_transform ds)" using c by (simp add: data_loader_def)
  have "\<exists>e. res_fold (train_batch h dev bs gradf) (data_loader bs fmnist_transform ds) ?st0 = Inl e"
    using i0 pres x
  proof (rule res_fold_fails)
    fix s assume "train_inv dev' s"
    then show "\<exists>e. train_batch h dev bs gradf s (collate c) = Inl e"
      using train_batch_partial_fails [of s "collate c" "length c" bs] shape [OF c] lc by blast
  qed
  then show ?thesis by (simp add: train_def py_for_fold)
qed

lemma loader_one_labels:
  "map (\<lambda>b. labels_map (hd (tdata (snd b)))) (data_loader 1 fmnist_transform ds) = map (\<lambda>s. labels_map (snd s)) ds"
  by (simp add: data_loader_def chunks_one collate_def case_prod_beta comp_def)

lemma run_all_append:
  "run_all env (cs1 @ cs2) s =
     (case run_all env cs1 s of (s', None) \<Rightarrow> run_all env cs2 s' | (s', Some e) \<Rightarrow> (s', Some e))"
  unfolding run_all_def by (rule exc_for_append)

text \<open>The last two cells, the epoch loop and the save, from a state ready for them.\<close>

lemma kernel_tail:
  assumes ready: "epochs_ready (the (k_model s)) (the (k_device s)) (fst (the (k_train_loader s))) (snd (the (k_train_loader s)))
                    (snd (the (k_test_loader s))) (the (k_batch_size s)) s"
    and e: "k_epochs s \<noteq> None" and i: "k_imported s"
  shows "res_bind (exc_res (run_all env [RunEpochs, SaveModel] s)) kernel_result =
           res_bind (run_epochs (e_host env) (the (k_device s)) (the (k_batch_size s)) (e_grad env) (the (k_epochs s))
                       (heap_view (the (k_model s)) (k_heap s, snd (the (k_optimizer s))))
                       (data_loader (fst (the (k_train_loader s))) fmnist_transform (snd (the (k_train_loader s))))
                       (data_loader (fst (the (k_train_loader s))) fmnist_transform (snd (the (k_test_loader s))))
                       (length (snd (the (k_test_loader s)))))
             (\<lambda>(st', rs). Inr \<lparr>nb_device = the (k_device s), nb_model = tnet st', nb_reports = reports (k_out s) @ rs,
                               nb_files = torch_save (state_dict (tnet st')) ''mnist_fashion_SimpleNet.pt'' (k_files s)\<rparr>)"
proof -
  let ?m = "the (k_model s)" and ?d = "the (k_device s)"
  let ?\<pi> = "\<lambda>s. (heap_view ?m (k_heap s, snd (the (k_optimizer s))), reports (k_out s))"
  obtain s' eo where rc: "run_cell env s RunEpochs = (s', eo)" by (cases "run_cell env s RunEpochs")
  from run_epochs_cell_alias [OF ready, of "the (k_epochs s)" env] e rc
  have sim: "exc_res (?\<pi> s', eo) =
               res_bind (run_epochs (e_host env) ?d (the (k_batch_size s)) (e_grad env) (the (k_epochs s))
                       (heap_view ?m (k_heap s, snd (the (k_optimizer s))))
                       (data_loader (fst (the (k_train_loader s))) fmnist_transform (snd (the (k_train_loader s))))
                       (data_loader (fst (the (k_train_loader s))) fmnist_transform (snd (the (k_test_loader s))))
                       (length (snd (the (k_test_loader s)))))
                 (\<lambda>(st', rs). Inr (st', reports (k_out s) @ rs))"
    and r': "epochs_ready ?m ?d (fst (the (k_train_loader s))) (snd (the (k_train_loader s)))
               (snd (the (k_test_loader s))) (the (k_batch_size s)) s'"
    and f: "k_files s' = k_files s" "k_imported s' = k_imported s" by auto
  have m: "k_model s' = Some ?m" "k_device s' = Some ?d" "?m < length (k_heap s')"
    using r' by (simp_all add: epochs_ready_def)
  show ?thesis
  proof (cases eo)
    case None
    then show ?thesis using sim rc f m i
      by (auto simp: run_all_def kernel_result_def heap_view_def res_bind_def split: sum.splits prod.splits)
  next
    case (Some err)
    then show ?thesis using sim rc
      by (auto simp: run_all_def res_bind_def split: sum.splits prod.splits)
  qed
qed

section \<open>Properties of the notebooks\<close>

text \<open>
  C15. \<open>torch-use-gpu.ipynb\<close> cannot run on a host without CUDA, although
  its device cell falls back to the CPU there: the run stops with a CUDA
  error at \<open>torch.cuda.get_device_name(0)\<close> (and the later \<open>.cuda()\<close> and
  \<open>torch.cuda.IntTensor\<close> cells would raise as well).
\<close>

theorem notebook_cpu_host_stops:
  assumes "\<not> cuda_is_available h"
  shows "torch_use_gpu_nb h draw1 draw2 pick gradf trainset testset fs = Inl NoCuda"
  using assms by (simp add: torch_use_gpu_nb_def select_device_value get_device_name_def)

theorem notebook_cpu_host_stops_witness:
  "\<not> cuda_is_available \<lparr>gpu_names = []\<rparr> \<and>
   torch_use_gpu_nb \<lparr>gpu_names = []\<rparr> (\<lambda>_. 0) (\<lambda>_. 0) (\<lambda>i. i) (\<lambda>net d t. map (\<lambda>p. map (\<lambda>_. 0) (tdata p)) (params net)) [] [] Map.empty = Inl NoCuda"
proof -
  have c: "\<not> cuda_is_available \<lparr>gpu_names = []\<rparr>" by (simp add: cuda_is_available_def)
  show ?thesis using notebook_cpu_host_stops [OF c] c by simp
qed

text \<open>
  C1. On a host with a GPU, with training and test sets of FashionMNIST
  samples whose sizes are non-zero multiples of \<open>batch_size = 100\<close>, and
  an autograd that returns one gradient per parameter of its size,
  \<open>torch-use-gpu.ipynb\<close> runs to the end: the device is \<open>cuda:0\<close>, the model
  stays well-formed on it, the five epochs report accuracies in
  \<open>[0, 100]\<close> and average losses in \<open>[-1, 0]\<close>, and the file
  \<open>mnist_fashion_SimpleNet.pt\<close> holds the trained model's state dictionary.
\<close>

theorem notebook_gpu_host_completes:
  assumes "cuda_is_available h" and "grad_shapes gradf"
    and "100 dvd length trainset" and "trainset \<noteq> []" and "100 dvd length testset" and "testset \<noteq> []"
    and "list_all fmnist_sample trainset" and "list_all fmnist_sample testset"
  shows "\<exists>out. torch_use_gpu_nb h draw1 draw2 pick gradf trainset testset fs = Inr out \<and>
              nb_device out = cuda_device 0 \<and> wf_simplenet (nb_model out) \<and>
              net_device (nb_model out) = cuda_device 0 \<and> length (nb_reports out) = 5 \<and>
              list_all report_ok (nb_reports out) \<and>
              nb_files out ''mnist_fashion_SimpleNet.pt'' = Some (state_dict (nb_model out))"
  using assms by (rule nb1_result)

theorem notebook_gpu_host_completes_witness:
  "cuda_is_available \<lparr>gpu_names = [''Tesla T4'']\<rparr> \<and> grad_shapes (\<lambda>net d t. map (\<lambda>p. map (\<lambda>_. 0) (tdata p)) (params net)) \<and>
   100 dvd length (replicate 100 (replicate 784 (0 :: u8), 3 :: int)) \<and> (replicate 100 (replicate 784 (0 :: u8), 3 :: int)) \<noteq> [] \<and> list_all fmnist_sample (replicate 100 (replicate 784 (0 :: u8), 3 :: int)) \<and>
   (\<exists>out. torch_use_gpu_nb \<lparr>gpu_names = [''Tesla T4'']\<rparr> (\<lambda>_. 0) (\<lambda>_. 0) (\<lambda>i. i) (\<lambda>net d t. map (\<lambda>p. map (\<lambda>_. 0) (tdata p)) (params net))
            (replicate 100 (replicate 784 (0 :: u8), 3 :: int)) (replicate 100 (replicate 784 (0 :: u8), 3 :: int)) Map.empty = Inr out \<and> length (nb_reports out) = 5)"
proof -
  have a: "cuda_is_available \<lparr>gpu_names = [''Tesla T4'']\<rparr>" by (simp add: cuda_is_available_def)
  have g: "grad_shapes (\<lambda>net d t. map (\<lambda>p. map (\<lambda>_. 0) (tdata p)) (params net))" by (simp add: grad_shapes_def comp_def)
  have d: "100 dvd length (replicate 100 (replicate 784 (0 :: u8), 3 :: int))" "(replicate 100 (replicate 784 (0 :: u8), 3 :: int)) \<noteq> []" by simp_all
  have f: "list_all fmnist_sample (replicate 100 (replicate 784 (0 :: u8), 3 :: int))" by (simp add: fmnist_sample_def list_all_iff)
  show ?thesis
    using notebook_gpu_host_completes [OF a g d d f f, of "\<lambda>_. 0" "\<lambda>_. 0" "\<lambda>i. i" Map.empty] a g d f by auto
qed

text \<open>
  C16. Because \<open>forward\<close> reshapes with the global \<open>batch_size\<close>, training
  raises when the training set's size is not a multiple of 100: the loader's
  last batch is short and its \<open>x.view(batch_size, -1)\<close> or \<open>fc1\<close> fails, so
  \<open>torch-use-gpu.ipynb\<close> does not complete even on a GPU host. The real
  FashionMNIST sizes, 60000 and 10000, are multiples of 100.
\<close>

theorem notebook_partial_batch_raises:
  assumes "cuda_is_available h" and "grad_shapes gradf"
    and "list_all fmnist_sample trainset" and "\<not> 100 dvd length trainset"
  shows "\<exists>e. torch_use_gpu_nb h draw1 draw2 pick gradf trainset testset fs = Inl e"
proof -
  have s: "select_device h = Inr (cuda_device 0)" and r: "resolve_device h (cuda_device 0) = Inr (cuda_device 0)"
    and g: "\<exists>n. get_device_name h 0 = Inr n"
    and x: "\<exists>t. res_bind (int_tensor [0, 30, 50, 75, 70]) (tensor_cuda h) = Inr t"
    and c: "\<exists>t. cuda_int_tensor h [30, 40, 50] (cuda_device 0) = Inr t"
    using gpu_host_setup [OF assms(1)] by blast+
  obtain m where m: "simplenet_to h (simplenet_new draw1 draw2) (cuda_device 0) = Inr m"
    and mw: "wf_simplenet m" "net_device m = cuda_device 0" "map tdata (params m) = map tdata (params (simplenet_new draw1 draw2))"
    using simplenet_to_moves [OF r wf_simplenet_new] by blast
  have b100: "(0::nat) < 100" by simp
  have i0: "train_inv (cuda_device 0) \<lparr>tnet = m, grads = replicate 4 None, topt = adadelta_new 4\<rparr>"
    using mw by (simp add: state_fits_new)
  obtain e where e: "train h (cuda_device 0) 100 gradf \<lparr>tnet = m, grads = replicate 4 None, topt = adadelta_new 4\<rparr>
                       (data_loader 100 fmnist_transform trainset) = Inl e"
    using train_partial_fails [OF r assms(2) b100 assms(3,4) i0] by blast
  from x obtain t1 where x1: "res_bind (int_tensor [0, 30, 50, 75, 70]) (tensor_cuda h) = Inr t1" by blast
  from x1 obtain t0 where x0: "int_tensor [0, 30, 50, 75, 70] = Inr t0" "tensor_cuda h t0 = Inr t1"
    by (cases "int_tensor [0, 30, 50, 75, 70]") auto
  have "trainset \<noteq> []" using assms(4) by auto
  then have pl: "sample_plot_cell pick trainset = Inr (map (\<lambda>i. sample_panel (trainset ! (pick i mod length trainset)) i) [1..<10])"
    using assms(3) sample_plot_ok by blast
  show ?thesis using s g x0 c m pl e
    by (auto simp: torch_use_gpu_nb_def Let_def numeral_eq_Suc)
qed

theorem notebook_partial_batch_raises_witness:
  "cuda_is_available \<lparr>gpu_names = [''Tesla T4'']\<rparr> \<and> grad_shapes (\<lambda>net d t. map (\<lambda>p. map (\<lambda>_. 0) (tdata p)) (params net)) \<and>
   list_all fmnist_sample [(replicate 784 (0 :: u8), 3 :: int)] \<and> \<not> 100 dvd length [(replicate 784 (0 :: u8), 3 :: int)] \<and>
   (\<exists>e. torch_use_gpu_nb \<lparr>gpu_names = [''Tesla T4'']\<rparr> (\<lambda>_. 0) (\<lambda>_. 0) (\<lambda>i. i) (\<lambda>net d t. map (\<lambda>p. map (\<lambda>_. 0) (tdata p)) (params net))
          [(replicate 784 (0 :: u8), 3 :: int)] [] Map.empty = Inl e)"
proof -
  have a: "cuda_is_available \<lparr>gpu_names = [''Tesla T4'']\<rparr>" by (simp add: cuda_is_available_def)
  have g: "grad_shapes (\<lambda>net d t. map (\<lambda>p. map (\<lambda>_. 0) (tdata p)) (params net))" by (simp add: grad_shapes_def comp_def)
  have f: "list_all fmnist_sample [(replicate 784 (0 :: u8), 3 :: int)]" by (simp add: fmnist_sample_def)
  have d: "\<not> 100 dvd length [(replicate 784 (0 :: u8), 3 :: int)]" by simp
  show ?thesis using notebook_partial_batch_raises [OF a g f d, of "\<lambda>_. 0" "\<lambda>_. 0" "\<lambda>i. i" "[]" Map.empty] a g f d by blast
qed

lemma nb_handoff:
  assumes "cuda_is_available h" and "grad_shapes gradf"
    and "100 dvd length trainset" and "trainset \<noteq> []" and "100 dvd length testset" and "testset \<noteq> []"
    and "list_all fmnist_sample trainset" and "list_all fmnist_sample testset"
    and "list_all fmnist_sample testset2"
  shows "\<exists>out m ps. torch_use_gpu_nb h draw1 draw2 pick gradf trainset testset fs = Inr out \<and>
            torch_test_model_nb h draw1' draw2' (nb_files out) testset2 (length testset2) = Inr (m, ps, []) \<and>
            map (tdata \<circ> snd) (state_dict m) = map (tdata \<circ> snd) (state_dict (nb_model out)) \<and>
            \<not> training m \<and> map (\<lambda>p. Some (actual p)) ps = map (\<lambda>s. labels_map (snd s)) testset2"
proof -
  obtain out where nb: "torch_use_gpu_nb h draw1 draw2 pick gradf trainset testset fs = Inr out"
    and ow: "wf_simplenet (nb_model out)" "net_device (nb_model out) = cuda_device 0"
    and of: "nb_files out ''mnist_fashion_SimpleNet.pt'' = Some (state_dict (nb_model out))"
    using nb1_result [OF assms(1-8)] by blast
  have s: "select_device h = Inr (cuda_device 0)" and r: "resolve_device h (cuda_device 0) = Inr (cuda_device 0)"
    using gpu_host_setup [OF assms(1)] by blast+
  obtain m0 where m0: "simplenet_to h (simplenet_new draw1' draw2') (cuda_device 0) = Inr m0"
    and m0w: "wf_simplenet m0" "net_device m0 = cuda_device 0"
    using simplenet_to_moves [OF r wf_simplenet_new] by blast
  have "valid_device h (net_device (nb_model out))" using ow(2) resolve_device_lands [OF r] by simp
  then have l: "torch_load h (nb_files out) ''mnist_fashion_SimpleNet.pt'' = Inr (state_dict (nb_model out))"
    using torch_load_file [of "nb_files out" "''mnist_fashion_SimpleNet.pt''" "nb_model out" h] of ow(1) by simp
  let ?m1 = "m0\<lparr>fc1 := \<lparr>weight = (weight (fc1 m0))\<lparr>tdata := tdata (weight (fc1 (nb_model out)))\<rparr>,
                          bias = (bias (fc1 m0))\<lparr>tdata := tdata (bias (fc1 (nb_model out)))\<rparr>\<rparr>,
                fc2 := \<lparr>weight = (weight (fc2 m0))\<lparr>tdata := tdata (weight (fc2 (nb_model out)))\<rparr>,
                          bias = (bias (fc2 m0))\<lparr>tdata := tdata (bias (fc2 (nb_model out)))\<rparr>\<rparr>\<rparr>"
  have ld: "load_state_dict m0 (state_dict (nb_model out)) = Inr ?m1"
    using m0w(1) ow(1) by (rule load_state_dict_wf)
  let ?m2 = "simplenet_eval ?m1"
  have m2: "wf_simplenet ?m2" "net_device ?m2 = cuda_device 0"
    using m0w ow(1) by (simp_all add: simplenet_eval_def wf_simplenet_def wf_linear_def wf_tensor_def net_device_def)
  have data: "map (tdata \<circ> snd) (state_dict ?m2) = map (tdata \<circ> snd) (state_dict (nb_model out))"
    by (simp add: state_dict_def simplenet_eval_def)
  let ?loader = "data_loader 1 fmnist_transform testset2"
  have lo: "list_all (batch_ok 1) ?loader" "length ?loader = length testset2"
    using loader_batches_ok [of 1 testset2] assms(9) by simp_all
  obtain ps where ps: "run_cells h (cuda_device 0) (length ?loader) ?m2 ?loader = Inr (ps, ?m2, [])"
    and act: "map (\<lambda>p. Some (actual p)) ps = map (\<lambda>b. labels_map (hd (tdata (snd b)))) ?loader"
    using run_cells_loader [OF r m2 lo(1)] by blast
  have "torch_test_model_nb h draw1' draw2' (nb_files out) testset2 (length testset2) = Inr (?m2, ps, [])"
    using s m0 l ld ps lo(2) by (simp add: torch_test_model_nb_def Let_def)
  moreover have "\<not> training ?m2" by simp
  ultimately show ?thesis using nb data act loader_one_labels [of testset2] by auto
qed

text \<open>
  C3. The two PyTorch notebooks work together on a GPU host: after
  \<open>torch-use-gpu.ipynb\<close> has run as in C1, \<open>torch-test-model.ipynb\<close>,
  reading the file it wrote, runs a model holding exactly the trained
  parameter values, in evaluation mode, and running its prediction cell once
  per image of a test set of FashionMNIST samples reports, in order, the
  name of each image's label.
\<close>

theorem notebooks_handoff:
  assumes "cuda_is_available h" and "grad_shapes gradf"
    and "100 dvd length trainset" and "trainset \<noteq> []" and "100 dvd length testset" and "testset \<noteq> []"
    and "list_all fmnist_sample trainset" and "list_all fmnist_sample testset"
    and "list_all fmnist_sample testset2"
  shows "\<exists>out m ps. torch_use_gpu_nb h draw1 draw2 pick gradf trainset testset fs = Inr out \<and>
            torch_test_model_nb h draw1' draw2' (nb_files out) testset2 (length testset2) = Inr (m, ps, []) \<and>
            map (tdata \<circ> snd) (state_dict m) = map (tdata \<circ> snd) (state_dict (nb_model out)) \<and>
            \<not> training m \<and> map (\<lambda>p. Some (actual p)) ps = map (\<lambda>s. labels_map (snd s)) testset2"
  using assms by (rule nb_handoff)

theorem notebooks_handoff_witness:
  "cuda_is_available \<lparr>gpu_names = [''Tesla T4'']\<rparr> \<and> grad_shapes (\<lambda>net d t. map (\<lambda>p. map (\<lambda>_. 0) (tdata p)) (params net)) \<and>
   100 dvd length (replicate 100 (replicate 784 (0 :: u8), 3 :: int)) \<and> (replicate 100 (replicate 784 (0 :: u8), 3 :: int)) \<noteq> [] \<and> list_all fmnist_sample (replicate 100 (replicate 784 (0 :: u8), 3 :: int)) \<and>
   list_all fmnist_sample [(replicate 784 (0 :: u8), 3 :: int)] \<and>
   (\<exists>out m ps. torch_use_gpu_nb \<lparr>gpu_names = [''Tesla T4'']\<rparr> (\<lambda>_. 0) (\<lambda>_. 0) (\<lambda>i. i) (\<lambda>net d t. map (\<lambda>p. map (\<lambda>_. 0) (tdata p)) (params net))
                 (replicate 100 (replicate 784 (0 :: u8), 3 :: int)) (replicate 100 (replicate 784 (0 :: u8), 3 :: int)) Map.empty = Inr out \<and>
               torch_test_model_nb \<lparr>gpu_names = [''Tesla T4'']\<rparr> (\<lambda>_. 1) (\<lambda>_. 1) (nb_files out)
                 [(replicate 784 (0 :: u8), 3 :: int)] 1 = Inr (m, ps, []) \<and>
               map (\<lambda>p. Some (actual p)) ps = [Some ''Dress''])"
proof -
  have a: "cuda_is_available \<lparr>gpu_names = [''Tesla T4'']\<rparr>" by (simp add: cuda_is_available_def)
  have g: "grad_shapes (\<lambda>net d t. map (\<lambda>p. map (\<lambda>_. 0) (tdata p)) (params net))" by (simp add: grad_shapes_def comp_def)
  have d: "100 dvd length (replicate 100 (replicate 784 (0 :: u8), 3 :: int))" "(replicate 100 (replicate 784 (0 :: u8), 3 :: int)) \<noteq> []" by simp_all
  have f: "list_all fmnist_sample (replicate 100 (replicate 784 (0 :: u8), 3 :: int))" "list_all fmnist_sample [(replicate 784 (0 :: u8), 3 :: int)]"
    by (simp_all add: fmnist_sample_def list_all_iff)
  show ?thesis
    using notebooks_handoff [OF a g d d f(1) f(1) f(2), of "\<lambda>_. 0" "\<lambda>_. 0" "\<lambda>i. i" Map.empty "\<lambda>_. 1" "\<lambda>_. 1"]
      a g d f by (auto simp: labels_map_def)
qed

lemma run_all_refines_nb:
  "res_bind (exc_res (run_all env notebook_cells (kinit env))) kernel_result =
   torch_use_gpu_nb (e_host env) (fst (e_draw env 0)) (snd (e_draw env 0)) (e_pick env 1) (e_grad env)
     (e_trainset env) (e_testset env) (e_files env)"
proof -
  let ?pre = "[NvidiaSmi, Imports, CudaAvailable, DeviceCount, SetDevice, DeviceName, MakeXTrain, MoveXTrain,
      MakeXTest, DefineNet, MakeModel, MakeLoaders, PlotSamples, DefineTrain, DefineTest, RedefineTest, MakeOptimizer]"
  have split: "run_all env notebook_cells (kinit env) =
        (case exc_for (run_cell env) ?pre (kinit env) of
           (s', None) \<Rightarrow> run_all env [RunEpochs, SaveModel] s' | (s', Some e) \<Rightarrow> (s', Some e))"
    using run_all_append [of env ?pre "[RunEpochs, SaveModel]" "kinit env"]
    by (simp add: notebook_cells_def run_all_def [of env ?pre])
  show ?thesis
    unfolding split
    by (simp add: kinit_def torch_use_gpu_nb_def select_device_value Let_def emit_def kernel_tail epochs_ready_def
                  int_tensor_def int32_list_def int32_range_def heap_view_def raise_or_def tensor_cuda_no_gpu
             split: sum.splits)
qed

text \<open>
  C4. Running the code cells of \<open>torch-use-gpu.ipynb\<close> in order in a
  fresh kernel (\<open>Run All\<close>) refines the notebook-level model: whatever the
  host, the random draws, autograd, the datasets and the files, the kernel
  raises exactly the exception \<open>torch_use_gpu_nb\<close> raises, and otherwise
  ends with the same device, the same trained model object, the same printed
  reports and the same files. The model cell draws the first random numbers
  of the kernel and the plot cell the second.
\<close>

theorem notebook_kernel_refines:
  "res_bind (exc_res (run_all env notebook_cells (kinit env))) kernel_result =
   torch_use_gpu_nb (e_host env) (fst (e_draw env 0)) (snd (e_draw env 0)) (e_pick env 1) (e_grad env)
     (e_trainset env) (e_testset env) (e_files env)"
  by (rule run_all_refines_nb)

lemma trun_all_refines_nb:
  "res_bind (exc_res (trun_all env (test_cells @ replicate k TPredict) tkinit)) tkernel_result =
   torch_test_model_nb (e_host env) (fst (e_draw env 0)) (snd (e_draw env 0)) (e_files env) (e_testset env) k"
  unfolding tkernel_chain by (simp add: torch_test_model_nb_def Let_def)

text \<open>
  C5. Running the code cells of \<open>torch-test-model.ipynb\<close> in order in a
  fresh kernel and then the prediction cell \<open>k\<close> times refines the
  notebook-level model: the kernel raises exactly the exception
  \<open>torch_test_model_nb\<close> raises, and otherwise holds the same model, has
  printed the same predictions, and leaves the same iterator. The model cell
  draws the first random numbers of the kernel.
\<close>

theorem test_notebook_kernel_refines:
  "res_bind (exc_res (trun_all env (test_cells @ replicate k TPredict) tkinit)) tkernel_result =
   torch_test_model_nb (e_host env) (fst (e_draw env 0)) (snd (e_draw env 0)) (e_files env) (e_testset env) k"
  by (rule trun_all_refines_nb)

text \<open>
  C6. The two PyTorch notebooks work together as kernels: on a GPU host,
  with training and test sets of full batches of FashionMNIST samples,
  \<open>Run All\<close> of \<open>torch-use-gpu.ipynb\<close> completes, and a fresh kernel of
  \<open>torch-test-model.ipynb\<close> on the files it left (with any random draws and
  any test set of FashionMNIST samples), running its cells in order and
  then the prediction cell once per test image, ends with a model holding
  exactly the parameter values the training kernel's \<open>model\<close> holds, in
  evaluation mode, having printed the name of each image's label in order
  and exhausted the iterator.
\<close>

theorem kernels_handoff:
  assumes "cuda_is_available (e_host env)" and "grad_shapes (e_grad env)"
    and "100 dvd length (e_trainset env)" and "e_trainset env \<noteq> []"
    and "100 dvd length (e_testset env)" and "e_testset env \<noteq> []"
    and "list_all fmnist_sample (e_trainset env)" and "list_all fmnist_sample (e_testset env)"
    and "list_all fmnist_sample ts2"
  shows "\<exists>s out m ps. run_all env notebook_cells (kinit env) = (s, None) \<and> kernel_result s = Inr out \<and>
           res_bind (exc_res (trun_all (env\<lparr>e_draw := draw', e_testset := ts2, e_files := k_files s\<rparr>)
                                       (test_cells @ replicate (length ts2) TPredict) tkinit)) tkernel_result =
             Inr (m, ps, []) \<and>
           map (tdata \<circ> snd) (state_dict m) = map (tdata \<circ> snd) (state_dict (nb_model out)) \<and> \<not> training m \<and>
           map (\<lambda>p. Some (actual p)) ps = map (\<lambda>x. labels_map (snd x)) ts2"
proof -
  obtain out m ps where nb: "torch_use_gpu_nb (e_host env) (fst (e_draw env 0)) (snd (e_draw env 0)) (e_pick env 1)
                               (e_grad env) (e_trainset env) (e_testset env) (e_files env) = Inr out"
    and tm: "torch_test_model_nb (e_host env) (fst (draw' 0)) (snd (draw' 0)) (nb_files out) ts2 (length ts2) = Inr (m, ps, [])"
    and rest: "map (tdata \<circ> snd) (state_dict m) = map (tdata \<circ> snd) (state_dict (nb_model out))" "\<not> training m"
      "map (\<lambda>p. Some (actual p)) ps = map (\<lambda>x. labels_map (snd x)) ts2"
    using nb_handoff [OF assms] by blast
  obtain s where r: "run_all env notebook_cells (kinit env) = (s, None)" and k: "kernel_result s = Inr out"
    using run_all_refines_nb [of env] nb
    by (cases "run_all env notebook_cells (kinit env)") (auto simp: res_bind_def exc_res_def split: option.splits sum.splits)
  have f: "k_files s = nb_files out"
    using k by (auto simp: kernel_result_def res_bind_def lookup_def split: option.splits)
  have "res_bind (exc_res (trun_all (env\<lparr>e_draw := draw', e_testset := ts2, e_files := k_files s\<rparr>)
                                    (test_cells @ replicate (length ts2) TPredict) tkinit)) tkernel_result =
          Inr (m, ps, [])"
    using trun_all_refines_nb [of "env\<lparr>e_draw := draw', e_testset := ts2, e_files := k_files s\<rparr>" "length ts2"] tm f
    by simp
  then show ?thesis using r k rest by blast
qed

theorem kernels_handoff_witness:
  "let env = \<lparr>e_host = \<lparr>gpu_names = [''Tesla T4'']\<rparr>, e_draw = \<lambda>_. (\<lambda>_. 0, \<lambda>_. 0), e_pick = \<lambda>_ i. i,
               e_grad = \<lambda>net _ _. map (\<lambda>p. map (\<lambda>_. 0) (tdata p)) (params net),
               e_trainset = replicate 100 (replicate 784 0, 3), e_testset = replicate 100 (replicate 784 0, 3),
               e_files = Map.empty\<rparr>;
       ts2 = [(replicate 784 0, 3)]
   in cuda_is_available (e_host env) \<and> grad_shapes (e_grad env) \<and> list_all fmnist_sample (e_trainset env) \<and>
      list_all fmnist_sample ts2 \<and>
      (\<exists>s out m ps. run_all env notebook_cells (kinit env) = (s, None) \<and> kernel_result s = Inr out \<and>
         res_bind (exc_res (trun_all (env\<lparr>e_draw := \<lambda>_. (\<lambda>_. 1, \<lambda>_. 1), e_testset := ts2, e_files := k_files s\<rparr>)
                                     (test_cells @ replicate (length ts2) TPredict) tkinit)) tkernel_result =
           Inr (m, ps, []) \<and>
         map (tdata \<circ> snd) (state_dict m) = map (tdata \<circ> snd) (state_dict (nb_model out)) \<and> \<not> training m \<and>
         map (\<lambda>p. Some (actual p)) ps = [Some ''Dress''])"
proof -
  let ?env = "\<lparr>e_host = \<lparr>gpu_names = [''Tesla T4'']\<rparr>, e_draw = \<lambda>_. (\<lambda>_. 0 :: real, \<lambda>_. 0 :: real), e_pick = \<lambda>_ i. i,
               e_grad = (\<lambda>net _ _. map (\<lambda>p. map (\<lambda>_. 0) (tdata p)) (params net)) :: grad_fn,
               e_trainset = replicate 100 (replicate 784 (0 :: u8), 3 :: int),
               e_testset = replicate 100 (replicate 784 (0 :: u8), 3 :: int), e_files = Map.empty\<rparr>"
  have a: "cuda_is_available (e_host ?env)" by (simp add: cuda_is_available_def)
  have g: "grad_shapes (e_grad ?env)" by (simp add: grad_shapes_def comp_def)
  have d: "100 dvd length (e_trainset ?env)" "e_trainset ?env \<noteq> []"
    "100 dvd length (e_testset ?env)" "e_testset ?env \<noteq> []" by simp_all
  have f: "list_all fmnist_sample (e_trainset ?env)" "list_all fmnist_sample (e_testset ?env)"
    "list_all fmnist_sample [(replicate 784 (0 :: u8), 3 :: int)]"
    by (simp_all add: fmnist_sample_def list_all_iff)
  show ?thesis unfolding Let_def
    using kernels_handoff [OF a g d f, of "\<lambda>_. (\<lambda>_. 1, \<lambda>_. 1)"] a g f
    by (auto simp: labels_map_def)
qed

end
